theory Spec2Isabelle
  imports Complex_Main "HOL-Library.AList"
begin

section \<open>JavaScript values and strings\<close>

text \<open>
  The client is TypeScript. A property of a wire payload may be absent (\<open>undefined\<close>),
  \<open>null\<close>, or present; \<open>a ?? b\<close> takes \<open>b\<close> in the first two cases.
\<close>

datatype 'a wire = Undefined | Null | Val 'a

fun coalesce :: "'a wire \<Rightarrow> 'a \<Rightarrow> 'a" where
  "coalesce (Val x) d = x"
| "coalesce Undefined d = d"
| "coalesce Null d = d"

text \<open>
  Identifiers arrive as a number or a string (\<open>id: number | string\<close>). Numbers are
  modelled as integers, which is what the backend's primary keys are; \<open>String(n)\<close> is
  then the decimal numeral (for magnitudes below \<open>10^21\<close>, where JavaScript switches to
  exponent notation).
\<close>

datatype js_id = NumId int | StrId string

definition digit_char :: "nat \<Rightarrow> char" where
  "digit_char d = ''0123456789'' ! d"

fun show_nat :: "nat \<Rightarrow> string" where
  "show_nat n = (if n < 10 then [digit_char n] else show_nat (n div 10) @ [digit_char (n mod 10)])"

declare show_nat.simps [simp del]

definition show_int :: "int \<Rightarrow> string" where
  "show_int i = (if i < 0 then CHR ''-'' # show_nat (nat (- i)) else show_nat (nat i))"

fun String_id :: "js_id \<Rightarrow> string" where
  "String_id (NumId n) = show_int n"
| "String_id (StrId s) = s"

text \<open>\<open>String(x)\<close> of a property that may be absent or null.\<close>

fun String_wire :: "js_id wire \<Rightarrow> string" where
  "String_wire (Val i) = String_id i"
| "String_wire Undefined = ''undefined''"
| "String_wire Null = ''null''"

text \<open>Truthiness of an identifier: \<open>0\<close> and the empty string are falsy.\<close>

fun truthy_id :: "js_id wire \<Rightarrow> bool" where
  "truthy_id (Val (NumId n)) = (n \<noteq> 0)"
| "truthy_id (Val (StrId s)) = (s \<noteq> [])"
| "truthy_id Undefined = False"
| "truthy_id Null = False"

text \<open>
  \<open>toLowerCase\<close> on the ASCII letters (strings are byte strings here; other characters
  are left as they are), \<open>startsWith\<close> and \<open>includes\<close> (here \<open>includes_str\<close>).
\<close>

definition lower_char :: "char \<Rightarrow> char" where
  "lower_char c =
     (case map_of (zip ''ABCDEFGHIJKLMNOPQRSTUVWXYZ'' ''abcdefghijklmnopqrstuvwxyz'') c of
        Some d \<Rightarrow> d
      | None \<Rightarrow> c)"

definition toLowerCase :: "string \<Rightarrow> string" where
  "toLowerCase s = map lower_char s"

fun startsWith :: "string \<Rightarrow> string \<Rightarrow> bool" where
  "startsWith s [] = True"
| "startsWith [] (p # ps) = False"
| "startsWith (c # cs) (p # ps) = (c = p \<and> startsWith cs ps)"

fun includes_str :: "string \<Rightarrow> string \<Rightarrow> bool" where
  "includes_str [] p = (p = [])"
| "includes_str (c # cs) p = (startsWith (c # cs) p \<or> includes_str cs p)"

section \<open>Client-side records\<close>

text \<open>
  Modelled from the spec: the module \<open>@/types\<close>, which declares \<open>User\<close>, \<open>Task\<close>
  and \<open>AuthSession\<close>, is not among the sources. The fields are the ones the spec lists
  and the normalisers build. A field of a task is a \<open>wire\<close> value where one of the two
  clients can leave it \<open>undefined\<close>, and a plain value where both always fill it. The
  raw task is the type \<open>RawTask\<close> of the frontend client, with every optional property
  allowed to be \<open>null\<close> as well.
\<close>

record Task =
  task_id :: string
  task_title :: "string wire"
  task_description :: string
  task_dueDate :: "string option"
  task_priority :: string
  task_status :: string
  task_createdAt :: "string wire"
  task_updatedAt :: "string wire"
  task_userId :: string

record RawTask =
  rt_id :: js_id
  rt_title :: "string wire"
  rt_description :: "string wire"
  rt_dueDate :: "string wire"
  rt_priority :: "string wire"
  rt_status :: "string wire"
  rt_createdAt :: "string wire"
  rt_updatedAt :: "string wire"
  rt_userId :: "js_id wire"

section \<open>Normalisers of tasks\<close>

subsection \<open>Frontend client (\<open>djangoApi\<close>)\<close>

definition normalizeTask :: "RawTask \<Rightarrow> Task" where
  "normalizeTask payload =
     \<lparr> task_id = String_id (rt_id payload),
       task_title = Val (coalesce (rt_title payload) ''''),
       task_description = coalesce (rt_description payload) '''',
       task_dueDate = (case rt_dueDate payload of Val d \<Rightarrow> Some d | Undefined \<Rightarrow> None | Null \<Rightarrow> None),
       task_priority = coalesce (rt_priority payload) ''medium'',
       task_status = coalesce (rt_status payload) ''todo'',
       task_createdAt = Val (coalesce (rt_createdAt payload) ''''),
       task_updatedAt = Val (coalesce (rt_updatedAt payload) ''''),
       task_userId =
         (if rt_userId payload \<noteq> Undefined \<and> rt_userId payload \<noteq> Null
          then String_wire (rt_userId payload) else '''') \<rparr>"

subsection \<open>\<open>do-smart-ai\<close> client\<close>

text \<open>
  Here the payload is typed \<open>any\<close>; it is read at the same properties. \<open>title\<close>,
  \<open>createdAt\<close> and \<open>updatedAt\<close> are passed through as they are, and \<open>userId\<close> is
  tested for truthiness.
\<close>

definition normalizeTask_dsa :: "RawTask \<Rightarrow> Task" where
  "normalizeTask_dsa payload =
     \<lparr> task_id = String_id (rt_id payload),
       task_title = rt_title payload,
       task_description = coalesce (rt_description payload) '''',
       task_dueDate = (case rt_dueDate payload of Val d \<Rightarrow> Some d | Undefined \<Rightarrow> None | Null \<Rightarrow> None),
       task_priority = coalesce (rt_priority payload) ''medium'',
       task_status = coalesce (rt_status payload) ''todo'',
       task_createdAt = rt_createdAt payload,
       task_updatedAt = rt_updatedAt payload,
       task_userId = (if truthy_id (rt_userId payload) then String_wire (rt_userId payload) else '''') \<rparr>"

section \<open>Parsed bodies\<close>

text \<open>
  A value of type \<open>unknown\<close> that came out of \<open>response.json()\<close> or
  \<open>response.text()\<close>. Numbers are integers (see above). \<open>undefined\<close> is not a JSON
  value: a property read gives a \<open>json option\<close>, \<open>None\<close> for \<open>undefined\<close>.
\<close>

datatype json =
  JNull
| JBool bool
| JNum int
| JStr string
| JArr "json list"
| JObj "(string \<times> json) list"

text \<open>
  \<open>v.k\<close> for a value \<open>v\<close> that is neither \<open>null\<close> nor \<open>undefined\<close> and a key
  \<open>k\<close> that is not a built-in property name (the clients read \<open>detail\<close>, \<open>message\<close>,
  \<open>access\<close>, \<open>refresh\<close>, \<open>user\<close>, \<open>id\<close>, \<open>email\<close>, \<open>name\<close>, \<open>profile\<close>).
\<close>

fun property :: "json \<Rightarrow> string \<Rightarrow> json option" where
  "property (JObj kvs) k = map_of kvs k"
| "property JNull k = None"
| "property (JBool b) k = None"
| "property (JNum n) k = None"
| "property (JStr s) k = None"
| "property (JArr xs) k = None"

text \<open>
  \<open>String(v)\<close>: an array is its elements joined by commas, with \<open>null\<close> elements
  empty; an object is \<open>[object Object]\<close>.
\<close>

fun join_comma :: "string list \<Rightarrow> string" where
  "join_comma [] = []"
| "join_comma [x] = x"
| "join_comma (x # y # ys) = x @ '','' @ join_comma (y # ys)"

fun String_json :: "json \<Rightarrow> string" where
  "String_json JNull = ''null''"
| "String_json (JBool b) = (if b then ''true'' else ''false'')"
| "String_json (JNum n) = show_int n"
| "String_json (JStr s) = s"
| "String_json (JArr xs) = join_comma (map (\<lambda>x. if x = JNull then [] else String_json x) xs)"
| "String_json (JObj kvs) = ''[object Object]''"

text \<open>
  A JavaScript value as the clients meet it: a JSON value, or \<open>undefined\<close> (\<open>None\<close>).
  Whatever the declared TypeScript types say, a token or a user field taken from a
  parsed body is such a value. \<open>String_js\<close> is \<open>String(v)\<close>, also what a template
  literal makes of \<open>v\<close>; \<open>truthy\<close> is the test of \<open>if (v)\<close>; \<open>coalesce_json a b\<close> is
  \<open>a ?? b\<close>.
\<close>

type_synonym jsvalue = "json option"

fun String_js :: "jsvalue \<Rightarrow> string" where
  "String_js None = ''undefined''"
| "String_js (Some v) = String_json v"

fun truthy :: "jsvalue \<Rightarrow> bool" where
  "truthy None = False"
| "truthy (Some JNull) = False"
| "truthy (Some (JBool b)) = b"
| "truthy (Some (JNum n)) = (n \<noteq> 0)"
| "truthy (Some (JStr s)) = (s \<noteq> [])"
| "truthy (Some (JArr xs)) = True"
| "truthy (Some (JObj kvs)) = True"

definition coalesce_json :: "jsvalue \<Rightarrow> jsvalue \<Rightarrow> jsvalue" where
  "coalesce_json a b = (if a = None \<or> a = Some JNull then b else a)"

text \<open>
  An object literal \<open>{ k: v, ... }\<close>. A property whose value is \<open>undefined\<close> reads as
  \<open>undefined\<close> and is left out by \<open>JSON.stringify\<close>; it is left out here.
\<close>

fun defined_properties :: "(string \<times> jsvalue) list \<Rightarrow> (string \<times> json) list" where
  "defined_properties [] = []"
| "defined_properties ((k, None) # r) = defined_properties r"
| "defined_properties ((k, Some v) # r) = (k, v) # defined_properties r"

definition object_literal :: "(string \<times> jsvalue) list \<Rightarrow> json" where
  "object_literal kvs = JObj (defined_properties kvs)"


section \<open>Headers\<close>

text \<open>
  A \<open>Headers\<close> object: names are case-insensitive (kept in lower case), one value per
  name; \<open>append\<close> joins a second value to the first with a comma, \<open>set\<close> replaces.
\<close>

type_synonym Headers = "(string \<times> string) list"

definition Headers_get :: "Headers \<Rightarrow> string \<Rightarrow> string option" where
  "Headers_get h n = map_of h (toLowerCase n)"

definition Headers_has :: "Headers \<Rightarrow> string \<Rightarrow> bool" where
  "Headers_has h n = (Headers_get h n \<noteq> None)"

definition Headers_set :: "Headers \<Rightarrow> string \<Rightarrow> string \<Rightarrow> Headers" where
  "Headers_set h n v = AList.update (toLowerCase n) v h"

definition Headers_append :: "Headers \<Rightarrow> string \<times> string \<Rightarrow> Headers" where
  "Headers_append h nv =
     (case Headers_get h (fst nv) of
        None \<Rightarrow> Headers_set h (fst nv) (snd nv)
      | Some old \<Rightarrow> Headers_set h (fst nv) (old @ '', '' @ snd nv))"

definition new_Headers :: "(string \<times> string) list \<Rightarrow> Headers" where
  "new_Headers init = foldl Headers_append [] init"

section \<open>The session store (\<open>authStore\<close>)\<close>

text \<open>
  This is \<open>frontend/src/lib/authStore.ts\<close>. The \<open>do-smart-ai\<close> client imports a
  module of the same name that is not among the sources; the spec describes one session
  store, this one, and both clients are run on it.
\<close>

text \<open>
  Modelled from the spec: \<open>User\<close> of \<open>@/types\<close>. The \<open>id\<close> is always made by
  \<open>String\<close>; \<open>email\<close> and \<open>name\<close>, and the two tokens below, hold whatever value the
  parsed body had.
\<close>

record User =
  user_id :: string
  user_email :: jsvalue
  user_name :: jsvalue

record AuthTokens =
  access :: jsvalue
  refresh :: jsvalue

record StoredAuthState =
  tokens :: AuthTokens
  user :: User

record AuthSession =
  accessToken :: jsvalue
  refreshToken :: jsvalue
  sessionUser :: User

text \<open>
  What the program runs in. \<open>JSON_stringify\<close> and \<open>JSON_parse\<close> are the platform's
  \<open>JSON.stringify\<close> and \<open>JSON.parse\<close> at the type of the stored session (\<open>None\<close>: the
  parser throws); \<open>API_BASE_URL\<close> comes from the build environment; \<open>server\<close> answers
  a request, given the requests made before it.
\<close>

datatype body_init = NoBody | FormData | JsonBody json | OtherBody string

record http_request =
  req_url :: string
  req_method :: "string option"
  req_headers :: Headers
  req_body :: body_init

record Response =
  resp_status :: nat
  resp_header_list :: "(string \<times> string) list"
  resp_text :: string
  resp_json :: "json option"

datatype fetch_result = Rejected | Resolved Response

record env =
  API_BASE_URL :: string
  JSON_stringify :: "StoredAuthState \<Rightarrow> string"
  JSON_parse :: "string \<Rightarrow> StoredAuthState option"
  server :: "http_request list \<Rightarrow> http_request \<Rightarrow> fetch_result"

text \<open>
  The mutable state: the browser flag, \<open>window.localStorage\<close>, the set of listeners (in
  insertion order; a listener is known by its identity), the calls made to listeners so
  far, and the requests sent so far. A listener observes; it does not write to the store.
  Console output is not part of the state.
\<close>

type_synonym Listener = nat

record world =
  isBrowser :: bool
  localStorage :: "string \<rightharpoonup> string"
  listeners :: "Listener list"
  delivered :: "(Listener \<times> StoredAuthState option) list"
  fetched :: "http_request list"

definition STORAGE_KEY :: string where
  "STORAGE_KEY = ''do-smart-ai.auth''"

definition readStorage :: "env \<Rightarrow> world \<Rightarrow> StoredAuthState option" where
  "readStorage e w =
     (if \<not> isBrowser w then None
      else case localStorage w STORAGE_KEY of
             None \<Rightarrow> None
           | Some raw \<Rightarrow> if raw = [] then None else JSON_parse e raw)"

definition writeStorage :: "env \<Rightarrow> StoredAuthState option \<Rightarrow> world \<Rightarrow> world" where
  "writeStorage e state w =
     (if \<not> isBrowser w then w
      else case state of
             Some s \<Rightarrow> w\<lparr>localStorage := (localStorage w)(STORAGE_KEY \<mapsto> JSON_stringify e s)\<rparr>
           | None \<Rightarrow> w\<lparr>localStorage := (localStorage w)(STORAGE_KEY := None)\<rparr>)"

definition call_listener :: "StoredAuthState option \<Rightarrow> Listener \<Rightarrow> world \<Rightarrow> world" where
  "call_listener state l w = w\<lparr>delivered := delivered w @ [(l, state)]\<rparr>"

definition notify :: "StoredAuthState option \<Rightarrow> world \<Rightarrow> world" where
  "notify state w = fold (call_listener state) (listeners w) w"

definition getState :: "env \<Rightarrow> world \<Rightarrow> StoredAuthState option" where
  "getState e w = readStorage e w"

definition getTokens :: "env \<Rightarrow> world \<Rightarrow> AuthTokens option" where
  "getTokens e w = map_option tokens (readStorage e w)"

definition setState :: "env \<Rightarrow> StoredAuthState \<Rightarrow> world \<Rightarrow> world" where
  "setState e state w = notify (Some state) (writeStorage e (Some state) w)"

definition clear :: "env \<Rightarrow> world \<Rightarrow> world" where
  "clear e w = notify None (writeStorage e None w)"

definition updateUser :: "env \<Rightarrow> User \<Rightarrow> world \<Rightarrow> world" where
  "updateUser e u w =
     (case readStorage e w of
        None \<Rightarrow> w
      | Some current \<Rightarrow>
          let next = current\<lparr>user := u\<rparr>
          in notify (Some next) (writeStorage e (Some next) w))"

definition subscribe :: "Listener \<Rightarrow> world \<Rightarrow> world" where
  "subscribe l w = w\<lparr>listeners := (if l \<in> set (listeners w) then listeners w else listeners w @ [l])\<rparr>"

definition unsubscribe :: "Listener \<Rightarrow> world \<Rightarrow> world" where
  "unsubscribe l w = w\<lparr>listeners := removeAll l (listeners w)\<rparr>"

text \<open>\<open>getSession\<close>, the same in \<open>djangoApi.auth\<close> and in \<open>authApi\<close>.\<close>

definition getSession :: "env \<Rightarrow> world \<Rightarrow> AuthSession option" where
  "getSession e w =
     (case getState e w of
        None \<Rightarrow> None
      | Some state \<Rightarrow>
          Some \<lparr> accessToken = access (tokens state),
                 refreshToken = refresh (tokens state),
                 sessionUser = user state \<rparr>)"

section \<open>The API client\<close>

text \<open>
  What a call can throw. \<open>ApiError message status data\<close> is the typed error;
  \<open>FetchRejected\<close> is a rejected \<open>fetch\<close>; \<open>JsonSyntaxError\<close> is a rejected
  \<open>response.json()\<close>; \<open>TypeError\<close> is a property read on \<open>null\<close> or \<open>undefined\<close>.
\<close>

datatype error =
  ApiError string nat json
| FetchRejected
| JsonSyntaxError
| TypeError

record RequestOptions =
  skipAuth :: bool
  opt_headers :: "(string \<times> string) list"
  opt_method :: "string option"
  opt_body :: body_init

definition ok :: "Response \<Rightarrow> bool" where
  "ok r = (200 \<le> resp_status r \<and> resp_status r \<le> 299)"

definition response_headers :: "Response \<Rightarrow> Headers" where
  "response_headers r = new_Headers (resp_header_list r)"

definition fetch :: "env \<Rightarrow> http_request \<Rightarrow> world \<Rightarrow> fetch_result \<times> world" where
  "fetch e rq w = (server e (fetched w) rq, w\<lparr>fetched := fetched w @ [rq]\<rparr>)"

subsection \<open>Token refresh\<close>

definition refresh_request :: "env \<Rightarrow> string \<Rightarrow> jsvalue \<Rightarrow> http_request" where
  "refresh_request e path token =
     \<lparr> req_url = API_BASE_URL e @ path,
       req_method = Some ''POST'',
       req_headers = new_Headers [(''Content-Type'', ''application/json'')],
       req_body = JsonBody (object_literal [(''refresh'', token)]) \<rparr>"

text \<open>
  The \<open>try\<close> block of \<open>refreshAccessToken\<close>, which the two clients share word for
  word but for the path. The result \<open>Some JNull\<close> is \<open>null\<close>. When the parsed body is
  \<open>null\<close>, \<open>data.access\<close> throws and the \<open>catch\<close> block runs; for any other body
  \<open>data.access\<close> is stored and returned, be it \<open>undefined\<close>.
\<close>

definition refresh_exchange ::
  "env \<Rightarrow> string \<Rightarrow> StoredAuthState \<Rightarrow> world \<Rightarrow> jsvalue \<times> world" where
  "refresh_exchange e path state w =
     (case fetch e (refresh_request e path (refresh (tokens state))) w of
        (Rejected, w1) \<Rightarrow> (Some JNull, clear e w1)
      | (Resolved response, w1) \<Rightarrow>
          if \<not> ok response then (Some JNull, clear e w1)
          else (case resp_json response of
                  None \<Rightarrow> (Some JNull, clear e w1)
                | Some data \<Rightarrow>
                    if data = JNull then (Some JNull, clear e w1)
                    else (property data ''access'',
                          setState e \<lparr> tokens = \<lparr> access = property data ''access'',
                                                   refresh = refresh (tokens state) \<rparr>,
                                       user = user state \<rparr> w1)))"

definition refreshAccessToken :: "env \<Rightarrow> world \<Rightarrow> jsvalue \<times> world" where
  "refreshAccessToken e w =
     (case getState e w of
        None \<Rightarrow> (Some JNull, w)
      | Some state \<Rightarrow>
          if \<not> truthy (refresh (tokens state)) then (Some JNull, w)
          else refresh_exchange e ''/auth/refresh/'' state w)"

definition refreshAccessToken_dsa :: "env \<Rightarrow> world \<Rightarrow> jsvalue \<times> world" where
  "refreshAccessToken_dsa e w =
     (case getState e w of
        None \<Rightarrow> (Some JNull, w)
      | Some state \<Rightarrow> refresh_exchange e ''/auth/token/refresh/'' state w)"

subsection \<open>Frontend \<open>request\<close>\<close>

definition merge_headers :: "RequestOptions \<Rightarrow> Headers" where
  "merge_headers options =
     (let mergedHeaders = new_Headers (opt_headers options);
          mergedHeaders =
            (if \<not> Headers_has mergedHeaders ''Accept''
             then Headers_set mergedHeaders ''Accept'' ''application/json'' else mergedHeaders)
      in if opt_body options \<noteq> FormData \<and> \<not> Headers_has mergedHeaders ''Content-Type''
            \<and> opt_method options \<noteq> None \<and> opt_method options \<noteq> Some []
            \<and> opt_method options \<noteq> Some ''GET''
         then Headers_set mergedHeaders ''Content-Type'' ''application/json''
         else mergedHeaders)"

definition attach_bearer :: "bool \<Rightarrow> StoredAuthState option \<Rightarrow> Headers \<Rightarrow> Headers" where
  "attach_bearer skip state h =
     (case state of
        None \<Rightarrow> h
      | Some s \<Rightarrow>
          if \<not> skip \<and> truthy (access (tokens s))
          then Headers_set h ''Authorization'' (''Bearer '' @ String_js (access (tokens s))) else h)"

definition has_refresh :: "StoredAuthState option \<Rightarrow> bool" where
  "has_refresh state = (case state of None \<Rightarrow> False | Some s \<Rightarrow> truthy (refresh (tokens s)))"

definition first_request :: "env \<Rightarrow> string \<Rightarrow> RequestOptions \<Rightarrow> world \<Rightarrow> http_request" where
  "first_request e path options w =
     \<lparr> req_url = API_BASE_URL e @ (if startsWith path ''/'' then path else ''/'' @ path),
       req_method = opt_method options,
       req_headers = attach_bearer (skipAuth options) (getState e w) (merge_headers options),
       req_body = opt_body options \<rparr>"

definition read_body :: "Response \<Rightarrow> error + json" where
  "read_body response =
     (let contentType =
            (case Headers_get (response_headers response) ''Content-Type'' of
               Some c \<Rightarrow> c | None \<Rightarrow> '''')
      in if includes_str contentType ''application/json''
         then (case resp_json response of None \<Rightarrow> Inl JsonSyntaxError | Some j \<Rightarrow> Inr j)
         else if length contentType > 0 then Inr (JStr (resp_text response))
         else Inr JNull)"

fun is_object :: "json \<Rightarrow> bool" where
  "is_object (JObj kvs) = True"
| "is_object (JArr xs) = True"
| "is_object j = False"

definition error_message :: "nat \<Rightarrow> json \<Rightarrow> string" where
  "error_message st data =
     (let message = ''Request failed with status '' @ show_nat st
      in if is_object data
         then (case property data ''detail'' of
                 Some (JStr detail) \<Rightarrow> detail
               | _ \<Rightarrow> (case property data ''message'' of
                         Some (JStr fallbackMessage) \<Rightarrow> fallbackMessage
                       | _ \<Rightarrow> message))
         else message)"

text \<open>From the test for status 204 to the end of \<open>request\<close>; \<open>Inr None\<close> is \<open>undefined\<close>.\<close>

definition settle :: "env \<Rightarrow> bool \<Rightarrow> Response \<Rightarrow> world \<Rightarrow> (error + json option) \<times> world" where
  "settle e skip response w =
     (if resp_status response = 204 then (Inr None, w)
      else case read_body response of
             Inl err \<Rightarrow> (Inl err, w)
           | Inr data \<Rightarrow>
               if \<not> ok response
               then (Inl (ApiError (error_message (resp_status response) data)
                                   (resp_status response) data),
                     if resp_status response = 401 \<and> \<not> skip then clear e w else w)
               else (Inr (Some data), w))"

definition request ::
  "env \<Rightarrow> string \<Rightarrow> RequestOptions \<Rightarrow> world \<Rightarrow> (error + json option) \<times> world" where
  "request e path options w =
     (let state = getState e w;
          rq = first_request e path options w
      in case fetch e rq w of
           (Rejected, w1) \<Rightarrow> (Inl FetchRejected, w1)
         | (Resolved response, w1) \<Rightarrow>
             if resp_status response = 401 \<and> \<not> skipAuth options \<and> has_refresh state
             then (case refreshAccessToken e w1 of
                     (newAccess, w2) \<Rightarrow>
                       if truthy newAccess
                       then (case fetch e (rq\<lparr>req_headers :=
                                    Headers_set (req_headers rq) ''Authorization''
                                      (''Bearer '' @ String_js newAccess)\<rparr>) w2 of
                               (Rejected, w3) \<Rightarrow> (Inl FetchRejected, w3)
                             | (Resolved retried, w3) \<Rightarrow> settle e (skipAuth options) retried w3)
                       else settle e (skipAuth options) response w2)
             else settle e (skipAuth options) response w1)"

subsection \<open>\<open>do-smart-ai\<close> \<open>apiRequest\<close>\<close>

definition merge_headers_dsa :: "RequestOptions \<Rightarrow> Headers" where
  "merge_headers_dsa options =
     (let headers = new_Headers (opt_headers options)
      in if opt_body options \<noteq> FormData \<and> \<not> Headers_has headers ''Content-Type''
         then Headers_set headers ''Content-Type'' ''application/json''
         else headers)"

definition first_request_dsa :: "env \<Rightarrow> string \<Rightarrow> RequestOptions \<Rightarrow> world \<Rightarrow> http_request" where
  "first_request_dsa e path options w =
     \<lparr> req_url = API_BASE_URL e @ path,
       req_method = opt_method options,
       req_headers = attach_bearer (skipAuth options) (getState e w) (merge_headers_dsa options),
       req_body = opt_body options \<rparr>"

definition read_body_dsa :: "Response \<Rightarrow> error + json" where
  "read_body_dsa response =
     (let contentType =
            (case Headers_get (response_headers response) ''Content-Type'' of
               Some c \<Rightarrow> c | None \<Rightarrow> '''')
      in if includes_str contentType ''application/json''
         then (case resp_json response of None \<Rightarrow> Inl JsonSyntaxError | Some j \<Rightarrow> Inr j)
         else Inr (JStr (resp_text response)))"

text \<open>
  \<open>data?.detail ?? data?.message ?? `Request failed...`\<close>, turned into a string by the
  \<open>Error\<close> constructor.
\<close>

definition error_message_dsa :: "nat \<Rightarrow> json \<Rightarrow> string" where
  "error_message_dsa st data =
     (let generic = ''Request failed with status '' @ show_nat st
      in case coalesce_json (property data ''detail'')
                (coalesce_json (property data ''message'') (Some (JStr generic))) of
           Some message \<Rightarrow> String_json message
         | None \<Rightarrow> generic)"

definition settle_dsa :: "Response \<Rightarrow> world \<Rightarrow> (error + json option) \<times> world" where
  "settle_dsa response w =
     (if resp_status response = 204 then (Inr None, w)
      else case read_body_dsa response of
             Inl err \<Rightarrow> (Inl err, w)
           | Inr data \<Rightarrow>
               if \<not> ok response
               then (Inl (ApiError (error_message_dsa (resp_status response) data)
                                   (resp_status response) data), w)
               else (Inr (Some data), w))"

definition apiRequest ::
  "env \<Rightarrow> string \<Rightarrow> RequestOptions \<Rightarrow> world \<Rightarrow> (error + json option) \<times> world" where
  "apiRequest e path options w =
     (let state = getState e w;
          rq = first_request_dsa e path options w
      in case fetch e rq w of
           (Rejected, w1) \<Rightarrow> (Inl FetchRejected, w1)
         | (Resolved response, w1) \<Rightarrow>
             if resp_status response = 401 \<and> \<not> skipAuth options \<and> has_refresh state
             then (case refreshAccessToken_dsa e w1 of
                     (newAccess, w2) \<Rightarrow>
                       if truthy newAccess
                       then (case fetch e (rq\<lparr>req_headers :=
                                    Headers_set (req_headers rq) ''Authorization''
                                      (''Bearer '' @ String_js newAccess)\<rparr>) w2 of
                               (Rejected, w3) \<Rightarrow> (Inl FetchRejected, w3)
                             | (Resolved retried, w3) \<Rightarrow> settle_dsa retried w3)
                       else settle_dsa response w2)
             else settle_dsa response w1)"

section \<open>Authentication calls\<close>

subsection \<open>Frontend \<open>djangoApi.auth\<close>\<close>

text \<open>
  \<open>normalizeUser\<close>. Its first read is \<open>payload.id\<close>, a \<open>TypeError\<close> when the payload is
  \<open>null\<close> or \<open>undefined\<close>. Whatever the payload holds at \<open>id\<close> goes through \<open>String\<close>;
  \<open>email\<close> and \<open>name\<close> are taken as they are unless \<open>null\<close> or \<open>undefined\<close>.
\<close>

definition normalizeUser :: "jsvalue \<Rightarrow> error + User" where
  "normalizeUser v =
     (case v of
        None \<Rightarrow> Inl TypeError
      | Some payload \<Rightarrow>
          if payload = JNull then Inl TypeError
          else Inr \<lparr> user_id = String_js (property payload ''id''),
                     user_email = coalesce_json (property payload ''email'') (Some (JStr [])),
                     user_name = coalesce_json
                       (coalesce_json (property payload ''name'') (property payload ''email''))
                       (Some (JStr [])) \<rparr>)"

text \<open>
  \<open>login\<close>. The value that \<open>request\<close> gives is read at \<open>user\<close>, \<open>access\<close> and
  \<open>refresh\<close>; the first read is a \<open>TypeError\<close> when that value is \<open>null\<close> or
  \<open>undefined\<close>.
\<close>

definition login :: "env \<Rightarrow> string \<Rightarrow> string \<Rightarrow> world \<Rightarrow> (error + AuthSession) \<times> world" where
  "login e email password w =
     (case request e ''/auth/login/''
             \<lparr> skipAuth = True, opt_headers = [], opt_method = Some ''POST'',
               opt_body = JsonBody (JObj [(''email'', JStr email), (''password'', JStr password)]) \<rparr> w of
        (Inl err, w1) \<Rightarrow> (Inl err, w1)
      | (Inr None, w1) \<Rightarrow> (Inl TypeError, w1)
      | (Inr (Some data), w1) \<Rightarrow>
          if data = JNull then (Inl TypeError, w1)
          else (case normalizeUser (property data ''user'') of
                  Inl err \<Rightarrow> (Inl err, w1)
                | Inr u \<Rightarrow>
                    (Inr \<lparr> accessToken = property data ''access'',
                           refreshToken = property data ''refresh'', sessionUser = u \<rparr>,
                     setState e \<lparr> tokens = \<lparr> access = property data ''access'',
                                              refresh = property data ''refresh'' \<rparr>,
                                  user = u \<rparr> w1)))"

text \<open>The \<open>catch\<close> block of \<open>getCurrentUser\<close>, the same in both clients.\<close>

definition on_error :: "env \<Rightarrow> error \<Rightarrow> world \<Rightarrow> (error + User option) \<times> world" where
  "on_error e err w =
     (case err of
        ApiError message st data \<Rightarrow> if st = 401 then (Inr None, clear e w) else (Inl err, w)
      | _ \<Rightarrow> (Inl err, w))"

text \<open>
  The object handed to \<open>normalizeUser\<close> in the frontend's \<open>getCurrentUser\<close>:
  \<open>{ id: data.id, email: data.email, name: data.name ?? profile?.name }\<close> with
  \<open>profile = data.profile ?? {}\<close>, for \<open>data\<close> other than \<open>null\<close> and \<open>undefined\<close>.
\<close>

definition me_payload :: "json \<Rightarrow> json" where
  "me_payload data =
     (let profile = coalesce_json (property data ''profile'') (Some (JObj []))
      in object_literal
           [(''id'', property data ''id''),
            (''email'', property data ''email''),
            (''name'', coalesce_json (property data ''name'')
                         (case profile of None \<Rightarrow> None | Some p \<Rightarrow> property p ''name''))])"

definition default_options :: RequestOptions where
  "default_options = \<lparr> skipAuth = False, opt_headers = [], opt_method = None, opt_body = NoBody \<rparr>"

text \<open>
  \<open>getCurrentUser\<close>. Everything after the request is inside the \<open>try\<close> block, so a
  \<open>TypeError\<close> of \<open>data.profile\<close> on \<open>null\<close> or \<open>undefined\<close> goes through the \<open>catch\<close>
  block as well.
\<close>

definition getCurrentUser :: "env \<Rightarrow> world \<Rightarrow> (error + User option) \<times> world" where
  "getCurrentUser e w =
     (case request e ''/auth/me/'' default_options w of
        (Inl err, w1) \<Rightarrow> on_error e err w1
      | (Inr None, w1) \<Rightarrow> on_error e TypeError w1
      | (Inr (Some data), w1) \<Rightarrow>
          if data = JNull then on_error e TypeError w1
          else (case normalizeUser (Some (me_payload data)) of
                  Inl err \<Rightarrow> on_error e err w1
                | Inr normalized \<Rightarrow> (Inr (Some normalized), updateUser e normalized w1)))"

subsection \<open>\<open>do-smart-ai\<close> \<open>authApi\<close>\<close>

text \<open>Here \<open>normalizeUser\<close> has no default for \<open>email\<close> and none after \<open>payload.email\<close> for \<open>name\<close>.\<close>

definition normalizeUser_dsa :: "jsvalue \<Rightarrow> error + User" where
  "normalizeUser_dsa v =
     (case v of
        None \<Rightarrow> Inl TypeError
      | Some payload \<Rightarrow>
          if payload = JNull then Inl TypeError
          else Inr \<lparr> user_id = String_js (property payload ''id''),
                     user_email = property payload ''email'',
                     user_name = coalesce_json (property payload ''name'') (property payload ''email'') \<rparr>)"

definition getCurrentUser_dsa :: "env \<Rightarrow> world \<Rightarrow> (error + User option) \<times> world" where
  "getCurrentUser_dsa e w =
     (case apiRequest e ''/auth/me/'' default_options w of
        (Inl err, w1) \<Rightarrow> on_error e err w1
      | (Inr data, w1) \<Rightarrow>
          (case normalizeUser_dsa data of
             Inl err \<Rightarrow> on_error e err w1
           | Inr normalized \<Rightarrow> (Inr (Some normalized), updateUser e normalized w1)))"

section \<open>The local assistant (\<open>do-smart-ai\<close> \<open>aiApi.askAssistant\<close>)\<close>

subsection \<open>Double-precision arithmetic on counts\<close>

text \<open>
  JavaScript numbers are IEEE 754 doubles. The assistant computes
  \<open>Math.round((completedCount / totalCount) * 100)\<close>: a division and a multiplication,
  each giving the double nearest to the exact result (ties to the even mantissa), then
  \<open>Math.round\<close>, which is exact: \<open>floor(x + 0.5)\<close>. The counts are array lengths, below
  \<open>2^32\<close>, so they are doubles themselves, and all values met here are far inside the
  exponent range. A positive double is written as a fraction \<open>(m, p)\<close>, standing for
  \<open>m / p\<close>, with \<open>p\<close> a power of two.
\<close>

text \<open>The integer nearest to \<open>a / b\<close>, a tie going to the even one.\<close>

definition round_even_div :: "nat \<Rightarrow> nat \<Rightarrow> nat" where
  "round_even_div a b =
     (let q = a div b; r = a mod b
      in if 2 * r < b then q else if b < 2 * r then q + 1 else if even q then q else q + 1)"

text \<open>
  Doubling numerator and scale until the quotient by \<open>b\<close> has 53 bits, and doubling the
  denominator until it has no more than 53.
\<close>

function scale_up :: "nat \<Rightarrow> nat \<Rightarrow> nat \<Rightarrow> nat \<times> nat" where
  "scale_up a b p = (if a = 0 \<or> 2 ^ 52 * b \<le> a then (a, p) else scale_up (2 * a) b (2 * p))"
  by pat_completeness auto
termination
  by (relation "measure (\<lambda>(a, b, p). 2 ^ 52 * b - a)") auto

function scale_down :: "nat \<Rightarrow> nat \<Rightarrow> nat" where
  "scale_down a b = (if b = 0 \<or> a < 2 ^ 53 * b then b else scale_down a (2 * b))"
  by pat_completeness auto
termination
  by (relation "measure (\<lambda>(a, b). Suc a - 2 ^ 53 * b)") auto

declare scale_up.simps [simp del]
declare scale_down.simps [simp del]

text \<open>The double nearest to \<open>a / b\<close>.\<close>

definition nearest_double :: "nat \<Rightarrow> nat \<Rightarrow> nat \<times> nat" where
  "nearest_double a b =
     (if a = 0 \<or> b = 0 then (0, 1)
      else if a < 2 ^ 52 * b
      then (case scale_up a b 1 of (a', p) \<Rightarrow> (round_even_div a' b, p))
      else (let b' = scale_down a b in (round_even_div a b' * (b' div b), 1)))"

definition Math_round :: "nat \<times> nat \<Rightarrow> nat" where
  "Math_round x = (2 * fst x + snd x) div (2 * snd x)"

definition percentage_of :: "nat \<Rightarrow> nat \<Rightarrow> nat" where
  "percentage_of completedCount totalCount =
     (if totalCount > 0
      then (case nearest_double completedCount totalCount of
              (m, p) \<Rightarrow> Math_round (nearest_double (m * 100) p))
      else 0)"

subsection \<open>The responder\<close>

text \<open>
  What the call reads from the platform: the clock and the date parser for the overdue
  branch (\<open>None\<close> for an invalid date, which compares false), and the random number for
  the fallback.
\<close>

record assistant_env =
  Date_parse :: "string \<Rightarrow> int option"
  Date_now :: int
  random_pick :: nat

fun String_text :: "string wire \<Rightarrow> string" where
  "String_text (Val s) = s"
| "String_text Undefined = ''undefined''"
| "String_text Null = ''null''"

fun join_with :: "string \<Rightarrow> string list \<Rightarrow> string" where
  "join_with sep [] = []"
| "join_with sep [x] = x"
| "join_with sep (x # y # ys) = x @ sep @ join_with sep (y # ys)"

definition quoted_titles :: "Task list \<Rightarrow> string" where
  \<open>quoted_titles ts = join_with '', '' (map (\<lambda>t. ''"'' @ String_text (task_title t) @ ''"'') ts)\<close>

definition is_overdue :: "assistant_env \<Rightarrow> Task \<Rightarrow> bool" where
  "is_overdue a t =
     (case task_dueDate t of
        None \<Rightarrow> False
      | Some d \<Rightarrow>
          if d = [] \<or> task_status t = ''completed'' then False
          else (case Date_parse a d of None \<Rightarrow> False | Some ms \<Rightarrow> ms < Date_now a))"

definition responses :: "string list" where
  "responses =
     [''Based on your current tasks, I suggest tackling the high-priority items first. They'll give you the biggest impact!'',
      ''Consider breaking down larger tasks into smaller, manageable chunks. It makes progress feel more achievable.'',
      ''Don't forget to take breaks between tasks. Productivity isn't just about doing more-it's about sustainable focus.'',
      ''Try time-blocking your tasks. Assign specific time slots to each task to maintain focus and momentum.'',
      ''Review your completed tasks regularly. It's a great way to see your progress and stay motivated!'']"

definition progress_report :: "nat \<Rightarrow> nat \<Rightarrow> nat \<Rightarrow> string" where
  "progress_report completedCount totalCount percentage =
     ''You've completed '' @ show_nat completedCount @ '' out of '' @ show_nat totalCount @
     '' tasks ('' @ show_nat percentage @ ''%). '' @
     (if percentage \<ge> 75 then ''Excellent progress!''
      else if percentage \<ge> 50 then ''Good momentum!''
      else ''Keep going!'')"

definition askAssistant :: "assistant_env \<Rightarrow> string \<Rightarrow> Task list \<Rightarrow> string" where
  "askAssistant a message tasks =
     (let lowercaseMessage = toLowerCase message
      in if includes_str lowercaseMessage ''priority'' \<or> includes_str lowercaseMessage ''first''
            \<or> includes_str lowercaseMessage ''important''
         then (let highPriorityTasks =
                     filter (\<lambda>t. task_priority t = ''high'' \<and> task_status t \<noteq> ''completed'') tasks
               in if length highPriorityTasks > 0
                  then ''I recommend focusing on these high-priority tasks: '' @
                       quoted_titles highPriorityTasks @ ''. Start with the ones due soonest!''
                  else ''You're doing great! Focus on your medium-priority tasks or take a well-deserved break.'')
         else if includes_str lowercaseMessage ''overdue'' \<or> includes_str lowercaseMessage ''late''
         then (let overdueTasks = filter (is_overdue a) tasks
               in if length overdueTasks > 0
                  then ''You have '' @ show_nat (length overdueTasks) @ '' overdue task(s): '' @
                       quoted_titles overdueTasks @ ''. Consider prioritizing these!''
                  else ''Great news! You don't have any overdue tasks. Keep up the excellent work!'')
         else if includes_str lowercaseMessage ''progress'' \<or> includes_str lowercaseMessage ''status''
         then (let completedCount = length (filter (\<lambda>t. task_status t = ''completed'') tasks);
                   totalCount = length tasks;
                   percentage = percentage_of completedCount totalCount
               in progress_report completedCount totalCount percentage)
         else responses ! (random_pick a mod length responses))"

section \<open>The two clients side by side\<close>

text \<open>
  The repository holds the client twice: \<open>request\<close> of the frontend's \<open>djangoApi\<close>
  (exported as \<open>apiRequest\<close>) and \<open>apiRequest\<close> of \<open>do-smart-ai\<close>. A statement
  about both is made for a \<open>client\<close>.
\<close>

datatype client = Frontend | DoSmartAi

fun client_request ::
  "client \<Rightarrow> env \<Rightarrow> string \<Rightarrow> RequestOptions \<Rightarrow> world \<Rightarrow> (error + json option) \<times> world" where
  "client_request Frontend = request"
| "client_request DoSmartAi = apiRequest"

fun client_first_request :: "client \<Rightarrow> env \<Rightarrow> string \<Rightarrow> RequestOptions \<Rightarrow> world \<Rightarrow> http_request" where
  "client_first_request Frontend = first_request"
| "client_first_request DoSmartAi = first_request_dsa"

fun client_refresh :: "client \<Rightarrow> env \<Rightarrow> world \<Rightarrow> jsvalue \<times> world" where
  "client_refresh Frontend = refreshAccessToken"
| "client_refresh DoSmartAi = refreshAccessToken_dsa"

fun refresh_path :: "client \<Rightarrow> string" where
  "refresh_path Frontend = ''/auth/refresh/''"
| "refresh_path DoSmartAi = ''/auth/token/refresh/''"

fun client_settle ::
  "client \<Rightarrow> env \<Rightarrow> bool \<Rightarrow> Response \<Rightarrow> world \<Rightarrow> (error + json option) \<times> world" where
  "client_settle Frontend e skip response w = settle e skip response w"
| "client_settle DoSmartAi e skip response w = settle_dsa response w"

fun client_getCurrentUser :: "client \<Rightarrow> env \<Rightarrow> world \<Rightarrow> (error + User option) \<times> world" where
  "client_getCurrentUser Frontend = getCurrentUser"
| "client_getCurrentUser DoSmartAi = getCurrentUser_dsa"

text \<open>The request issued again after a refresh: the first one with a new bearer token.\<close>

definition with_bearer :: "http_request \<Rightarrow> string \<Rightarrow> http_request" where
  "with_bearer rq newAccess =
     rq\<lparr>req_headers := Headers_set (req_headers rq) ''Authorization'' (''Bearer '' @ newAccess)\<rparr>"

fun client_read_body :: "client \<Rightarrow> Response \<Rightarrow> error + json" where
  "client_read_body Frontend = read_body"
| "client_read_body DoSmartAi = read_body_dsa"

fun client_error_message :: "client \<Rightarrow> nat \<Rightarrow> json \<Rightarrow> string" where
  "client_error_message Frontend = error_message"
| "client_error_message DoSmartAi = error_message_dsa"

text \<open>The request that \<open>login\<close> sends.\<close>

definition login_request :: "env \<Rightarrow> string \<Rightarrow> string \<Rightarrow> http_request" where
  "login_request e email password =
     \<lparr> req_url = API_BASE_URL e @ ''/auth/login/'',
       req_method = Some ''POST'',
       req_headers = [(''accept'', ''application/json''), (''content-type'', ''application/json'')],
       req_body = JsonBody (JObj [(''email'', JStr email), (''password'', JStr password)]) \<rparr>"

text \<open>
  The final response of a call, with the state the client is in when it has it: the
  answer to the first request, or, when that answer was a 401, auth was required, a
  refresh token was stored and the refresh gave a token, the answer to the request
  issued again. There is none when a \<open>fetch\<close> is rejected.
\<close>

definition final_response ::
  "client \<Rightarrow> env \<Rightarrow> string \<Rightarrow> RequestOptions \<Rightarrow> world \<Rightarrow> (Response \<times> world) option" where
  "final_response c e path options w =
     (let rq = client_first_request c e path options w;
          w1 = w\<lparr>fetched := fetched w @ [rq]\<rparr>
      in case server e (fetched w) rq of
           Rejected \<Rightarrow> None
         | Resolved first \<Rightarrow>
             if resp_status first = 401 \<and> \<not> skipAuth options \<and> has_refresh (getState e w)
             then (case client_refresh c e w1 of
                     (newAccess, w2) \<Rightarrow>
                       if truthy newAccess
                       then (case server e (fetched w2) (with_bearer rq (String_js newAccess)) of
                               Rejected \<Rightarrow> None
                             | Resolved retried \<Rightarrow>
                                 Some (retried,
                                       w2\<lparr>fetched := fetched w2 @ [with_bearer rq (String_js newAccess)]\<rparr>))
                       else Some (first, w2))
             else Some (first, w1))"

text \<open>
  The value of a chain \<open>a ?? b ?? ...\<close>, said in one piece: the first operand that is
  neither \<open>undefined\<close> nor \<open>null\<close>, and the last operand when there is none.
\<close>

fun first_present :: "jsvalue list \<Rightarrow> jsvalue" where
  "first_present [] = None"
| "first_present [v] = v"
| "first_present (v # v' # vs) = (if v = None \<or> v = Some JNull then first_present (v' # vs) else v)"

section \<open>A platform to run the definitions on\<close>

text \<open>
  The theorems below assume of the platform's codec what \<open>JSON.stringify\<close> and
  \<open>JSON.parse\<close> guarantee for a stored session: the text is not empty and parses back
  to the value written.
\<close>

definition codec_ok :: "env \<Rightarrow> bool" where
  "codec_ok e = (\<forall>s. JSON_stringify e s \<noteq> [] \<and> JSON_parse e (JSON_stringify e s) = Some s)"

text \<open>
  A small codec with these two properties, used to run the definitions on concrete
  inputs. A value is written with its kind in front: \<open>n\<close> for \<open>null\<close>, \<open>t\<close> and \<open>f\<close>
  for the booleans, \<open>i\<close> before a number (its sign, then as many \<open>1\<close> as its absolute
  value, then \<open>;\<close>), \<open>s\<close> before a string (between double quotes, with \<open>"\<close> and \<open>\\<close>
  escaped by a backslash), an array between \<open>[\<close> and \<open>]\<close>, an object between \<open>{\<close> and
  \<open>}\<close> with each key written as a string before its value. A stored session is written
  as the object that \<open>JSON.stringify\<close> sees, without the properties that are
  \<open>undefined\<close>.
\<close>

definition dquote :: char where
  "dquote = CHR 0x22"

definition backslash :: char where
  "backslash = CHR 0x5C"

fun escape :: "string \<Rightarrow> string" where
  "escape [] = []"
| "escape (c # cs) = (if c = dquote \<or> c = backslash then backslash # c # escape cs else c # escape cs)"

definition quoted :: "string \<Rightarrow> string" where
  "quoted s = dquote # escape s @ [dquote]"

fun unescape :: "string \<Rightarrow> (string \<times> string) option" where
  "unescape [] = None"
| "unescape (c # cs) =
     (if c = dquote then Some ([], cs)
      else if c = backslash
      then (case cs of
              [] \<Rightarrow> None
            | d # ds \<Rightarrow> (case unescape ds of None \<Rightarrow> None | Some (s, r) \<Rightarrow> Some (d # s, r)))
      else (case unescape cs of None \<Rightarrow> None | Some (s, r) \<Rightarrow> Some (c # s, r)))"

definition read_quoted :: "string \<Rightarrow> (string \<times> string) option" where
  "read_quoted t = (case t of [] \<Rightarrow> None | c # cs \<Rightarrow> if c = dquote then unescape cs else None)"

definition write_number :: "int \<Rightarrow> string" where
  "write_number n =
     (if n < 0 then CHR ''-'' else CHR ''+'') # replicate (nat \<bar>n\<bar>) (CHR ''1'') @ '';''"

definition read_number :: "string \<Rightarrow> (int \<times> string) option" where
  "read_number t =
     (case t of
        [] \<Rightarrow> None
      | sign # cs \<Rightarrow>
          (case dropWhile (\<lambda>c. c = CHR ''1'') cs of
             [] \<Rightarrow> None
           | d # r \<Rightarrow>
               if d \<noteq> CHR '';'' then None
               else if sign = CHR ''-''
               then Some (- int (length (takeWhile (\<lambda>c. c = CHR ''1'') cs)), r)
               else if sign = CHR ''+''
               then Some (int (length (takeWhile (\<lambda>c. c = CHR ''1'') cs)), r)
               else None))"

fun write_json :: "json \<Rightarrow> string" where
  "write_json JNull = ''n''"
| "write_json (JBool b) = (if b then ''t'' else ''f'')"
| "write_json (JNum n) = CHR ''i'' # write_number n"
| "write_json (JStr s) = CHR ''s'' # quoted s"
| "write_json (JArr xs) = CHR ''['' # concat (map write_json xs) @ '']''"
| "write_json (JObj kvs) =
     CHR ''{'' # concat (map (\<lambda>kv. quoted (fst kv) @ write_json (snd kv)) kvs) @ ''}''"

text \<open>Reading back, with a bound on the number of nested calls; the length of the text is enough.\<close>

fun read_json :: "nat \<Rightarrow> string \<Rightarrow> (json \<times> string) option"
  and read_elements :: "nat \<Rightarrow> string \<Rightarrow> (json list \<times> string) option"
  and read_members :: "nat \<Rightarrow> string \<Rightarrow> ((string \<times> json) list \<times> string) option" where
  "read_json 0 t = None"
| "read_json (Suc n) [] = None"
| "read_json (Suc n) (c # cs) =
     (if c = CHR ''n'' then Some (JNull, cs)
      else if c = CHR ''t'' then Some (JBool True, cs)
      else if c = CHR ''f'' then Some (JBool False, cs)
      else if c = CHR ''i''
      then (case read_number cs of None \<Rightarrow> None | Some (i, r) \<Rightarrow> Some (JNum i, r))
      else if c = CHR ''s''
      then (case read_quoted cs of None \<Rightarrow> None | Some (s, r) \<Rightarrow> Some (JStr s, r))
      else if c = CHR ''[''
      then (case read_elements n cs of None \<Rightarrow> None | Some (xs, r) \<Rightarrow> Some (JArr xs, r))
      else if c = CHR ''{''
      then (case read_members n cs of None \<Rightarrow> None | Some (kvs, r) \<Rightarrow> Some (JObj kvs, r))
      else None)"
| "read_elements 0 t = None"
| "read_elements (Suc n) [] = None"
| "read_elements (Suc n) (c # cs) =
     (if c = CHR '']'' then Some ([], cs)
      else (case read_json n (c # cs) of
              None \<Rightarrow> None
            | Some (x, r) \<Rightarrow>
                (case read_elements n r of None \<Rightarrow> None | Some (xs, r') \<Rightarrow> Some (x # xs, r'))))"
| "read_members 0 t = None"
| "read_members (Suc n) [] = None"
| "read_members (Suc n) (c # cs) =
     (if c = CHR ''}'' then Some ([], cs)
      else (case read_quoted (c # cs) of
              None \<Rightarrow> None
            | Some (k, r) \<Rightarrow>
                (case read_json n r of
                   None \<Rightarrow> None
                 | Some (v, r') \<Rightarrow>
                     (case read_members n r' of
                        None \<Rightarrow> None
                      | Some (kvs, r'') \<Rightarrow> Some ((k, v) # kvs, r'')))))"

definition json_of_state :: "StoredAuthState \<Rightarrow> json" where
  "json_of_state s =
     object_literal
       [(''tokens'', Some (object_literal [(''access'', access (tokens s)),
                                           (''refresh'', refresh (tokens s))])),
        (''user'', Some (object_literal [(''id'', Some (JStr (user_id (user s)))),
                                         (''email'', user_email (user s)),
                                         (''name'', user_name (user s))]))]"

definition state_of_json :: "json \<Rightarrow> StoredAuthState option" where
  "state_of_json j =
     (case (property j ''tokens'', property j ''user'') of
        (Some t, Some u) \<Rightarrow>
          (case property u ''id'' of
             Some (JStr i) \<Rightarrow>
               Some \<lparr> tokens = \<lparr> access = property t ''access'', refresh = property t ''refresh'' \<rparr>,
                      user = \<lparr> user_id = i, user_email = property u ''email'',
                               user_name = property u ''name'' \<rparr> \<rparr>
           | _ \<Rightarrow> None)
      | _ \<Rightarrow> None)"

definition demo_stringify :: "StoredAuthState \<Rightarrow> string" where
  "demo_stringify s = write_json (json_of_state s)"

definition demo_parse :: "string \<Rightarrow> StoredAuthState option" where
  "demo_parse t =
     (case read_json (length t) t of
        Some (j, []) \<Rightarrow> state_of_json j
      | _ \<Rightarrow> None)"

definition demo_env :: "(http_request list \<Rightarrow> http_request \<Rightarrow> fetch_result) \<Rightarrow> env" where
  "demo_env srv =
     \<lparr> API_BASE_URL = ''http://localhost:8000/api'',
       JSON_stringify = demo_stringify,
       JSON_parse = demo_parse,
       server = srv \<rparr>"

text \<open>A browser with nothing stored and no listener, a server that cannot be reached, and a session.\<close>

definition fresh_world :: world where
  "fresh_world =
     \<lparr> isBrowser = True, localStorage = Map.empty, listeners = [], delivered = [], fetched = [] \<rparr>"

definition offline :: "http_request list \<Rightarrow> http_request \<Rightarrow> fetch_result" where
  "offline history rq = Rejected"

definition alice :: StoredAuthState where
  "alice =
     \<lparr> tokens = \<lparr> access = Some (JStr ''A1''), refresh = Some (JStr ''R1'') \<rparr>,
       user = \<lparr> user_id = ''7'', user_email = Some (JStr ''a@b.com''),
                user_name = Some (JStr ''a@b.com'') \<rparr> \<rparr>"

text \<open>The browser with that session stored.\<close>

definition alice_world :: world where
  "alice_world = fresh_world\<lparr>localStorage := [STORAGE_KEY \<mapsto> demo_stringify alice]\<rparr>"

text \<open>
  Four servers. \<open>renewing\<close> grants a new access token \<open>A2\<close> at either refresh path
  and accepts only that token elsewhere; \<open>revoked\<close> answers 401 to everything;
  \<open>locked\<close> grants the new token and still answers 401 elsewhere. These three answer
  in JSON. \<open>garbling\<close> answers 401 to everything with a page of HTML that it declares
  as JSON, so that the body does not parse.
\<close>

definition json_response :: "nat \<Rightarrow> string \<Rightarrow> json \<Rightarrow> Response" where
  "json_response st text j =
     \<lparr> resp_status = st, resp_header_list = [(''Content-Type'', ''application/json'')],
       resp_text = text, resp_json = Some j \<rparr>"

definition is_refresh_url :: "string \<Rightarrow> bool" where
  "is_refresh_url u =
     (u = ''http://localhost:8000/api/auth/refresh/'' \<or> u = ''http://localhost:8000/api/auth/token/refresh/'')"

definition new_token :: Response where
  \<open>new_token = json_response 200 ''{"access":"A2"}'' (JObj [(''access'', JStr ''A2'')])\<close>

definition unauthorized :: Response where
  \<open>unauthorized = json_response 401 ''{"detail":"Token expired"}'' (JObj [(''detail'', JStr ''Token expired'')])\<close>

definition renewing :: "http_request list \<Rightarrow> http_request \<Rightarrow> fetch_result" where
  "renewing history rq =
     (if is_refresh_url (req_url rq) then Resolved new_token
      else if Headers_get (req_headers rq) ''Authorization'' = Some ''Bearer A2''
      then Resolved (json_response 200 ''[]'' (JArr []))
      else Resolved unauthorized)"

definition revoked :: "http_request list \<Rightarrow> http_request \<Rightarrow> fetch_result" where
  "revoked history rq = Resolved unauthorized"

definition locked :: "http_request list \<Rightarrow> http_request \<Rightarrow> fetch_result" where
  "locked history rq = (if is_refresh_url (req_url rq) then Resolved new_token else Resolved unauthorized)"

definition garbled :: Response where
  "garbled =
     \<lparr> resp_status = 401, resp_header_list = [(''Content-Type'', ''application/json'')],
       resp_text = ''<html>Unauthorized</html>'', resp_json = None \<rparr>"

definition garbling :: "http_request list \<Rightarrow> http_request \<Rightarrow> fetch_result" where
  "garbling history rq = Resolved garbled"

text \<open>The requests of a call \<open>request("/tasks/")\<close> made in \<open>alice_world\<close>.\<close>

definition tasks_request :: "string \<Rightarrow> http_request" where
  "tasks_request token =
     \<lparr> req_url = ''http://localhost:8000/api/tasks/'', req_method = None,
       req_headers = [(''accept'', ''application/json''), (''authorization'', ''Bearer '' @ token)],
       req_body = NoBody \<rparr>"

definition tasks_request_dsa :: "string \<Rightarrow> http_request" where
  "tasks_request_dsa token =
     \<lparr> req_url = ''http://localhost:8000/api/tasks/'', req_method = None,
       req_headers = [(''content-type'', ''application/json''), (''authorization'', ''Bearer '' @ token)],
       req_body = NoBody \<rparr>"

text \<open>
  A 204 answer, a 200 answer with a plain body and no \<open>Content-Type\<close> header, and a
  server that gives each.
\<close>

definition no_content :: Response where
  "no_content = \<lparr> resp_status = 204, resp_header_list = [(''Content-Type'', ''application/json'')],
                  resp_text = [], resp_json = None \<rparr>"

definition pong :: Response where
  "pong = \<lparr> resp_status = 200, resp_header_list = [], resp_text = ''pong'', resp_json = None \<rparr>"

definition bare :: "http_request list \<Rightarrow> http_request \<Rightarrow> fetch_result" where
  "bare history rq = Resolved pong"

definition deleting :: "http_request list \<Rightarrow> http_request \<Rightarrow> fetch_result" where
  "deleting history rq = Resolved no_content"

text \<open>A call that posts JSON and asks for CSV.\<close>

definition upload :: RequestOptions where
  "upload = \<lparr> skipAuth = False, opt_headers = [(''accept'', ''text/csv'')],
              opt_method = Some ''POST'', opt_body = JsonBody (JObj []) \<rparr>"

text \<open>The backend of the login scenario: it answers every request with the same tokens and user.\<close>

definition login_reply :: json where
  "login_reply =
     JObj [(''access'', JStr ''A1''), (''refresh'', JStr ''R1''),
           (''user'', JObj [(''id'', JNum 7), (''email'', JStr ''a@b.com'')])]"

definition login_response :: Response where
  \<open>login_response =
     json_response 200 ''{"access":"A1","refresh":"R1","user":{"id":7,"email":"a@b.com"}}'' login_reply\<close>

definition mock_backend :: "http_request list \<Rightarrow> http_request \<Rightarrow> fetch_result" where
  "mock_backend history rq = Resolved login_response"

text \<open>
  The backend of the current-user scenario: it answers every request with a user that
  has no \<open>name\<close> of its own and a profile that has one.
\<close>

definition me_reply :: json where
  "me_reply =
     JObj [(''id'', JNum 7), (''email'', JStr ''a@b.com''),
           (''profile'', JObj [(''name'', JStr ''Alice'')])]"

definition me_response :: Response where
  \<open>me_response =
     json_response 200 ''{"id":7,"email":"a@b.com","profile":{"name":"Alice"}}'' me_reply\<close>

definition profile_backend :: "http_request list \<Rightarrow> http_request \<Rightarrow> fetch_result" where
  "profile_backend history rq = Resolved me_response"

text \<open>The request of a call \<open>request("/auth/me/")\<close> made in \<open>alice_world\<close>, for either client.\<close>

definition me_request :: "client \<Rightarrow> http_request" where
  "me_request c =
     \<lparr> req_url = ''http://localhost:8000/api/auth/me/'', req_method = None,
       req_headers =
         (case c of
            Frontend \<Rightarrow> [(''accept'', ''application/json''), (''authorization'', ''Bearer A1'')]
          | DoSmartAi \<Rightarrow> [(''content-type'', ''application/json''), (''authorization'', ''Bearer A1'')]),
       req_body = NoBody \<rparr>"

text \<open>
  For the assistant: a finished task and an open one, a list of forty tasks of which
  twenty-three are finished, a list of three of which one is finished, and a platform.
\<close>

definition done_task :: Task where
  "done_task =
     \<lparr> task_id = ''1'', task_title = Val ''Write report'', task_description = [],
       task_dueDate = None, task_priority = ''medium'', task_status = ''completed'',
       task_createdAt = Val [], task_updatedAt = Val [], task_userId = ''7'' \<rparr>"

definition open_task :: Task where
  "open_task = done_task\<lparr>task_id := ''2'', task_status := ''todo''\<rparr>"

definition forty_tasks :: "Task list" where
  "forty_tasks = replicate 23 done_task @ replicate 17 open_task"

definition three_tasks :: "Task list" where
  "three_tasks = [done_task, open_task, open_task]"

definition some_day :: assistant_env where
  "some_day = \<lparr> Date_parse = (\<lambda>s. None), Date_now = 0, random_pick = 0 \<rparr>"

section \<open>Facts about the model\<close>

subsection \<open>The demonstration codec\<close>

lemma unescape_escape: "unescape (escape s @ dquote # t) = Some (s, t)"
  by (induction s) (auto simp: dquote_def backslash_def)

lemma read_quoted_quoted: "read_quoted (quoted s @ t) = Some (s, t)"
  by (simp add: read_quoted_def quoted_def unescape_escape)

lemma quoted_head: "\<exists>cs. quoted s = dquote # cs \<and> cs \<noteq> []"
  by (simp add: quoted_def)

lemma read_number_write: "read_number (write_number n @ t) = Some (n, t)"
proof -
  have d: "dropWhile (\<lambda>c. c = CHR ''1'') (replicate k (CHR ''1'') @ CHR '';'' # t) = CHR '';'' # t" for k
    by (induction k) simp_all
  have tk: "takeWhile (\<lambda>c. c = CHR ''1'') (replicate k (CHR ''1'') @ CHR '';'' # t) = replicate k (CHR ''1'')" for k
    by (induction k) simp_all
  show ?thesis
    by (simp add: read_number_def write_number_def d tk)
qed

lemma write_json_head:
  "\<exists>c cs. write_json j = c # cs \<and> c \<noteq> CHR '']'' \<and> c \<noteq> CHR ''}''"
  by (cases j) simp_all

lemma read_elements_write:
  assumes "\<And>x n r. x \<in> set xs \<Longrightarrow> length (write_json x) \<le> n \<Longrightarrow> read_json n (write_json x @ r) = Some (x, r)"
  shows "length (concat (map write_json xs)) < n \<Longrightarrow>
         read_elements n (concat (map write_json xs) @ CHR '']'' # r) = Some (xs, r)"
  using assms
proof (induction xs arbitrary: n)
  case Nil
  then obtain m where "n = Suc m" by (cases n) auto
  then show ?case by simp
next
  case (Cons x xs)
  obtain c cs where h: "write_json x = c # cs" "c \<noteq> CHR '']''"
    using write_json_head [of x] by auto
  from Cons.prems(1) obtain m where n: "n = Suc m" by (cases n) auto
  have 1: "length (write_json x) \<le> m"
    using Cons.prems(1) n by simp
  have 2: "length (concat (map write_json xs)) < m"
    using Cons.prems(1) n h by simp
  have a: "read_json m (write_json x @ concat (map write_json xs) @ CHR '']'' # r) =
      Some (x, concat (map write_json xs) @ CHR '']'' # r)"
    using Cons.prems(2) [of x m] 1 by simp
  have b: "read_elements m (concat (map write_json xs) @ CHR '']'' # r) = Some (xs, r)"
    using Cons.IH [OF 2] Cons.prems(2) by simp
  show ?case
    using a b h by (simp add: n)
qed

lemma read_members_write:
  assumes "\<And>k x n r. (k, x) \<in> set kvs \<Longrightarrow> length (write_json x) \<le> n \<Longrightarrow> read_json n (write_json x @ r) = Some (x, r)"
  shows "length (concat (map (\<lambda>kv. quoted (fst kv) @ write_json (snd kv)) kvs)) < n \<Longrightarrow>
         read_members n (concat (map (\<lambda>kv. quoted (fst kv) @ write_json (snd kv)) kvs) @ CHR ''}'' # r) = Some (kvs, r)"
  using assms
proof (induction kvs arbitrary: n)
  case Nil
  then obtain m where "n = Suc m" by (cases n) auto
  then show ?case by simp
next
  case (Cons kv kvs)
  obtain k x where kv: "kv = (k, x)" by (cases kv)
  let ?rest = "concat (map (\<lambda>kv. quoted (fst kv) @ write_json (snd kv)) kvs)"
  obtain cs where h: "quoted k = dquote # cs" "cs \<noteq> []"
    using quoted_head [of k] by auto
  from Cons.prems(1) obtain m where n: "n = Suc m" by (cases n) auto
  have 1: "length (write_json x) \<le> m"
    using Cons.prems(1) n kv by simp
  have 2: "length ?rest < m"
    using Cons.prems(1) n h kv by simp
  have q: "read_quoted (dquote # cs @ write_json x @ ?rest @ CHR ''}'' # r) = Some (k, write_json x @ ?rest @ CHR ''}'' # r)"
    using read_quoted_quoted [of k "write_json x @ ?rest @ CHR ''}'' # r"] h by simp
  have a: "read_json m (write_json x @ ?rest @ CHR ''}'' # r) = Some (x, ?rest @ CHR ''}'' # r)"
    using Cons.prems(2) [of k x m] 1 kv by simp
  have "\<And>k x n r. (k, x) \<in> set kvs \<Longrightarrow> length (write_json x) \<le> n \<Longrightarrow>
      read_json n (write_json x @ r) = Some (x, r)"
    using Cons.prems(2) by (meson list.set_intros(2))
  then have b: "read_members m (?rest @ CHR ''}'' # r) = Some (kvs, r)"
    using Cons.IH [OF 2] by blast
  show ?case
    using a b q h by (simp add: n kv dquote_def)
qed

lemma read_json_write:
  "length (write_json j) \<le> n \<Longrightarrow> read_json n (write_json j @ r) = Some (j, r)"
proof (induction j arbitrary: n r)
  case (JArr xs)
  then obtain m where n: "n = Suc m" by (cases n) auto
  have "length (concat (map write_json xs)) < m" using JArr.prems n by simp
  then have "read_elements m (concat (map write_json xs) @ CHR '']'' # r) = Some (xs, r)"
    using JArr.IH by (intro read_elements_write) auto
  then show ?case by (simp add: n)
next
  case (JObj kvs)
  then obtain m where n: "n = Suc m" by (cases n) auto
  have "length (concat (map (\<lambda>kv. quoted (fst kv) @ write_json (snd kv)) kvs)) < m" using JObj.prems n by simp
  then have "read_members m (concat (map (\<lambda>kv. quoted (fst kv) @ write_json (snd kv)) kvs) @ CHR ''}'' # r) = Some (kvs, r)"
    using JObj.IH by (intro read_members_write) (auto simp: snds.simps)
  then show ?case by (simp add: n)
next
  case JNull
  then obtain m where "n = Suc m" by (cases n) auto
  then show ?case by simp
next
  case (JBool b)
  then obtain m where "n = Suc m" by (cases n) (auto split: if_splits)
  then show ?case by simp
next
  case (JNum i)
  then obtain m where "n = Suc m" by (cases n) auto
  then show ?case by (simp add: read_number_write)
next
  case (JStr s)
  then obtain m where "n = Suc m" by (cases n) auto
  then show ?case by (simp add: read_quoted_quoted)
qed

lemma state_of_json_of_state: "state_of_json (json_of_state s) = Some s"
  by (cases "access (tokens s)"; cases "refresh (tokens s)"; cases "user_email (user s)"; cases "user_name (user s)")
    (simp_all add: state_of_json_def json_of_state_def object_literal_def)

lemma demo_parse_stringify: "demo_parse (demo_stringify s) = Some s"
  using read_json_write [of "json_of_state s" "length (write_json (json_of_state s))" "[]"]
  by (simp add: demo_parse_def demo_stringify_def state_of_json_of_state)

lemma demo_stringify_nonempty: "demo_stringify s \<noteq> []"
  using write_json_head [of "json_of_state s"] by (auto simp: demo_stringify_def)

lemma codec_ok_demo: "codec_ok (demo_env srv)"
  by (simp add: codec_ok_def demo_env_def demo_parse_stringify demo_stringify_nonempty)

subsection \<open>The store\<close>

lemma fold_call_listener:
  "fold (call_listener st) ls w = w\<lparr>delivered := delivered w @ map (\<lambda>l. (l, st)) ls\<rparr>"
  by (induction ls arbitrary: w) (simp_all add: call_listener_def)

lemma notify_eq: "notify st w = w\<lparr>delivered := delivered w @ map (\<lambda>l. (l, st)) (listeners w)\<rparr>"
  by (simp add: notify_def fold_call_listener)

lemma clear_eq:
  "clear e w =
     (if isBrowser w
      then w\<lparr>localStorage := (localStorage w)(STORAGE_KEY := None),
             delivered := delivered w @ map (\<lambda>l. (l, None)) (listeners w)\<rparr>
      else w\<lparr>delivered := delivered w @ map (\<lambda>l. (l, None)) (listeners w)\<rparr>)"
  by (simp add: clear_def writeStorage_def notify_eq)

lemma setState_eq:
  "setState e s w =
     (if isBrowser w
      then w\<lparr>localStorage := (localStorage w)(STORAGE_KEY \<mapsto> JSON_stringify e s),
             delivered := delivered w @ map (\<lambda>l. (l, Some s)) (listeners w)\<rparr>
      else w\<lparr>delivered := delivered w @ map (\<lambda>l. (l, Some s)) (listeners w)\<rparr>)"
  by (simp add: setState_def writeStorage_def notify_eq)

lemma getState_clear: "getState e (clear e w) = None"
  by (simp add: getState_def readStorage_def clear_eq)

lemma getState_setState:
  "codec_ok e \<Longrightarrow> isBrowser w \<Longrightarrow> getState e (setState e s w) = Some s"
  by (simp add: getState_def readStorage_def setState_eq codec_ok_def)

lemma getState_isBrowser: "getState e w = Some s \<Longrightarrow> isBrowser w"
  by (simp add: getState_def readStorage_def split: if_splits)

lemma fetched_clear: "fetched (clear e w) = fetched w"
  by (simp add: clear_eq)

lemma fetched_setState: "fetched (setState e s w) = fetched w"
  by (simp add: setState_eq)

lemma getState_fetched_update: "getState e (w\<lparr>fetched := f\<rparr>) = getState e w"
  by (simp add: getState_def readStorage_def)

lemma updateUser_eq:
  "getState e w = Some s \<Longrightarrow>
   updateUser e u w = setState e (s\<lparr>user := u\<rparr>) w"
  by (simp add: updateUser_def getState_def setState_def Let_def)

lemma updateUser_none: "getState e w = None \<Longrightarrow> updateUser e u w = w"
  by (simp add: updateUser_def getState_def)

subsection \<open>Token refresh\<close>

lemma refresh_exchange_fetched:
  "fetched (snd (refresh_exchange e path s w)) = fetched w @ [refresh_request e path (refresh (tokens s))]"
  by (simp add: refresh_exchange_def fetch_def fetched_clear fetched_setState
      split: fetch_result.splits option.splits)

lemma refresh_exchange_rejected:
  "server e (fetched w) (refresh_request e path (refresh (tokens s))) = Rejected \<Longrightarrow>
   fst (refresh_exchange e path s w) = Some JNull \<and> getState e (snd (refresh_exchange e path s w)) = None"
  by (simp add: refresh_exchange_def fetch_def getState_clear)

lemma refresh_exchange_not_ok:
  "server e (fetched w) (refresh_request e path (refresh (tokens s))) = Resolved r \<Longrightarrow> \<not> ok r \<Longrightarrow>
   fst (refresh_exchange e path s w) = Some JNull \<and> getState e (snd (refresh_exchange e path s w)) = None"
  by (simp add: refresh_exchange_def fetch_def getState_clear)

lemma refresh_exchange_throws:
  "server e (fetched w) (refresh_request e path (refresh (tokens s))) = Resolved r \<Longrightarrow> ok r \<Longrightarrow>
   resp_json r = None \<or> resp_json r = Some JNull \<Longrightarrow>
   fst (refresh_exchange e path s w) = Some JNull \<and> getState e (snd (refresh_exchange e path s w)) = None"
  by (auto simp add: refresh_exchange_def fetch_def getState_clear)

lemma refresh_exchange_stores:
  "codec_ok e \<Longrightarrow> isBrowser w \<Longrightarrow>
   server e (fetched w) (refresh_request e path (refresh (tokens s))) = Resolved r \<Longrightarrow> ok r \<Longrightarrow>
   resp_json r = Some data \<Longrightarrow> data \<noteq> JNull \<Longrightarrow>
   fst (refresh_exchange e path s w) = property data ''access'' \<and>
   getState e (snd (refresh_exchange e path s w)) =
     Some \<lparr> tokens = \<lparr> access = property data ''access'', refresh = refresh (tokens s) \<rparr>, user = user s \<rparr>"
  by (simp add: refresh_exchange_def fetch_def getState_setState)

lemma client_refresh_eq:
  "getState e w = Some s \<Longrightarrow> c = Frontend \<longrightarrow> truthy (refresh (tokens s)) \<Longrightarrow>
   client_refresh c e w = refresh_exchange e (refresh_path c) s w"
  by (cases c) (simp_all add: refreshAccessToken_def refreshAccessToken_dsa_def)

lemma refresh_request_eq:
  "refresh_request e (refresh_path c) t =
     \<lparr> req_url = API_BASE_URL e @ (case c of Frontend \<Rightarrow> ''/auth/refresh/'' | DoSmartAi \<Rightarrow> ''/auth/token/refresh/''),
       req_method = Some ''POST'',
       req_headers = [(''content-type'', ''application/json'')],
       req_body = JsonBody (JObj (case t of None \<Rightarrow> [] | Some v \<Rightarrow> [(''refresh'', v)])) \<rparr>"
  by (cases c; cases t)
    (simp_all add: refresh_request_def object_literal_def new_Headers_def Headers_append_def
      Headers_get_def Headers_set_def toLowerCase_def lower_char_def)

lemma property_not_object: "\<forall>kvs. data \<noteq> JObj kvs \<Longrightarrow> property data k = None"
  by (cases data) simp_all

subsection \<open>The demonstration world\<close>

lemma getState_alice_world: "getState (demo_env srv) alice_world = Some alice"
  by (simp add: getState_def readStorage_def alice_world_def fresh_world_def demo_env_def
      demo_parse_stringify demo_stringify_nonempty)

lemma fetched_alice_world: "fetched alice_world = []"
  by (simp add: alice_world_def fresh_world_def)

lemma isBrowser_alice_world: "isBrowser alice_world"
  by (simp add: alice_world_def fresh_world_def)

lemma new_token_facts:
  "ok new_token" "resp_json new_token = Some (JObj [(''access'', JStr ''A2'')])"
  by (simp_all add: new_token_def json_response_def ok_def)

subsection \<open>The request functions\<close>

lemma settle_fetched: "fetched (snd (settle e skip r w)) = fetched w"
  by (simp add: settle_def fetched_clear split: sum.splits)

lemma settle_dsa_world: "snd (settle_dsa r w) = w"
  by (simp add: settle_dsa_def split: sum.splits)

lemma client_settle_fetched: "fetched (snd (client_settle c e skip r w)) = fetched w"
  by (cases c) (simp_all add: settle_fetched settle_dsa_world)

lemma Headers_get_set: "Headers_get (Headers_set h n v) n = Some v"
  by (simp add: Headers_get_def Headers_set_def update_conv')

lemma has_refresh_Some: "has_refresh (Some s) = truthy (refresh (tokens s))"
  by (simp add: has_refresh_def)

lemma client_settle_error:
  "resp_status r \<noteq> 204 \<Longrightarrow> \<not> ok r \<Longrightarrow> client_read_body c r = Inr data \<Longrightarrow>
   client_settle c e skip r w =
     (Inl (ApiError (client_error_message c (resp_status r) data) (resp_status r) data),
      if c = Frontend \<and> resp_status r = 401 \<and> \<not> skip then clear e w else w)"
  by (cases c) (simp_all add: settle_def settle_dsa_def)

lemma client_settle_ok:
  "resp_status r \<noteq> 204 \<Longrightarrow> ok r \<Longrightarrow> client_read_body c r = Inr data \<Longrightarrow>
   client_settle c e skip r w = (Inr (Some data), w)"
  by (cases c) (simp_all add: settle_def settle_dsa_def)

lemma client_settle_throws:
  "resp_status r \<noteq> 204 \<Longrightarrow> client_read_body c r = Inl err \<Longrightarrow>
   client_settle c e skip r w = (Inl err, w)"
  by (cases c) (simp_all add: settle_def settle_dsa_def)

lemma client_settle_204: "resp_status r = 204 \<Longrightarrow> client_settle c e skip r w = (Inr None, w)"
  by (cases c) (simp_all add: settle_def settle_dsa_def)

lemma client_read_body_eq:
  "client_read_body c r =
     (case Headers_get (response_headers r) ''Content-Type'' of
        None \<Rightarrow> (case c of Frontend \<Rightarrow> Inr JNull | DoSmartAi \<Rightarrow> Inr (JStr (resp_text r)))
      | Some contentType \<Rightarrow>
          if includes_str contentType ''application/json''
          then (case resp_json r of None \<Rightarrow> Inl JsonSyntaxError | Some j \<Rightarrow> Inr j)
          else if contentType \<noteq> [] then Inr (JStr (resp_text r))
          else (case c of Frontend \<Rightarrow> Inr JNull | DoSmartAi \<Rightarrow> Inr (JStr (resp_text r))))"
  by (cases c) (simp_all add: read_body_def read_body_dsa_def Let_def split: option.splits)

lemma client_request_401:
  assumes "\<not> skipAuth options" and "getState e w = Some s" and "truthy (refresh (tokens s))"
    and "rq = client_first_request c e path options w"
    and "server e (fetched w) rq = Resolved r1" and "resp_status r1 = 401"
  shows "client_request c e path options w =
    (case client_refresh c e (w\<lparr>fetched := fetched w @ [rq]\<rparr>) of
       (newAccess, w2) \<Rightarrow>
         if truthy newAccess
         then (case server e (fetched w2) (with_bearer rq (String_js newAccess)) of
                 Rejected \<Rightarrow>
                   (Inl FetchRejected, w2\<lparr>fetched := fetched w2 @ [with_bearer rq (String_js newAccess)]\<rparr>)
               | Resolved r2 \<Rightarrow>
                   client_settle c e False r2
                     (w2\<lparr>fetched := fetched w2 @ [with_bearer rq (String_js newAccess)]\<rparr>))
         else client_settle c e False r1 w2)"
proof (cases c)
  case Frontend
  with assms show ?thesis
    by (simp add: request_def Let_def fetch_def has_refresh_Some with_bearer_def
        split: prod.splits fetch_result.splits)
next
  case DoSmartAi
  with assms show ?thesis
    by (simp add: apiRequest_def Let_def fetch_def has_refresh_Some with_bearer_def
        split: prod.splits fetch_result.splits)
qed

lemma client_request_final:
  assumes "final_response c e path options w = Some (r, w1)"
  shows "client_request c e path options w = client_settle c e (skipAuth options) r w1"
proof (cases c)
  case Frontend
  with assms show ?thesis
    by (auto simp: final_response_def request_def Let_def fetch_def with_bearer_def
        split: prod.splits fetch_result.splits if_splits)
next
  case DoSmartAi
  with assms show ?thesis
    by (auto simp: final_response_def apiRequest_def Let_def fetch_def with_bearer_def
        split: prod.splits fetch_result.splits if_splits)
qed

lemma final_response_first:
  assumes "server e (fetched w) (client_first_request c e path options w) = Resolved r"
    and "resp_status r \<noteq> 401 \<or> skipAuth options
         \<or> (\<forall>s. getState e w = Some s \<longrightarrow> \<not> truthy (refresh (tokens s)))"
  shows "final_response c e path options w =
     Some (r, w\<lparr>fetched := fetched w @ [client_first_request c e path options w]\<rparr>)"
  using assms by (auto simp: final_response_def Let_def has_refresh_def split: option.splits)

subsection \<open>Running the demonstration servers\<close>

lemma demo_env_simps:
  "API_BASE_URL (demo_env srv) = ''http://localhost:8000/api''"
  "server (demo_env srv) = srv"
  by (simp_all add: demo_env_def)

lemma tasks_first_request:
  "client_first_request Frontend (demo_env srv) ''/tasks/'' default_options alice_world = tasks_request ''A1''"
  "client_first_request DoSmartAi (demo_env srv) ''/tasks/'' default_options alice_world = tasks_request_dsa ''A1''"
  by (simp_all add: first_request_def first_request_dsa_def default_options_def merge_headers_def
      merge_headers_dsa_def attach_bearer_def getState_alice_world alice_def new_Headers_def
      Headers_has_def Headers_get_def Headers_set_def toLowerCase_def lower_char_def demo_env_simps
      tasks_request_def tasks_request_dsa_def)

lemma me_first_request:
  "client_first_request c (demo_env srv) ''/auth/me/'' default_options alice_world = me_request c"
  by (cases c)
    (simp_all add: first_request_def first_request_dsa_def default_options_def merge_headers_def
      merge_headers_dsa_def attach_bearer_def getState_alice_world alice_def new_Headers_def
      Headers_has_def Headers_get_def Headers_set_def toLowerCase_def lower_char_def demo_env_simps
      me_request_def)

lemma tasks_with_bearer:
  "with_bearer (tasks_request a) b = tasks_request b"
  "with_bearer (tasks_request_dsa a) b = tasks_request_dsa b"
  by (simp_all add: with_bearer_def tasks_request_def tasks_request_dsa_def Headers_set_def
      toLowerCase_def lower_char_def)

lemma renewing_tasks:
  "renewing h (tasks_request ''A1'') = Resolved unauthorized"
  "renewing h (tasks_request ''A2'') = Resolved (json_response 200 ''[]'' (JArr []))"
  by (simp_all add: renewing_def tasks_request_def is_refresh_url_def Headers_get_def
      toLowerCase_def lower_char_def)

lemma refresh_url:
  "is_refresh_url (req_url (refresh_request (demo_env srv) (refresh_path c) t))"
  by (cases c) (simp_all add: demo_env_simps refresh_request_def is_refresh_url_def)

lemma renewing_refresh_any:
  "renewing h (refresh_request (demo_env srv) (refresh_path c) t) = Resolved new_token"
  by (simp add: renewing_def refresh_url)

lemma unauthorized_facts:
  "resp_status unauthorized = 401"
  "client_read_body c unauthorized = Inr (JObj [(''detail'', JStr ''Token expired'')])"
  "client_error_message c 401 (JObj [(''detail'', JStr ''Token expired'')]) = ''Token expired''"
  by (cases c; simp add: unauthorized_def json_response_def read_body_def read_body_dsa_def
      response_headers_def new_Headers_def Headers_append_def Headers_get_def Headers_set_def
      toLowerCase_def lower_char_def error_message_def error_message_dsa_def coalesce_json_def Let_def)+

lemma unauthorized_header:
  "Headers_get (response_headers unauthorized) ''Content-Type'' = Some ''application/json''"
  "resp_json unauthorized = Some (JObj [(''detail'', JStr ''Token expired'')])"
  by (simp_all add: unauthorized_def json_response_def response_headers_def new_Headers_def
      Headers_append_def Headers_get_def Headers_set_def toLowerCase_def lower_char_def)

lemma garbled_facts:
  "resp_status garbled = 401" "\<not> ok garbled" "resp_json garbled = None"
  "Headers_get (response_headers garbled) ''Content-Type'' = Some ''application/json''"
  "client_read_body c garbled = Inl JsonSyntaxError"
  by (cases c; simp add: garbled_def ok_def read_body_def read_body_dsa_def
      response_headers_def new_Headers_def Headers_append_def Headers_get_def Headers_set_def
      toLowerCase_def lower_char_def Let_def)+

lemma getState_alice_sent: "getState (demo_env srv) (alice_world\<lparr>fetched := f\<rparr>) = Some alice"
  by (simp add: getState_fetched_update getState_alice_world)

lemma alice_refresh: "refresh (tokens alice) = Some (JStr ''R1'')" "truthy (refresh (tokens alice))"
  by (simp_all add: alice_def)

lemma alice_client_refresh:
  "client_refresh c (demo_env srv) (alice_world\<lparr>fetched := f\<rparr>) =
     refresh_exchange (demo_env srv) (refresh_path c) alice (alice_world\<lparr>fetched := f\<rparr>)"
  by (rule client_refresh_eq) (simp_all add: getState_alice_sent alice_refresh)

lemma renewing_grants:
  "fst (client_refresh c (demo_env renewing) (alice_world\<lparr>fetched := f\<rparr>)) = Some (JStr ''A2'')"
  using refresh_exchange_stores [OF codec_ok_demo, of "alice_world\<lparr>fetched := f\<rparr>" renewing "refresh_path c" alice
      new_token "JObj [(''access'', JStr ''A2'')]"]
  by (simp add: alice_client_refresh isBrowser_alice_world demo_env_simps renewing_refresh_any new_token_facts)

lemma revoked_denies:
  "fst (client_refresh c (demo_env revoked) (alice_world\<lparr>fetched := f\<rparr>)) = Some JNull"
  using refresh_exchange_not_ok [of "demo_env revoked" "alice_world\<lparr>fetched := f\<rparr>" "refresh_path c" alice unauthorized]
  by (simp add: alice_client_refresh demo_env_simps revoked_def unauthorized_facts ok_def)

lemma garbling_denies:
  "fst (client_refresh c (demo_env garbling) (alice_world\<lparr>fetched := f\<rparr>)) = Some JNull"
  using refresh_exchange_not_ok [of "demo_env garbling" "alice_world\<lparr>fetched := f\<rparr>" "refresh_path c" alice garbled]
  by (simp add: alice_client_refresh demo_env_simps garbling_def garbled_facts)

lemma settle_empty_list:
  "fst (client_settle c e skip (json_response 200 ''[]'' (JArr [])) w) = Inr (Some (JArr []))"
  by (cases c; simp add: settle_def settle_dsa_def json_response_def read_body_def read_body_dsa_def
      response_headers_def new_Headers_def Headers_append_def Headers_get_def Headers_set_def
      toLowerCase_def lower_char_def ok_def Let_def)

subsection \<open>Headers and the requests sent\<close>

lemma Headers_get_set_eq:
  "Headers_get (Headers_set h n v) m = (if toLowerCase m = toLowerCase n then Some v else Headers_get h m)"
  by (simp add: Headers_get_def Headers_set_def update_conv')

lemma client_refresh_fetched: "\<exists>xs. fetched (snd (client_refresh c e w)) = fetched w @ xs"
  by (cases c) (auto simp: refreshAccessToken_def refreshAccessToken_dsa_def refresh_exchange_fetched
      split: option.splits)

lemma request_sends_first:
  "\<exists>rest. fetched (snd (request e path options w)) = fetched w @ first_request e path options w # rest"
proof -
  let ?w1 = "w\<lparr>fetched := fetched w @ [first_request e path options w]\<rparr>"
  obtain xs where xs: "fetched (snd (refreshAccessToken e ?w1)) = fetched ?w1 @ xs"
    using client_refresh_fetched [of Frontend e ?w1] by auto
  show ?thesis
    using xs
    by (auto simp: request_def Let_def fetch_def settle_fetched
        split: prod.splits sum.splits option.splits fetch_result.splits)
qed

lemma apiRequest_sends_first:
  "\<exists>rest. fetched (snd (apiRequest e path options w)) = fetched w @ first_request_dsa e path options w # rest"
proof -
  let ?w1 = "w\<lparr>fetched := fetched w @ [first_request_dsa e path options w]\<rparr>"
  obtain xs where xs: "fetched (snd (refreshAccessToken_dsa e ?w1)) = fetched ?w1 @ xs"
    using client_refresh_fetched [of DoSmartAi e ?w1] by auto
  show ?thesis
    using xs
    by (auto simp: apiRequest_def Let_def fetch_def settle_dsa_world
        split: prod.splits sum.splits option.splits fetch_result.splits)
qed

lemma attach_bearer_other:
  "toLowerCase n \<noteq> ''authorization'' \<Longrightarrow> Headers_get (attach_bearer skip st h) n = Headers_get h n"
  by (simp add: attach_bearer_def Headers_get_set_eq toLowerCase_def lower_char_def split: option.splits)

lemma lower_names:
  "toLowerCase ''Accept'' = ''accept''" "toLowerCase ''Content-Type'' = ''content-type''"
  "toLowerCase ''Authorization'' = ''authorization''"
  by (simp_all add: toLowerCase_def lower_char_def)

lemma merge_headers_Accept:
  "Headers_get (merge_headers options) ''Accept'' =
     (case Headers_get (new_Headers (opt_headers options)) ''Accept'' of
        None \<Rightarrow> Some ''application/json'' | Some v \<Rightarrow> Some v)"
  by (auto simp: merge_headers_def Let_def Headers_has_def Headers_get_set_eq lower_names split: option.splits)

lemma merge_headers_Content_Type:
  "Headers_get (merge_headers options) ''Content-Type'' =
     (case Headers_get (new_Headers (opt_headers options)) ''Content-Type'' of
        Some v \<Rightarrow> Some v
      | None \<Rightarrow>
          if opt_body options \<noteq> FormData \<and> opt_method options \<noteq> None
             \<and> opt_method options \<noteq> Some [] \<and> opt_method options \<noteq> Some ''GET''
          then Some ''application/json'' else None)"
  by (auto simp: merge_headers_def Let_def Headers_has_def Headers_get_set_eq lower_names split: option.splits)

lemma merge_headers_keeps:
  "Headers_get (new_Headers (opt_headers options)) n = Some v \<Longrightarrow>
   Headers_get (merge_headers options) n = Some v"
  by (auto simp: merge_headers_def Let_def Headers_has_def Headers_get_def Headers_set_def update_conv' lower_names)

lemma merge_headers_adds_nothing_else:
  "toLowerCase n \<noteq> ''accept'' \<Longrightarrow> toLowerCase n \<noteq> ''content-type'' \<Longrightarrow>
   Headers_get (merge_headers options) n = Headers_get (new_Headers (opt_headers options)) n"
  by (auto simp: merge_headers_def Let_def Headers_has_def Headers_get_set_eq lower_names)

lemma merge_headers_dsa_Content_Type:
  "Headers_get (merge_headers_dsa options) ''Content-Type'' =
     (case Headers_get (new_Headers (opt_headers options)) ''Content-Type'' of
        Some v \<Rightarrow> Some v
      | None \<Rightarrow> if opt_body options \<noteq> FormData then Some ''application/json'' else None)"
  by (auto simp: merge_headers_dsa_def Let_def Headers_has_def Headers_get_set_eq lower_names split: option.splits)

lemma merge_headers_dsa_other:
  "toLowerCase n \<noteq> ''content-type'' \<Longrightarrow>
   Headers_get (merge_headers_dsa options) n = Headers_get (new_Headers (opt_headers options)) n"
  by (auto simp: merge_headers_dsa_def Let_def Headers_has_def Headers_get_set_eq lower_names)

lemma merge_headers_dsa_keeps:
  "Headers_get (new_Headers (opt_headers options)) n = Some v \<Longrightarrow>
   Headers_get (merge_headers_dsa options) n = Some v"
  by (auto simp: merge_headers_dsa_def Let_def Headers_has_def Headers_get_def Headers_set_def update_conv' lower_names)

subsection \<open>Bodies and error messages\<close>

lemma property_eq: "property data k = (case data of JObj kvs \<Rightarrow> map_of kvs k | _ \<Rightarrow> None)"
  by (cases data) simp_all

lemma coalesce_json_first: "coalesce_json a b = first_present [a, b]"
  by (simp add: coalesce_json_def)

lemma first_present_nested:
  "first_present (first_present (x # xs) # d # ds) = first_present (x # xs @ d # ds)"
  by (induction "x # xs" arbitrary: x xs rule: first_present.induct) auto

lemma error_message_eq:
  "error_message st data =
     (case property data ''detail'' of
        Some (JStr detail) \<Rightarrow> detail
      | _ \<Rightarrow> (case property data ''message'' of
                Some (JStr fallbackMessage) \<Rightarrow> fallbackMessage
              | _ \<Rightarrow> ''Request failed with status '' @ show_nat st))"
  by (cases data) (auto simp: error_message_def Let_def split: option.splits json.splits)

lemma error_message_dsa_eq:
  "error_message_dsa st data =
     String_js (first_present [property data ''detail'', property data ''message'',
                               Some (JStr (''Request failed with status '' @ show_nat st))])"
  by (simp add: error_message_dsa_def coalesce_json_def Let_def split: option.splits)

lemma locked_run:
  "apiRequest (demo_env locked) ''/tasks/'' default_options alice_world =
     settle_dsa unauthorized
       ((setState (demo_env locked)
           \<lparr> tokens = \<lparr> access = Some (JStr ''A2''), refresh = Some (JStr ''R1'') \<rparr>, user = user alice \<rparr>
          (alice_world\<lparr>fetched := [tasks_request_dsa ''A1'',
              refresh_request (demo_env locked) ''/auth/token/refresh/'' (Some (JStr ''R1''))]\<rparr>))
        \<lparr>fetched := [tasks_request_dsa ''A1'',
              refresh_request (demo_env locked) ''/auth/token/refresh/'' (Some (JStr ''R1'')),
              tasks_request_dsa ''A2'']\<rparr>)"
  using tasks_first_request(2) [of locked]
  by (simp add: apiRequest_def Let_def fetch_def getState_alice_world has_refresh_Some alice_refresh
      fetched_alice_world demo_env_simps locked_def tasks_request_dsa_def is_refresh_url_def
      unauthorized_facts refreshAccessToken_dsa_def getState_alice_sent refresh_exchange_def
      refresh_request_def new_token_facts fetched_setState Headers_set_def toLowerCase_def lower_char_def
      default_options_def)

subsection \<open>Login and the current user\<close>

lemma login_first_request:
  "first_request e ''/auth/login/''
     \<lparr> skipAuth = True, opt_headers = [], opt_method = Some ''POST'',
       opt_body = JsonBody (JObj [(''email'', JStr email), (''password'', JStr password)]) \<rparr> w
   = login_request e email password"
  by (simp add: first_request_def login_request_def merge_headers_def attach_bearer_def new_Headers_def
      Headers_has_def Headers_get_def Headers_set_def toLowerCase_def lower_char_def Let_def
      split: option.splits)

lemma normalizeUser_object:
  "normalizeUser (Some (JObj u)) =
     Inr \<lparr> user_id = String_js (map_of u ''id''),
           user_email = first_present [map_of u ''email'', Some (JStr [])],
           user_name = first_present [map_of u ''name'', map_of u ''email'', Some (JStr [])] \<rparr>"
  by (simp add: normalizeUser_def coalesce_json_def)

lemma login_unfold:
  "server e (fetched w) (login_request e email password) = Resolved r \<Longrightarrow>
   ok r \<Longrightarrow> resp_status r \<noteq> 204 \<Longrightarrow> read_body r = Inr data \<Longrightarrow> data \<noteq> JNull \<Longrightarrow>
   normalizeUser (property data ''user'') = Inr u \<Longrightarrow>
   login e email password w =
     (Inr \<lparr> accessToken = property data ''access'', refreshToken = property data ''refresh'',
            sessionUser = u \<rparr>,
      setState e \<lparr> tokens = \<lparr> access = property data ''access'', refresh = property data ''refresh'' \<rparr>,
                   user = u \<rparr>
        (w\<lparr>fetched := fetched w @ [login_request e email password]\<rparr>))"
  by (auto simp: login_def request_def login_first_request fetch_def Let_def settle_def ok_def)

lemma mock_backend_facts:
  "ok (json_response 200 t j)" "resp_status (json_response 200 t j) \<noteq> 204"
  "read_body (json_response 200 t j) = Inr j"
  "Headers_get (response_headers (json_response 200 t j)) ''Content-Type'' = Some ''application/json''"
  "resp_json (json_response 200 t j) = Some j" "resp_status (json_response 200 t j) = 200"
  by (simp_all add: json_response_def ok_def read_body_def response_headers_def new_Headers_def
      Headers_append_def Headers_get_def Headers_set_def toLowerCase_def lower_char_def)

lemma property_object_literal:
  "property (object_literal [(''id'', a), (''email'', b), (''name'', c)]) ''id'' = a"
  "property (object_literal [(''id'', a), (''email'', b), (''name'', c)]) ''email'' = b"
  "property (object_literal [(''id'', a), (''email'', b), (''name'', c)]) ''name'' = c"
  by (cases a; cases b; cases c; simp add: object_literal_def)+

lemma object_literal_not_null: "object_literal kvs \<noteq> JNull"
  by (simp add: object_literal_def)

lemma profile_name:
  "(case coalesce_json (property data ''profile'') (Some (JObj [])) of
      None \<Rightarrow> None | Some p \<Rightarrow> property p ''name'') =
   (case property data ''profile'' of Some (JObj p) \<Rightarrow> map_of p ''name'' | _ \<Rightarrow> None)"
  by (cases "property data ''profile''") (auto simp: coalesce_json_def property_eq split: json.splits)

lemma me_payload_user:
  "normalizeUser (Some (me_payload data)) =
     Inr \<lparr> user_id = String_js (property data ''id''),
           user_email = first_present [property data ''email'', Some (JStr [])],
           user_name = first_present
             [property data ''name'',
              (case property data ''profile'' of Some (JObj p) \<Rightarrow> map_of p ''name'' | _ \<Rightarrow> None),
              property data ''email'', Some (JStr [])] \<rparr>"
  unfolding me_payload_def Let_def profile_name
  by (simp add: normalizeUser_def object_literal_not_null property_object_literal
      coalesce_json_first first_present_nested del: first_present.simps)

lemma normalizeUser_dsa_eq:
  "data \<noteq> JNull \<Longrightarrow>
   normalizeUser_dsa (Some data) =
     Inr \<lparr> user_id = String_js (property data ''id''),
           user_email = property data ''email'',
           user_name = first_present [property data ''name'', property data ''email''] \<rparr>"
  by (simp add: normalizeUser_dsa_def coalesce_json_def)

lemma on_error_401: "on_error e (ApiError m 401 d) w = (Inr None, clear e w)"
  by (simp add: on_error_def)

lemma on_error_other: "\<forall>m d. err \<noteq> ApiError m 401 d \<Longrightarrow> on_error e err w = (Inl err, w)"
  by (cases err) (auto simp: on_error_def)

lemma on_error_never_401: "fst (on_error e err w) \<noteq> Inl (ApiError m 401 d)"
  by (cases err) (auto simp: on_error_def)

lemma client_getCurrentUser_error:
  "client_request c e ''/auth/me/'' default_options w = (Inl err, w1) \<Longrightarrow>
   client_getCurrentUser c e w = on_error e err w1"
  by (cases c) (simp_all add: getCurrentUser_def getCurrentUser_dsa_def)

lemma client_getCurrentUser_nothing:
  "client_request c e ''/auth/me/'' default_options w = (Inr data, w1) \<Longrightarrow>
   data = None \<or> data = Some JNull \<Longrightarrow>
   client_getCurrentUser c e w = (Inl TypeError, w1)"
  by (cases c) (auto simp: getCurrentUser_def getCurrentUser_dsa_def normalizeUser_dsa_def on_error_def)

lemma client_getCurrentUser_user:
  "client_request c e ''/auth/me/'' default_options w = (Inr (Some data), w1) \<Longrightarrow> data \<noteq> JNull \<Longrightarrow>
   u = (case c of
          Frontend \<Rightarrow>
            \<lparr> user_id = String_js (property data ''id''),
              user_email = first_present [property data ''email'', Some (JStr [])],
              user_name = first_present
                [property data ''name'',
                 (case property data ''profile'' of Some (JObj p) \<Rightarrow> map_of p ''name'' | _ \<Rightarrow> None),
                 property data ''email'', Some (JStr [])] \<rparr>
        | DoSmartAi \<Rightarrow>
            \<lparr> user_id = String_js (property data ''id''),
              user_email = property data ''email'',
              user_name = first_present [property data ''name'', property data ''email''] \<rparr>) \<Longrightarrow>
   client_getCurrentUser c e w = (Inr (Some u), updateUser e u w1)"
  by (cases c) (simp_all add: getCurrentUser_def getCurrentUser_dsa_def me_payload_user normalizeUser_dsa_eq)

lemma revoked_run:
  assumes "\<not> skipAuth options"
  shows "fst (client_request c (demo_env revoked) path options alice_world) =
     Inl (ApiError ''Token expired'' 401 (JObj [(''detail'', JStr ''Token expired'')]))"
proof -
  let ?rq = "client_first_request c (demo_env revoked) path options alice_world"
  let ?w1 = "alice_world\<lparr>fetched := fetched alice_world @ [?rq]\<rparr>"
  obtain w2 where r: "client_refresh c (demo_env revoked) ?w1 = (Some JNull, w2)"
    using revoked_denies [of c "fetched alice_world @ [?rq]"] by (metis prod.collapse)
  have "client_request c (demo_env revoked) path options alice_world =
      client_settle c (demo_env revoked) False unauthorized w2"
    using client_request_401 [OF assms getState_alice_world alice_refresh(2) refl, of revoked c path unauthorized]
    by (simp add: demo_env_simps revoked_def unauthorized_facts r)
  then show ?thesis
    using client_settle_error [where c = c and r = unauthorized
        and data = "JObj [(''detail'', JStr ''Token expired'')]"]
    by (simp add: unauthorized_facts ok_def)
qed

lemma profile_run:
  "client_request c (demo_env profile_backend) ''/auth/me/'' default_options alice_world =
     (Inr (Some me_reply), alice_world\<lparr>fetched := [me_request c]\<rparr>)"
proof -
  have "final_response c (demo_env profile_backend) ''/auth/me/'' default_options alice_world =
      Some (me_response, alice_world\<lparr>fetched := fetched alice_world @ [me_request c]\<rparr>)"
    using final_response_first [of "demo_env profile_backend" alice_world c "''/auth/me/''"
        default_options me_response]
    by (simp add: me_first_request demo_env_simps profile_backend_def me_response_def mock_backend_facts)
  then show ?thesis
    using client_settle_ok [of me_response c me_reply "demo_env profile_backend"]
    by (simp add: client_request_final me_response_def mock_backend_facts client_read_body_eq
        fetched_alice_world)
qed

subsection \<open>The percentage in double precision\<close>

lemma round_even_div_nat:
  assumes "0 < b"
  shows "2 * a \<le> 2 * (round_even_div a b * b) + b \<and> 2 * (round_even_div a b * b) \<le> 2 * a + b"
proof -
  define q where "q = a div b"
  define r where "r = a mod b"
  have a: "a = q * b + r" by (simp add: q_def r_def)
  have r: "r < b" using assms by (simp add: r_def)
  have m: "round_even_div a b =
      (if 2 * r < b then q else if b < 2 * r then q + 1 else if even q then q else q + 1)"
    by (simp add: round_even_div_def Let_def q_def r_def)
  show ?thesis
    unfolding m using r by (auto simp: a algebra_simps)
qed

lemma round_even_div_real:
  assumes "0 < b"
  shows "\<bar>real (round_even_div a b) - real a / real b\<bar> \<le> 1 / 2"
proof -
  let ?m = "round_even_div a b"
  from round_even_div_nat [OF assms, of a]
  have "2 * real a \<le> 2 * (real ?m * real b) + real b" "2 * (real ?m * real b) \<le> 2 * real a + real b"
    by (metis of_nat_add of_nat_le_iff of_nat_mult of_nat_numeral)+
  then have "real a / real b - real ?m \<le> 1 / 2" "real ?m - real a / real b \<le> 1 / 2"
    using assms by (simp_all add: field_simps)
  then show ?thesis by linarith
qed

lemma scale_up_spec:
  "0 < a \<Longrightarrow> a < 2 ^ 53 * b \<Longrightarrow> scale_up a b p = (a', p') \<Longrightarrow>
   a' * p = a * p' \<and> 2 ^ 52 * b \<le> a' \<and> a' < 2 ^ 53 * b \<and> (0 < p \<longrightarrow> 0 < p')"
proof (induction a b p rule: scale_up.induct)
  case (1 a b p)
  show ?case
  proof (cases "2 ^ 52 * b \<le> a")
    case True
    with "1.prems" show ?thesis by (simp add: scale_up.simps)
  next
    case False
    then have rec: "scale_up (2 * a) b (2 * p) = (a', p')"
      using "1.prems" by (simp add: scale_up.simps)
    have "a' * (2 * p) = 2 * a * p' \<and> 2 ^ 52 * b \<le> a' \<and> a' < 2 ^ 53 * b \<and> (0 < 2 * p \<longrightarrow> 0 < p')"
      using False "1.prems"(1) by (intro "1.IH" rec) auto
    then show ?thesis by auto
  qed
qed

lemma nearest_double_up:
  assumes "0 < a" and "0 < b" and "a < 2 ^ 52 * b" and "nearest_double a b = (m, p)"
  shows "0 < p \<and> \<bar>real m - real a * real p / real b\<bar> \<le> 1 / 2
     \<and> 2 ^ 52 * b \<le> a * p \<and> a * p < 2 ^ 53 * b"
proof -
  obtain a' p' where s: "scale_up a b 1 = (a', p')" by (cases "scale_up a b 1")
  have "a < 2 ^ 53 * b" using assms(3) by simp
  from scale_up_spec [OF assms(1) this s]
  have f: "a' = a * p'" "2 ^ 52 * b \<le> a'" "a' < 2 ^ 53 * b" "0 < p'" by auto
  have mp: "m = round_even_div a' b" "p = p'"
    using assms s by (auto simp: nearest_double_def)
  show ?thesis
    using f round_even_div_real [OF assms(2), of a'] by (simp add: mp)
qed

lemma percentage_of_zero: "0 < t \<Longrightarrow> percentage_of 0 t = 0"
  by (simp add: percentage_of_def nearest_double_def Math_round_def)

lemma percentage_of_close:
  assumes "0 < c" and "c \<le> t" and "t < 2 ^ 32"
  shows "\<exists>M P. 0 < P \<and> percentage_of c t = (2 * M + P) div (2 * P)
     \<and> \<bar>real M / real P - 100 * (real c / real t)\<bar> \<le> 100 / 2 ^ 52"
proof -
  have t: "0 < t" using assms by simp
  obtain m p where mp: "nearest_double c t = (m, p)" by (cases "nearest_double c t")
  have "c < 2 ^ 52 * t" using assms(2) t by (simp add: less_le_trans [of c "2 * t"] )
  from nearest_double_up [OF assms(1) t this mp]
  have p: "0 < p" and m1: "\<bar>real m - real c * real p / real t\<bar> \<le> 1 / 2"
    and lo: "2 ^ 52 * t \<le> c * p" by auto
  have "2 ^ 52 * t \<le> t * p"
    using lo assms(2) by (meson le_trans mult_le_mono1)
  then have p52: "2 ^ 52 \<le> p" using t by (simp add: mult.commute)
  have cp: "real c * real p / real t \<le> real p"
    using assms(2) t p by (simp add: field_simps mult_right_mono)
  have "real m \<le> real p + 1 / 2" using m1 cp by linarith
  then have mle: "m \<le> p" by linarith
  have "real c * real p / real t \<ge> 2 ^ 52"
  proof -
    have "real (2 ^ 52 * t) \<le> real (c * p)" using lo of_nat_le_iff by blast
    then show ?thesis using t by (simp add: field_simps)
  qed
  moreover have "(1::real) \<le> 2 ^ 52" by simp
  ultimately have "1 \<le> real c * real p / real t" by (rule order_trans [rotated])
  then have "0 < real m" using m1 by linarith
  then have m0: "0 < m" by simp
  have "m * 100 < 2 ^ 52 * p"
  proof -
    have "m * 100 \<le> p * 100" using mle by simp
    also have "\<dots> < 2 ^ 52 * p" using p by simp
    finally show ?thesis .
  qed
  moreover obtain M P where MP: "nearest_double (m * 100) p = (M, P)"
    by (cases "nearest_double (m * 100) p")
  moreover have "0 < m * 100" using m0 by simp
  ultimately have P: "0 < P" and m2: "\<bar>real M - real (m * 100) * real P / real p\<bar> \<le> 1 / 2"
    and lo2: "2 ^ 52 * p \<le> m * 100 * P"
    using nearest_double_up [OF _ p, of "m * 100" M P] by auto
  have "m * 100 * P \<le> p * 100 * P"
    using mle by (intro mult_le_mono1)
  with lo2 have "2 ^ 52 * p \<le> p * 100 * P" by (rule le_trans)
  also have "p * 100 * P = (100 * P) * p" by (simp only: ac_simps)
  finally have "0 < p \<longrightarrow> 2 ^ 52 \<le> 100 * P" by (simp only: mult_le_cancel2)
  with p have P52: "2 ^ 52 \<le> 100 * P" by blast
  have pct: "percentage_of c t = (2 * M + P) div (2 * P)"
    using t by (simp add: percentage_of_def mp MP Math_round_def)
  define x where "x = real c / real t"
  define u where "u = real m / real p"
  define v where "v = real M / real P"
  have d1: "\<bar>u - x\<bar> \<le> 1 / (2 * real p)"
  proof -
    have "u - x = (real m - real c * real p / real t) / real p"
      using p by (simp add: u_def x_def field_simps)
    then have "\<bar>u - x\<bar> = \<bar>real m - real c * real p / real t\<bar> / real p"
      using p by simp
    also have "\<dots> \<le> (1 / 2) / real p"
      using m1 p by (intro divide_right_mono) simp_all
    finally show ?thesis by simp
  qed
  have d2: "\<bar>v - 100 * u\<bar> \<le> 1 / (2 * real P)"
  proof -
    have "v - 100 * u = (real M - real (m * 100) * real P / real p) / real P"
      using p P by (simp add: u_def v_def field_simps)
    then have "\<bar>v - 100 * u\<bar> = \<bar>real M - real (m * 100) * real P / real p\<bar> / real P"
      using P by simp
    also have "\<dots> \<le> (1 / 2) / real P"
      using m2 P by (intro divide_right_mono) simp_all
    finally show ?thesis by simp
  qed
  define k where "k = (1::real) / 2 ^ 52"
  have e1: "1 / (2 * real p) \<le> k / 2"
  proof -
    have "(2::real) ^ 52 \<le> real p" using p52 by (metis of_nat_le_iff of_nat_numeral of_nat_power)
    then show ?thesis by (simp add: k_def field_simps)
  qed
  have e2: "1 / (2 * real P) \<le> 50 * k"
  proof -
    have "real (2 ^ 52) \<le> real (100 * P)" using P52 of_nat_le_iff by blast
    then have "(2::real) ^ 52 \<le> 100 * real P" by simp
    then show ?thesis using P by (simp add: k_def field_simps)
  qed
  have "\<bar>v - 100 * x\<bar> \<le> 100 * k"
    using d1 d2 e1 e2 by linarith
  then have "\<bar>real M / real P - 100 * (real c / real t)\<bar> \<le> 100 / 2 ^ 52"
    unfolding v_def x_def k_def by simp
  with P pct show ?thesis by blast
qed

lemma percentage_of_round:
  assumes "0 < t" and "c \<le> t" and "t < 2 ^ 32"
  shows "percentage_of c t \<le> (200 * c + t) div (2 * t)
    \<and> (200 * c + t) div (2 * t) \<le> percentage_of c t + 1
    \<and> (\<not> 2 * t dvd 200 * c + t \<longrightarrow> percentage_of c t = (200 * c + t) div (2 * t))"
proof (cases "c = 0")
  case True
  then show ?thesis using assms(1) by (simp add: percentage_of_zero)
next
  case False
  then have c: "0 < c" by simp
  define R where "R = (200 * c + t) div (2 * t)"
  define n where "n = 200 * c + t"
  from percentage_of_close [OF c assms(2,3)]
  obtain M P where P: "0 < P" and pct: "percentage_of c t = (2 * M + P) div (2 * P)"
    and close: "\<bar>real M / real P - 100 * (real c / real t)\<bar> \<le> 100 / 2 ^ 52"
    by blast
  define v where "v = real M / real P"
  define x where "x = real c / real t"
  define d where "d = 1 / (2 * real t)"
  define k where "k = (100::real) / 2 ^ 52"
  have kd: "k < d"
  proof -
    have "real t < 2 ^ 32" using assms(3) by (metis of_nat_less_iff of_nat_numeral of_nat_power)
    then have "2 * real t < 2 ^ 33" by simp
    then have "1 / 2 ^ 33 < 1 / (2 * real t)"
      using assms(1) by (intro divide_strict_left_mono) simp_all
    moreover have "(100::real) / 2 ^ 52 < 1 / 2 ^ 33" by simp
    ultimately show ?thesis unfolding k_def d_def by linarith
  qed
  have e: "\<bar>v - 100 * x\<bar> \<le> k"
    using close by (simp add: v_def x_def k_def)
  have fl: "int (percentage_of c t) = \<lfloor>v + 1 / 2\<rfloor>"
  proof -
    have "real (2 * M + P) / real (2 * P) = v + 1 / 2"
      using P by (simp add: v_def field_simps)
    then show ?thesis
      using floor_divide_of_nat_eq [of "2 * M + P" "2 * P", where ?'a = real] pct by simp
  qed
  have z: "real n / real (2 * t) = 100 * x + 1 / 2"
    using assms(1) by (simp add: n_def x_def field_simps)
  have t2: "0 < 2 * t" using assms(1) by simp
  have Rn: "R * (2 * t) \<le> n" "n < R * (2 * t) + 2 * t"
  proof -
    show "R * (2 * t) \<le> n"
      unfolding R_def n_def [symmetric] by (rule div_times_less_eq_dividend)
    show "n < R * (2 * t) + 2 * t"
      unfolding R_def n_def [symmetric]
      using dividend_less_div_times [OF t2, of n] by (simp only: add.commute)
  qed
  have lower: "real R \<le> 100 * x + 1 / 2"
  proof -
    have "real (R * (2 * t)) \<le> real n" using Rn(1) of_nat_le_iff by blast
    then have "real R \<le> real n / real (2 * t)"
      using assms(1) by (simp add: field_simps)
    then show ?thesis by (simp only: z)
  qed
  have upper: "100 * x + 1 / 2 \<le> real R + 1 - d"
  proof -
    have "n + 1 \<le> R * (2 * t) + 2 * t" using Rn(2) by simp
    then have "real (n + 1) \<le> real (R * (2 * t) + 2 * t)" using of_nat_le_iff by blast
    then have "real n / real (2 * t) \<le> real R + 1 - d"
      using assms(1) by (simp add: d_def field_simps)
    then show ?thesis by (simp only: z)
  qed
  have strict: "real R + d \<le> 100 * x + 1 / 2" if "\<not> 2 * t dvd n"
  proof -
    have "R * (2 * t) \<noteq> n" using that by (metis dvd_triv_right)
    with Rn(1) have "R * (2 * t) + 1 \<le> n" by simp
    then have "real (R * (2 * t) + 1) \<le> real n" using of_nat_le_iff by blast
    then have "real (R * (2 * t) + 1) / real (2 * t) \<le> real n / real (2 * t)"
      by (intro divide_right_mono) simp_all
    moreover have "real (R * (2 * t) + 1) / real (2 * t) = real R + d"
      using assms(1) by (simp add: d_def add_divide_distrib)
    ultimately have "real R + d \<le> real n / real (2 * t)" by simp
    then show ?thesis by (simp only: z)
  qed
  have "\<lfloor>v + 1 / 2\<rfloor> \<le> int R"
    using e kd upper by (simp add: floor_le_iff; linarith)
  moreover have "int R - 1 \<le> \<lfloor>v + 1 / 2\<rfloor>"
  proof -
    have "d \<le> 1" using assms(1) by (simp add: d_def)
    then have "real_of_int (int R - 1) \<le> v + 1 / 2"
      using e kd lower by (simp; linarith)
    then show ?thesis by (simp only: le_floor_iff)
  qed
  moreover have "int R \<le> \<lfloor>v + 1 / 2\<rfloor>" if "\<not> 2 * t dvd n"
    using e kd strict [OF that] by (simp add: le_floor_iff; linarith)
  ultimately have "percentage_of c t \<le> R" "R \<le> percentage_of c t + 1"
    "\<not> 2 * t dvd n \<Longrightarrow> percentage_of c t = R"
    using fl by linarith+
  then show ?thesis
    unfolding R_def n_def by blast
qed

subsection \<open>The progress branch\<close>

lemma askAssistant_progress:
  assumes "includes_str (toLowerCase message) ''progress'' \<or> includes_str (toLowerCase message) ''status''"
    and "\<not> includes_str (toLowerCase message) ''priority''"
    and "\<not> includes_str (toLowerCase message) ''first''"
    and "\<not> includes_str (toLowerCase message) ''important''"
    and "\<not> includes_str (toLowerCase message) ''overdue''"
    and "\<not> includes_str (toLowerCase message) ''late''"
  shows "askAssistant a message tasks =
     progress_report (length (filter (\<lambda>t. task_status t = ''completed'') tasks)) (length tasks)
       (percentage_of (length (filter (\<lambda>t. task_status t = ''completed'') tasks)) (length tasks))"
  using assms by (simp add: askAssistant_def Let_def)

lemma forty_counts:
  "length (filter (\<lambda>t. task_status t = ''completed'') forty_tasks) = 23" "length forty_tasks = 40"
  by (simp_all add: forty_tasks_def done_task_def open_task_def)

lemma scale_up_23_40: "scale_up 23 40 1 = (207165582859042816, 9007199254740992)"
  by (simp add: scale_up.simps)

lemma nearest_double_23_40: "nearest_double 23 40 = (5179139571476070, 9007199254740992)"
  by (simp add: nearest_double_def scale_up_23_40 round_even_div_def Let_def del: One_nat_def)

lemma nearest_double_57: "nearest_double (5179139571476070 * 100) 9007199254740992 = (8092405580431359, 140737488355328)"
  by (simp add: nearest_double_def scale_up.simps round_even_div_def Let_def)

lemma percentage_of_23_40: "percentage_of 23 40 = 57"
  by (simp add: percentage_of_def nearest_double_23_40 nearest_double_57 [simplified] Math_round_def)

lemma progress_words:
  "includes_str (toLowerCase ''How is my progress?'') ''progress''"
  "\<not> includes_str (toLowerCase ''How is my progress?'') ''priority''"
  "\<not> includes_str (toLowerCase ''How is my progress?'') ''first''"
  "\<not> includes_str (toLowerCase ''How is my progress?'') ''important''"
  "\<not> includes_str (toLowerCase ''How is my progress?'') ''overdue''"
  "\<not> includes_str (toLowerCase ''How is my progress?'') ''late''"
  by (simp_all add: toLowerCase_def lower_char_def)

section \<open>Normalisation of tasks\<close>

text \<open>
  Claim C4, as the code has it. The frontend's \<open>normalizeTask\<close> leaves no field
  undefined: \<open>id\<close> is \<open>String(payload.id)\<close>, an absent or null \<open>description\<close>,
  \<open>priority\<close>, \<open>status\<close>, \<open>dueDate\<close>, \<open>userId\<close> becomes \<open>""\<close>, \<open>"medium"\<close>,
  \<open>"todo"\<close>, \<open>null\<close>, \<open>""\<close>, and a present \<open>userId\<close> becomes its string. The
  \<open>do-smart-ai\<close> \<open>normalizeTask\<close> fills the same defaults and coerces \<open>id\<close> and a
  truthy \<open>userId\<close>, and hands \<open>title\<close>, \<open>createdAt\<close>, \<open>updatedAt\<close> on as received.
\<close>

theorem normalizeTask_defaults:
  "task_id (normalizeTask p) = String_id (rt_id p)
   \<and> task_title (normalizeTask p) \<noteq> Undefined
   \<and> task_createdAt (normalizeTask p) \<noteq> Undefined
   \<and> task_updatedAt (normalizeTask p) \<noteq> Undefined
   \<and> task_description (normalizeTask p) = (case rt_description p of Val d \<Rightarrow> d | Undefined \<Rightarrow> '''' | Null \<Rightarrow> '''')
   \<and> task_priority (normalizeTask p) = (case rt_priority p of Val d \<Rightarrow> d | Undefined \<Rightarrow> ''medium'' | Null \<Rightarrow> ''medium'')
   \<and> task_status (normalizeTask p) = (case rt_status p of Val d \<Rightarrow> d | Undefined \<Rightarrow> ''todo'' | Null \<Rightarrow> ''todo'')
   \<and> task_dueDate (normalizeTask p) = (case rt_dueDate p of Val d \<Rightarrow> Some d | Undefined \<Rightarrow> None | Null \<Rightarrow> None)
   \<and> task_userId (normalizeTask p) = (case rt_userId p of Val i \<Rightarrow> String_id i | Undefined \<Rightarrow> '''' | Null \<Rightarrow> '''')
   \<and> task_id (normalizeTask_dsa p) = String_id (rt_id p)
   \<and> task_title (normalizeTask_dsa p) = rt_title p
   \<and> task_createdAt (normalizeTask_dsa p) = rt_createdAt p
   \<and> task_updatedAt (normalizeTask_dsa p) = rt_updatedAt p
   \<and> task_description (normalizeTask_dsa p) = (case rt_description p of Val d \<Rightarrow> d | Undefined \<Rightarrow> '''' | Null \<Rightarrow> '''')
   \<and> task_priority (normalizeTask_dsa p) = (case rt_priority p of Val d \<Rightarrow> d | Undefined \<Rightarrow> ''medium'' | Null \<Rightarrow> ''medium'')
   \<and> task_status (normalizeTask_dsa p) = (case rt_status p of Val d \<Rightarrow> d | Undefined \<Rightarrow> ''todo'' | Null \<Rightarrow> ''todo'')
   \<and> task_dueDate (normalizeTask_dsa p) = (case rt_dueDate p of Val d \<Rightarrow> Some d | Undefined \<Rightarrow> None | Null \<Rightarrow> None)
   \<and> (case rt_userId p of
         Val i \<Rightarrow> truthy_id (Val i) \<longrightarrow> task_userId (normalizeTask_dsa p) = String_id i
       | Undefined \<Rightarrow> task_userId (normalizeTask_dsa p) = ''''
       | Null \<Rightarrow> task_userId (normalizeTask_dsa p) = '''')"
  by (simp add: normalizeTask_def normalizeTask_dsa_def split: wire.splits)

theorem normalizeTask_defaults_witness:
  "truthy_id (Val (NumId 7))
   \<and> task_userId (normalizeTask_dsa
        \<lparr> rt_id = NumId 3, rt_title = Val ''Write report'', rt_description = Undefined,
          rt_dueDate = Undefined, rt_priority = Undefined, rt_status = Undefined,
          rt_createdAt = Val ''2024-01-01'', rt_updatedAt = Val ''2024-01-02'',
          rt_userId = Val (NumId 7) \<rparr>) = String_id (NumId 7)"
  using normalizeTask_defaults
    [of "\<lparr> rt_id = NumId 3, rt_title = Val ''Write report'', rt_description = Undefined,
          rt_dueDate = Undefined, rt_priority = Undefined, rt_status = Undefined,
          rt_createdAt = Val ''2024-01-01'', rt_updatedAt = Val ''2024-01-02'',
          rt_userId = Val (NumId 7) \<rparr>"]
  by simp

text \<open>
  The claim as written (no field undefined, for both clients) fails for the
  \<open>do-smart-ai\<close> normaliser on a payload that carries only an \<open>id\<close>.
\<close>

theorem normalizeTask_dsa_title_counterexample:
  "task_title (normalizeTask_dsa
      \<lparr> rt_id = NumId 1, rt_title = Undefined, rt_description = Undefined,
        rt_dueDate = Undefined, rt_priority = Undefined, rt_status = Undefined,
        rt_createdAt = Undefined, rt_updatedAt = Undefined, rt_userId = Undefined \<rparr>) = Undefined"
  by (simp add: normalizeTask_dsa_def)

section \<open>The session store\<close>

text \<open>
  Claim C7. In a browser whose storage works and whose JSON codec round-trips a stored
  session: \<open>getState()\<close> is \<open>null\<close> while the slot has never been written;
  \<open>setState(s)\<close> followed by \<open>getState()\<close> gives back \<open>s\<close>; after \<open>clear()\<close>,
  \<open>getState()\<close> is \<open>null\<close>, and during \<open>clear()\<close> every listener in the set, so also
  one just subscribed, is called with \<open>null\<close>; a second \<open>clear()\<close> leaves the store as
  the first one left it and only calls the listeners again.
\<close>

theorem authStore_laws:
  assumes "codec_ok e" and "isBrowser w"
  shows "(localStorage w STORAGE_KEY = None \<longrightarrow> getState e w = None)
    \<and> getState e (setState e s w) = Some s
    \<and> getState e (clear e w) = None
    \<and> delivered (clear e w) = delivered w @ map (\<lambda>l. (l, None)) (listeners w)
    \<and> (l, None) \<in> set (delivered (clear e (subscribe l w)))
    \<and> clear e (clear e w) =
        (clear e w)\<lparr>delivered := delivered (clear e w) @ map (\<lambda>l. (l, None)) (listeners w)\<rparr>
    \<and> getState e (clear e (clear e w)) = getState e (clear e w)"
proof -
  have "localStorage w STORAGE_KEY = None \<longrightarrow> getState e w = None"
    by (simp add: getState_def readStorage_def)
  moreover have "getState e (setState e s w) = Some s"
    using assms by (rule getState_setState)
  moreover have "getState e (clear e w) = None"
    by (rule getState_clear)
  moreover have "delivered (clear e w) = delivered w @ map (\<lambda>l. (l, None)) (listeners w)"
    by (simp add: clear_eq)
  moreover have "(l, None) \<in> set (delivered (clear e (subscribe l w)))"
    by (simp add: clear_eq subscribe_def)
  moreover have "clear e (clear e w) =
      (clear e w)\<lparr>delivered := delivered (clear e w) @ map (\<lambda>l. (l, None)) (listeners w)\<rparr>"
    using assms(2) by (simp add: clear_eq)
  moreover have "getState e (clear e (clear e w)) = getState e (clear e w)"
    by (simp add: getState_clear)
  ultimately show ?thesis by blast
qed

theorem authStore_laws_witness:
  "codec_ok (demo_env offline) \<and> isBrowser fresh_world
   \<and> localStorage fresh_world STORAGE_KEY = None
   \<and> getState (demo_env offline) fresh_world = None
   \<and> getState (demo_env offline) (setState (demo_env offline) alice fresh_world) = Some alice
   \<and> getState (demo_env offline) (clear (demo_env offline) (setState (demo_env offline) alice fresh_world)) = None
   \<and> (1, None) \<in> set (delivered (clear (demo_env offline) (subscribe 1 fresh_world)))"
proof -
  have b: "isBrowser fresh_world" and n: "localStorage fresh_world STORAGE_KEY = None"
    by (simp_all add: fresh_world_def)
  have b': "isBrowser (setState (demo_env offline) alice fresh_world)"
    by (simp add: setState_eq fresh_world_def)
  show ?thesis
    using authStore_laws [OF codec_ok_demo b, of offline alice 1]
      authStore_laws [OF codec_ok_demo b', of offline alice 1] b n codec_ok_demo [of offline]
    by simp
qed

section \<open>Token refresh\<close>

text \<open>
  Claim C3. With a session stored (and, in the frontend, a refresh token in it), the
  refresh sub-procedure of either client sends one request \<open>rr\<close>: a \<open>POST\<close> of the
  stored refresh token to the client's refresh path. On a 2xx answer whose body is an
  object, it returns the body's \<open>access\<close> and leaves stored the session with that
  access token and with the refresh token and the user it had. On an answer outside
  2xx it clears the session and returns \<open>null\<close>, and it does the same when an exception
  is thrown on the way: a rejected \<open>fetch\<close>, a body that does not parse, a body that is
  \<open>null\<close>. A 2xx body that is a string, a number, a boolean or an array has no
  \<open>access\<close>: the access token stored and returned is then \<open>undefined\<close>, the rest as
  before.
\<close>

theorem refresh_frame:
  assumes "codec_ok e" and "getState e w = Some s" and "c = Frontend \<longrightarrow> truthy (refresh (tokens s))"
    and "rr = \<lparr> req_url = API_BASE_URL e @
                   (case c of Frontend \<Rightarrow> ''/auth/refresh/'' | DoSmartAi \<Rightarrow> ''/auth/token/refresh/''),
                 req_method = Some ''POST'',
                 req_headers = [(''content-type'', ''application/json'')],
                 req_body = JsonBody (JObj (case refresh (tokens s) of
                                              None \<Rightarrow> [] | Some t \<Rightarrow> [(''refresh'', t)])) \<rparr>"
  shows "fetched (snd (client_refresh c e w)) = fetched w @ [rr]
    \<and> (\<forall>r body. server e (fetched w) rr = Resolved r
            \<and> 200 \<le> resp_status r \<and> resp_status r \<le> 299 \<and> resp_json r = Some (JObj body) \<longrightarrow>
          fst (client_refresh c e w) = map_of body ''access''
          \<and> getState e (snd (client_refresh c e w)) =
              Some \<lparr> tokens = \<lparr> access = map_of body ''access'', refresh = refresh (tokens s) \<rparr>,
                     user = user s \<rparr>)
    \<and> (\<forall>r data. server e (fetched w) rr = Resolved r
            \<and> 200 \<le> resp_status r \<and> resp_status r \<le> 299 \<and> resp_json r = Some data
            \<and> data \<noteq> JNull \<and> (\<forall>body. data \<noteq> JObj body) \<longrightarrow>
          fst (client_refresh c e w) = None
          \<and> getState e (snd (client_refresh c e w)) =
              Some \<lparr> tokens = \<lparr> access = None, refresh = refresh (tokens s) \<rparr>, user = user s \<rparr>)
    \<and> (\<forall>r. server e (fetched w) rr = Resolved r
            \<and> (resp_status r < 200 \<or> 299 < resp_status r) \<longrightarrow>
          fst (client_refresh c e w) = Some JNull \<and> getState e (snd (client_refresh c e w)) = None)
    \<and> (server e (fetched w) rr = Rejected \<longrightarrow>
          fst (client_refresh c e w) = Some JNull \<and> getState e (snd (client_refresh c e w)) = None)
    \<and> (\<forall>r. server e (fetched w) rr = Resolved r
            \<and> 200 \<le> resp_status r \<and> resp_status r \<le> 299
            \<and> (resp_json r = None \<or> resp_json r = Some JNull) \<longrightarrow>
          fst (client_refresh c e w) = Some JNull \<and> getState e (snd (client_refresh c e w)) = None)"
proof -
  have eq: "client_refresh c e w = refresh_exchange e (refresh_path c) s w"
    using assms(2,3) by (rule client_refresh_eq)
  have rr: "refresh_request e (refresh_path c) (refresh (tokens s)) = rr"
    unfolding assms(4) by (rule refresh_request_eq)
  have b: "isBrowser w"
    using assms(2) by (rule getState_isBrowser)
  have sent: "fetched (snd (client_refresh c e w)) = fetched w @ [rr]"
    unfolding eq using refresh_exchange_fetched [of e "refresh_path c" s w] by (simp add: rr)
  have object: "fst (client_refresh c e w) = map_of body ''access''
      \<and> getState e (snd (client_refresh c e w)) =
          Some \<lparr> tokens = \<lparr> access = map_of body ''access'', refresh = refresh (tokens s) \<rparr>,
                 user = user s \<rparr>"
    if "server e (fetched w) rr = Resolved r" "200 \<le> resp_status r" "resp_status r \<le> 299"
      "resp_json r = Some (JObj body)" for r body
    unfolding eq
    using refresh_exchange_stores [OF assms(1) b, of "refresh_path c" s r "JObj body"] that
    by (simp add: rr ok_def)
  have other: "fst (client_refresh c e w) = None
      \<and> getState e (snd (client_refresh c e w)) =
          Some \<lparr> tokens = \<lparr> access = None, refresh = refresh (tokens s) \<rparr>, user = user s \<rparr>"
    if "server e (fetched w) rr = Resolved r" "200 \<le> resp_status r" "resp_status r \<le> 299"
      "resp_json r = Some data" "data \<noteq> JNull" "\<forall>body. data \<noteq> JObj body" for r data
    unfolding eq
    using refresh_exchange_stores [OF assms(1) b, of "refresh_path c" s r data] that
    by (simp add: rr ok_def property_not_object)
  have denied: "fst (client_refresh c e w) = Some JNull \<and> getState e (snd (client_refresh c e w)) = None"
    if "server e (fetched w) rr = Resolved r" "resp_status r < 200 \<or> 299 < resp_status r" for r
    unfolding eq
    using refresh_exchange_not_ok [of e w "refresh_path c" s r] that
    by (auto simp: rr ok_def)
  have rejected: "fst (client_refresh c e w) = Some JNull \<and> getState e (snd (client_refresh c e w)) = None"
    if "server e (fetched w) rr = Rejected"
    unfolding eq
    using refresh_exchange_rejected [of e w "refresh_path c" s] that
    by (simp add: rr)
  have thrown: "fst (client_refresh c e w) = Some JNull \<and> getState e (snd (client_refresh c e w)) = None"
    if "server e (fetched w) rr = Resolved r" "200 \<le> resp_status r" "resp_status r \<le> 299"
      "resp_json r = None \<or> resp_json r = Some JNull" for r
    unfolding eq
    using refresh_exchange_throws [of e w "refresh_path c" s r] that
    by (simp add: rr ok_def)
  from sent object other denied rejected thrown show ?thesis
    by blast
qed

theorem refresh_frame_witness:
  "codec_ok (demo_env renewing) \<and> getState (demo_env renewing) alice_world = Some alice
   \<and> truthy (refresh (tokens alice))
   \<and> server (demo_env renewing) (fetched alice_world)
        \<lparr> req_url = ''http://localhost:8000/api/auth/refresh/'', req_method = Some ''POST'',
          req_headers = [(''content-type'', ''application/json'')],
          req_body = JsonBody (JObj [(''refresh'', JStr ''R1'')]) \<rparr> = Resolved new_token
   \<and> resp_status new_token = 200 \<and> resp_json new_token = Some (JObj [(''access'', JStr ''A2'')])
   \<and> fetched (snd (client_refresh Frontend (demo_env renewing) alice_world)) =
       [\<lparr> req_url = ''http://localhost:8000/api/auth/refresh/'', req_method = Some ''POST'',
          req_headers = [(''content-type'', ''application/json'')],
          req_body = JsonBody (JObj [(''refresh'', JStr ''R1'')]) \<rparr>]
   \<and> fst (client_refresh Frontend (demo_env renewing) alice_world) = Some (JStr ''A2'')
   \<and> getState (demo_env renewing) (snd (client_refresh Frontend (demo_env renewing) alice_world)) =
       Some \<lparr> tokens = \<lparr> access = Some (JStr ''A2''), refresh = Some (JStr ''R1'') \<rparr>,
              user = \<lparr> user_id = ''7'', user_email = Some (JStr ''a@b.com''),
                       user_name = Some (JStr ''a@b.com'') \<rparr> \<rparr>
   \<and> getState (demo_env revoked) alice_world = Some alice
   \<and> server (demo_env revoked) (fetched alice_world)
        \<lparr> req_url = ''http://localhost:8000/api/auth/token/refresh/'', req_method = Some ''POST'',
          req_headers = [(''content-type'', ''application/json'')],
          req_body = JsonBody (JObj [(''refresh'', JStr ''R1'')]) \<rparr> = Resolved unauthorized
   \<and> resp_status unauthorized = 401
   \<and> fst (client_refresh DoSmartAi (demo_env revoked) alice_world) = Some JNull
   \<and> getState (demo_env revoked) (snd (client_refresh DoSmartAi (demo_env revoked) alice_world)) = None"
proof -
  have t: "Frontend = Frontend \<longrightarrow> truthy (refresh (tokens alice))"
    "DoSmartAi = Frontend \<longrightarrow> truthy (refresh (tokens alice))"
    by (simp_all add: alice_refresh)
  have s1: "server (demo_env renewing) (fetched alice_world)
        \<lparr> req_url = ''http://localhost:8000/api/auth/refresh/'', req_method = Some ''POST'',
          req_headers = [(''content-type'', ''application/json'')],
          req_body = JsonBody (JObj [(''refresh'', JStr ''R1'')]) \<rparr> = Resolved new_token"
    by (simp add: demo_env_simps renewing_def is_refresh_url_def)
  have s2: "server (demo_env revoked) (fetched alice_world)
        \<lparr> req_url = ''http://localhost:8000/api/auth/token/refresh/'', req_method = Some ''POST'',
          req_headers = [(''content-type'', ''application/json'')],
          req_body = JsonBody (JObj [(''refresh'', JStr ''R1'')]) \<rparr> = Resolved unauthorized"
    by (simp add: demo_env_simps revoked_def)
  have n: "resp_status new_token = 200"
    by (simp add: new_token_def json_response_def)
  show ?thesis
    using refresh_frame [OF codec_ok_demo getState_alice_world t(1) refl, of renewing]
      refresh_frame [OF codec_ok_demo getState_alice_world t(2) refl, of revoked]
      s1 s2 n new_token_facts(2) codec_ok_demo [of renewing] getState_alice_world
    by (simp add: alice_refresh demo_env_simps fetched_alice_world unauthorized_facts alice_def
        del: client_refresh.simps)
qed

section \<open>Refresh and retry\<close>

text \<open>
  Claim C1, as the code has it, for either client. A call that requires auth is made
  with a session stored whose refresh token is present, and the first response \<open>r1\<close>
  has status 401. Then one refresh request \<open>rr\<close> follows the first request \<open>rq\<close>, and
  no second one. If the refresh gives a token (a truthy value \<open>res\<close>), the request is
  sent once more, the same but for the \<open>Authorization\<close> header, which carries that
  token, and the call ends as that second response makes it end. If it gives none
  (\<open>null\<close> after a failed refresh, or \<open>undefined\<close> after a 2xx answer without
  \<open>access\<close>), nothing more is sent and the call ends as the first response makes it
  end: with the typed error of status 401, unless that response declares a JSON body
  that does not parse, in which case the exception of the parser is what the caller
  gets. In every case the request goes out at most twice.
\<close>

theorem refresh_and_retry_once:
  assumes "\<not> skipAuth options" and "getState e w = Some s" and "truthy (refresh (tokens s))"
    and "rq = client_first_request c e path options w"
    and "rr = \<lparr> req_url = API_BASE_URL e @
                   (case c of Frontend \<Rightarrow> ''/auth/refresh/'' | DoSmartAi \<Rightarrow> ''/auth/token/refresh/''),
                 req_method = Some ''POST'',
                 req_headers = [(''content-type'', ''application/json'')],
                 req_body = JsonBody (JObj (case refresh (tokens s) of
                                              None \<Rightarrow> [] | Some t \<Rightarrow> [(''refresh'', t)])) \<rparr>"
    and "server e (fetched w) rq = Resolved r1" and "resp_status r1 = 401"
    and "client_refresh c e (w\<lparr>fetched := fetched w @ [rq]\<rparr>) = (res, w2)"
    and "w' = snd (client_request c e path options w)"
    and "rq2 = rq\<lparr>req_headers := Headers_set (req_headers rq) ''Authorization'' (''Bearer '' @ String_js res)\<rparr>"
    and "unreadable = (\<exists>contentType. Headers_get (response_headers r1) ''Content-Type'' = Some contentType
            \<and> includes_str contentType ''application/json'' \<and> resp_json r1 = None)"
  shows "fetched w2 = fetched w @ [rq, rr]
    \<and> (fetched w' = fetched w @ [rq, rr] \<or> fetched w' = fetched w @ [rq, rr, rq2])
    \<and> (truthy res \<longrightarrow>
          fetched w' = fetched w @ [rq, rr, rq2]
          \<and> Headers_get (req_headers rq2) ''Authorization'' = Some (''Bearer '' @ String_js res)
          \<and> (\<forall>r2. server e (fetched w2) rq2 = Resolved r2 \<longrightarrow>
                client_request c e path options w =
                  client_settle c e False r2 (w2\<lparr>fetched := fetched w2 @ [rq2]\<rparr>))
          \<and> (server e (fetched w2) rq2 = Rejected \<longrightarrow>
                fst (client_request c e path options w) = Inl FetchRejected))
    \<and> (\<not> truthy res \<longrightarrow>
          fetched w' = fetched w @ [rq, rr]
          \<and> client_request c e path options w = client_settle c e False r1 w2
          \<and> (unreadable \<longrightarrow> fst (client_request c e path options w) = Inl JsonSyntaxError)
          \<and> (\<not> unreadable \<longrightarrow>
                (\<exists>message data. fst (client_request c e path options w) = Inl (ApiError message 401 data))))"
proof -
  let ?w1 = "w\<lparr>fetched := fetched w @ [rq]\<rparr>"
  have st: "getState e ?w1 = Some s"
    using assms(2) by (simp add: getState_fetched_update)
  have "client_refresh c e ?w1 = refresh_exchange e (refresh_path c) s ?w1"
    using st assms(3) by (intro client_refresh_eq) simp_all
  moreover have "snd (client_refresh c e ?w1) = w2"
    using assms(8) by simp
  ultimately have "w2 = snd (refresh_exchange e (refresh_path c) s ?w1)"
    by simp
  moreover have "refresh_request e (refresh_path c) (refresh (tokens s)) = rr"
    unfolding assms(5) by (rule refresh_request_eq)
  ultimately have f2: "fetched w2 = fetched w @ [rq, rr]"
    using refresh_exchange_fetched [of e "refresh_path c" s ?w1] by simp
  have rq2: "with_bearer rq (String_js res) = rq2"
    by (simp add: with_bearer_def assms(10))
  note unfold = client_request_401 [OF assms(1,2,3,4,6,7), unfolded assms(8) prod.case rq2]
  have nok: "\<not> ok r1" "resp_status r1 \<noteq> 204"
    using assms(7) by (simp_all add: ok_def)
  have A: "fetched w' = fetched w @ [rq, rr] \<or> fetched w' = fetched w @ [rq, rr, rq2]"
    unfolding assms(9) unfold
    by (auto simp: f2 client_settle_fetched split: fetch_result.splits)
  have B: "fetched w' = fetched w @ [rq, rr, rq2]
          \<and> Headers_get (req_headers rq2) ''Authorization'' = Some (''Bearer '' @ String_js res)
          \<and> (\<forall>r2. server e (fetched w2) rq2 = Resolved r2 \<longrightarrow>
                client_request c e path options w =
                  client_settle c e False r2 (w2\<lparr>fetched := fetched w2 @ [rq2]\<rparr>))
          \<and> (server e (fetched w2) rq2 = Rejected \<longrightarrow>
                fst (client_request c e path options w) = Inl FetchRejected)"
    if "truthy res"
    unfolding assms(9) unfold using that
    by (auto simp: f2 client_settle_fetched assms(10) Headers_get_set split: fetch_result.splits)
  have C: "fetched w' = fetched w @ [rq, rr]
          \<and> client_request c e path options w = client_settle c e False r1 w2
          \<and> (unreadable \<longrightarrow> fst (client_request c e path options w) = Inl JsonSyntaxError)
          \<and> (\<not> unreadable \<longrightarrow>
                (\<exists>message data. fst (client_request c e path options w) = Inl (ApiError message 401 data)))"
    if "\<not> truthy res"
  proof -
    have eq: "client_request c e path options w = client_settle c e False r1 w2"
      unfolding unfold using that by simp
    have bad: "fst (client_settle c e False r1 w2) = Inl JsonSyntaxError" if unreadable
    proof -
      have "client_read_body c r1 = Inl JsonSyntaxError"
        using that unfolding assms(11) by (auto simp: client_read_body_eq)
      then show ?thesis
        using client_settle_throws [OF nok(2), of c JsonSyntaxError e False w2] by simp
    qed
    have good: "\<exists>message data. fst (client_settle c e False r1 w2) = Inl (ApiError message 401 data)"
      if "\<not> unreadable"
    proof -
      have "\<exists>data. client_read_body c r1 = Inr data"
        using that unfolding assms(11)
        by (auto simp: client_read_body_eq split: option.splits client.splits)
      then obtain data where "client_read_body c r1 = Inr data" ..
      then show ?thesis
        using client_settle_error [OF nok(2,1), of c data e False w2] assms(7) by auto
    qed
    show ?thesis
      unfolding assms(9) eq using bad good by (simp add: client_settle_fetched f2)
  qed
  from f2 A B C show ?thesis by blast
qed

theorem refresh_and_retry_once_witness:
  "\<not> skipAuth default_options
   \<and> getState (demo_env renewing) alice_world = Some alice \<and> truthy (refresh (tokens alice))
   \<and> server (demo_env renewing) (fetched alice_world) (tasks_request ''A1'') = Resolved unauthorized
   \<and> resp_status unauthorized = 401
   \<and> fst (client_refresh Frontend (demo_env renewing)
            (alice_world\<lparr>fetched := fetched alice_world @ [tasks_request ''A1'']\<rparr>)) = Some (JStr ''A2'')
   \<and> fetched (snd (client_request Frontend (demo_env renewing) ''/tasks/'' default_options alice_world)) =
       [tasks_request ''A1'',
        \<lparr> req_url = ''http://localhost:8000/api/auth/refresh/'', req_method = Some ''POST'',
          req_headers = [(''content-type'', ''application/json'')],
          req_body = JsonBody (JObj [(''refresh'', JStr ''R1'')]) \<rparr>,
        tasks_request ''A2'']
   \<and> fst (client_request Frontend (demo_env renewing) ''/tasks/'' default_options alice_world) = Inr (Some (JArr []))
   \<and> fst (client_refresh DoSmartAi (demo_env revoked)
            (alice_world\<lparr>fetched := fetched alice_world @ [tasks_request_dsa ''A1'']\<rparr>)) = Some JNull
   \<and> fetched (snd (client_request DoSmartAi (demo_env revoked) ''/tasks/'' default_options alice_world)) =
       [tasks_request_dsa ''A1'',
        \<lparr> req_url = ''http://localhost:8000/api/auth/token/refresh/'', req_method = Some ''POST'',
          req_headers = [(''content-type'', ''application/json'')],
          req_body = JsonBody (JObj [(''refresh'', JStr ''R1'')]) \<rparr>]
   \<and> fst (client_request DoSmartAi (demo_env revoked) ''/tasks/'' default_options alice_world) =
       Inl (ApiError ''Token expired'' 401 (JObj [(''detail'', JStr ''Token expired'')]))"
proof -
  have skip: "\<not> skipAuth default_options" by (simp add: default_options_def)
  have s1: "server (demo_env renewing) (fetched alice_world) (tasks_request ''A1'') = Resolved unauthorized"
    by (simp add: demo_env_simps renewing_tasks)
  have s2: "server (demo_env revoked) (fetched alice_world) (tasks_request_dsa ''A1'') = Resolved unauthorized"
    by (simp add: demo_env_simps revoked_def)
  have b: "(tasks_request ''A1'')\<lparr>req_headers :=
        Headers_set (req_headers (tasks_request ''A1'')) ''Authorization'' (''Bearer '' @ ''A2'')\<rparr> = tasks_request ''A2''"
    using tasks_with_bearer(1) [of "''A1''" "''A2''"] by (simp add: with_bearer_def)
  note good = refresh_and_retry_once [OF skip getState_alice_world alice_refresh(2)
      tasks_first_request(1) [symmetric] refl s1 unauthorized_facts(1) surjective_pairing refl refl refl]
  note bad = refresh_and_retry_once [OF skip getState_alice_world alice_refresh(2)
      tasks_first_request(2) [symmetric] refl s2 unauthorized_facts(1) surjective_pairing refl refl refl]
  show ?thesis
    using good bad skip s1 b
    by (simp add: renewing_grants revoked_denies getState_alice_world alice_refresh fetched_alice_world
        demo_env_simps renewing_tasks settle_empty_list unauthorized_facts unauthorized_header
        client_settle_fetched ok_def
        client_settle_error [where r = unauthorized and data = "JObj [(''detail'', JStr ''Token expired'')]"]
        del: client_refresh.simps client_request.simps client_settle.simps client_read_body.simps
          client_error_message.simps client_first_request.simps)
qed

text \<open>
  The claim as written fails in both clients: when the 401 declares a JSON body that
  does not parse and the refresh fails, nothing is sent again, and what the caller gets
  is the exception of the parser, not the 401.
\<close>

theorem refresh_failure_counterexample:
  "\<not> skipAuth default_options
   \<and> getState (demo_env garbling) alice_world = Some alice \<and> truthy (refresh (tokens alice))
   \<and> server (demo_env garbling) (fetched alice_world) (tasks_request ''A1'') = Resolved garbled
   \<and> resp_status garbled = 401
   \<and> Headers_get (response_headers garbled) ''Content-Type'' = Some ''application/json''
   \<and> resp_json garbled = None
   \<and> fst (refreshAccessToken (demo_env garbling) (alice_world\<lparr>fetched := [tasks_request ''A1'']\<rparr>)) = Some JNull
   \<and> fetched (snd (request (demo_env garbling) ''/tasks/'' default_options alice_world)) =
       [tasks_request ''A1'',
        \<lparr> req_url = ''http://localhost:8000/api/auth/refresh/'', req_method = Some ''POST'',
          req_headers = [(''content-type'', ''application/json'')],
          req_body = JsonBody (JObj [(''refresh'', JStr ''R1'')]) \<rparr>]
   \<and> fst (request (demo_env garbling) ''/tasks/'' default_options alice_world) = Inl JsonSyntaxError
   \<and> fst (apiRequest (demo_env garbling) ''/tasks/'' default_options alice_world) = Inl JsonSyntaxError"
proof -
  have skip: "\<not> skipAuth default_options" by (simp add: default_options_def)
  have run: "client_request c (demo_env garbling) ''/tasks/'' default_options alice_world =
      client_settle c (demo_env garbling) False garbled
        (snd (client_refresh c (demo_env garbling)
           (alice_world\<lparr>fetched := [client_first_request c (demo_env garbling) ''/tasks/'' default_options alice_world]\<rparr>)))" for c
    using client_request_401 [OF skip getState_alice_world alice_refresh(2) refl, of garbling c "''/tasks/''" garbled]
      garbling_denies [of c "[client_first_request c (demo_env garbling) ''/tasks/'' default_options alice_world]"]
    by (simp add: demo_env_simps garbling_def garbled_facts fetched_alice_world split: prod.splits
        del: client_refresh.simps client_request.simps client_settle.simps client_first_request.simps)
  have thrown: "fst (client_settle c (demo_env garbling) False garbled w) = Inl JsonSyntaxError" for c w
    using client_settle_throws [of garbled c JsonSyntaxError] by (simp add: garbled_facts)
  have sent: "fetched (snd (client_refresh Frontend (demo_env garbling) (alice_world\<lparr>fetched := [tasks_request ''A1'']\<rparr>))) =
      [tasks_request ''A1'', refresh_request (demo_env garbling) ''/auth/refresh/'' (Some (JStr ''R1''))]"
    using refresh_exchange_fetched [of "demo_env garbling" "''/auth/refresh/''" alice
        "alice_world\<lparr>fetched := [tasks_request ''A1'']\<rparr>"]
      alice_client_refresh [of Frontend garbling "[tasks_request ''A1'']"]
    by (simp add: alice_refresh del: client_refresh.simps)
  have f: "fetched (snd (client_request Frontend (demo_env garbling) ''/tasks/'' default_options alice_world)) =
      [tasks_request ''A1'', refresh_request (demo_env garbling) ''/auth/refresh/'' (Some (JStr ''R1''))]"
    unfolding run using sent
    by (simp add: client_settle_fetched tasks_first_request
        del: client_refresh.simps client_settle.simps client_first_request.simps)
  have 1: "fst (client_request Frontend (demo_env garbling) ''/tasks/'' default_options alice_world) = Inl JsonSyntaxError"
    and 2: "fst (client_request DoSmartAi (demo_env garbling) ''/tasks/'' default_options alice_world) = Inl JsonSyntaxError"
    unfolding run by (rule thrown)+
  have d: "fst (client_refresh Frontend (demo_env garbling) (alice_world\<lparr>fetched := [tasks_request ''A1'']\<rparr>)) = Some JNull"
    by (rule garbling_denies)
  have rr: "refresh_request (demo_env garbling) ''/auth/refresh/'' (Some (JStr ''R1'')) =
        \<lparr> req_url = ''http://localhost:8000/api/auth/refresh/'', req_method = Some ''POST'',
          req_headers = [(''content-type'', ''application/json'')],
          req_body = JsonBody (JObj [(''refresh'', JStr ''R1'')]) \<rparr>"
    using refresh_request_eq [of "demo_env garbling" Frontend "Some (JStr ''R1'')"]
    by (simp add: demo_env_simps)
  show ?thesis
    using skip f 1 2 d
    by (simp add: getState_alice_world alice_refresh demo_env_simps garbling_def garbled_facts rr)
qed

section \<open>Default headers\<close>

text \<open>
  Claim C6, as the code has it. The caller's headers are read as a \<open>Headers\<close> object.
  The frontend's \<open>request\<close> adds \<open>Accept: application/json\<close> when the caller gave no
  \<open>Accept\<close>, and \<open>Content-Type: application/json\<close> exactly when the caller gave no
  \<open>Content-Type\<close>, the body is not a \<open>FormData\<close> and a method other than \<open>GET\<close>
  is given. The \<open>do-smart-ai\<close> \<open>apiRequest\<close> adds no \<open>Accept\<close>, and adds the
  \<open>Content-Type\<close> whenever the caller gave none and the body is not a \<open>FormData\<close>,
  whatever the method. Neither changes a value the caller gave, and these are the
  headers of the request that goes out (the bearer token aside).
\<close>

theorem default_headers:
  "Headers_get (merge_headers options) ''Accept'' =
     (case Headers_get (new_Headers (opt_headers options)) ''Accept'' of
        None \<Rightarrow> Some ''application/json'' | Some v \<Rightarrow> Some v)
   \<and> Headers_get (merge_headers options) ''Content-Type'' =
     (case Headers_get (new_Headers (opt_headers options)) ''Content-Type'' of
        Some v \<Rightarrow> Some v
      | None \<Rightarrow>
          if opt_body options \<noteq> FormData \<and> opt_method options \<noteq> None
             \<and> opt_method options \<noteq> Some [] \<and> opt_method options \<noteq> Some ''GET''
          then Some ''application/json'' else None)
   \<and> (\<forall>n v. Headers_get (new_Headers (opt_headers options)) n = Some v \<longrightarrow>
          Headers_get (merge_headers options) n = Some v)
   \<and> (\<forall>n. toLowerCase n \<noteq> ''authorization'' \<longrightarrow>
          Headers_get (req_headers (first_request e path options w)) n =
            Headers_get (merge_headers options) n)
   \<and> (\<exists>rest. fetched (snd (request e path options w)) =
          fetched w @ first_request e path options w # rest)
   \<and> Headers_get (merge_headers_dsa options) ''Accept'' =
        Headers_get (new_Headers (opt_headers options)) ''Accept''
   \<and> Headers_get (merge_headers_dsa options) ''Content-Type'' =
     (case Headers_get (new_Headers (opt_headers options)) ''Content-Type'' of
        Some v \<Rightarrow> Some v
      | None \<Rightarrow> if opt_body options \<noteq> FormData then Some ''application/json'' else None)
   \<and> (\<forall>n v. Headers_get (new_Headers (opt_headers options)) n = Some v \<longrightarrow>
          Headers_get (merge_headers_dsa options) n = Some v)
   \<and> (\<forall>n. toLowerCase n \<noteq> ''authorization'' \<longrightarrow>
          Headers_get (req_headers (first_request_dsa e path options w)) n =
            Headers_get (merge_headers_dsa options) n)
   \<and> (\<exists>rest. fetched (snd (apiRequest e path options w)) =
          fetched w @ first_request_dsa e path options w # rest)"
  using merge_headers_Accept [of options] merge_headers_Content_Type [of options]
    merge_headers_keeps [of options] request_sends_first [of e path options w]
    merge_headers_dsa_other [of "''Accept''" options] merge_headers_dsa_Content_Type [of options]
    merge_headers_dsa_keeps [of options] apiRequest_sends_first [of e path options w]
  by (simp add: first_request_def first_request_dsa_def attach_bearer_other lower_names)

theorem default_headers_witness:
  "Headers_get (new_Headers (opt_headers upload)) ''Accept'' = Some ''text/csv''
   \<and> toLowerCase ''Accept'' \<noteq> ''authorization''
   \<and> Headers_get (req_headers (first_request (demo_env offline) ''/tasks/'' upload alice_world)) ''Accept'' = Some ''text/csv''
   \<and> Headers_get (req_headers (first_request (demo_env offline) ''/tasks/'' upload alice_world)) ''Content-Type'' = Some ''application/json''
   \<and> Headers_get (req_headers (first_request_dsa (demo_env offline) ''/tasks/'' upload alice_world)) ''Accept'' = Some ''text/csv''"
proof -
  have a: "Headers_get (new_Headers (opt_headers upload)) ''Accept'' = Some ''text/csv''"
    and c: "Headers_get (new_Headers (opt_headers upload)) ''Content-Type'' = None"
    by (simp_all add: upload_def new_Headers_def Headers_append_def Headers_get_def Headers_set_def
        toLowerCase_def lower_char_def)
  have o: "opt_body upload \<noteq> FormData" "opt_method upload = Some ''POST''"
    by (simp_all add: upload_def)
  show ?thesis
    using default_headers [of upload "demo_env offline" "''/tasks/''" alice_world] a c o
    by (simp add: lower_names)
qed

text \<open>
  The claim as written fails for \<open>apiRequest\<close>: a plain \<open>GET\<close> with no headers of the
  caller's goes out without \<open>Accept\<close> and with a \<open>Content-Type\<close>.
\<close>

theorem apiRequest_headers_counterexample:
  "fetched (snd (apiRequest (demo_env offline) ''/tasks/'' default_options fresh_world)) =
     [first_request_dsa (demo_env offline) ''/tasks/'' default_options fresh_world]
   \<and> opt_headers default_options = [] \<and> opt_method default_options = None
   \<and> Headers_get (req_headers (first_request_dsa (demo_env offline) ''/tasks/'' default_options fresh_world))
        ''Accept'' = None
   \<and> Headers_get (req_headers (first_request_dsa (demo_env offline) ''/tasks/'' default_options fresh_world))
        ''Content-Type'' = Some ''application/json''"
  by (simp add: apiRequest_def Let_def fetch_def demo_env_simps offline_def fresh_world_def
      first_request_dsa_def default_options_def merge_headers_dsa_def attach_bearer_def
      getState_def readStorage_def new_Headers_def Headers_has_def Headers_get_def Headers_set_def
      toLowerCase_def lower_char_def)

section \<open>Reading the body\<close>

text \<open>
  Claim C5, as the code has it. \<open>r\<close> is the final response of a call to either client
  and \<open>w1\<close> the state in which the client has it; unless a refresh is due (a 401, auth
  required, a refresh token stored) that is the server's answer to the first request.
  A 204 gives \<open>undefined\<close> whatever
  the content type. For any other status the value read from the body is what the call
  returns (2xx) or what the typed error carries (any other status), and the state is
  left as it is in the first case. The body is read as JSON when the \<open>Content-Type\<close>
  contains \<open>application/json\<close> (and the exception of the parser is thrown when it does
  not parse), as text when the \<open>Content-Type\<close> is any other non-empty string. When
  there is no \<open>Content-Type\<close>, or an empty one, the frontend's \<open>request\<close> takes
  \<open>null\<close>, and the \<open>do-smart-ai\<close> \<open>apiRequest\<close> reads the body as text.
\<close>

theorem body_parsing:
  assumes "final_response c e path options w = Some (r, w1)"
    and "contentType = (case Headers_get (response_headers r) ''Content-Type'' of None \<Rightarrow> [] | Some v \<Rightarrow> v)"
  shows "(\<forall>first. server e (fetched w) (client_first_request c e path options w) = Resolved first
           \<and> (resp_status first \<noteq> 401 \<or> skipAuth options
                \<or> (\<forall>s. getState e w = Some s \<longrightarrow> \<not> truthy (refresh (tokens s)))) \<longrightarrow>
          r = first \<and> w1 = w\<lparr>fetched := fetched w @ [client_first_request c e path options w]\<rparr>)
   \<and> (resp_status r = 204 \<longrightarrow> client_request c e path options w = (Inr None, w1))
   \<and> (resp_status r \<noteq> 204 \<and> includes_str contentType ''application/json'' \<and> resp_json r = None \<longrightarrow>
        client_request c e path options w = (Inl JsonSyntaxError, w1))
   \<and> (\<forall>data. resp_status r \<noteq> 204
         \<and> (if includes_str contentType ''application/json'' then resp_json r = Some data
             else if contentType \<noteq> [] then data = JStr (resp_text r)
             else data = (case c of Frontend \<Rightarrow> JNull | DoSmartAi \<Rightarrow> JStr (resp_text r))) \<longrightarrow>
        (200 \<le> resp_status r \<and> resp_status r \<le> 299 \<longrightarrow>
           client_request c e path options w = (Inr (Some data), w1))
        \<and> (resp_status r < 200 \<or> 299 < resp_status r \<longrightarrow>
             (\<exists>message. fst (client_request c e path options w) =
                          Inl (ApiError message (resp_status r) data))))"
proof -
  note run = client_request_final [OF assms(1)]
  have none: "client_request c e path options w = (Inr None, w1)" if "resp_status r = 204"
    unfolding run using that by (rule client_settle_204)
  have thrown: "client_request c e path options w = (Inl JsonSyntaxError, w1)"
    if "resp_status r \<noteq> 204" "includes_str contentType ''application/json''" "resp_json r = None"
  proof -
    have "client_read_body c r = Inl JsonSyntaxError"
      using that(2,3) unfolding assms(2)
      by (auto simp: client_read_body_eq split: option.splits)
    then show ?thesis
      unfolding run using client_settle_throws [OF that(1)] by simp
  qed
  have read: "(200 \<le> resp_status r \<and> resp_status r \<le> 299 \<longrightarrow>
           client_request c e path options w = (Inr (Some data), w1))
        \<and> (resp_status r < 200 \<or> 299 < resp_status r \<longrightarrow>
             (\<exists>message. fst (client_request c e path options w) =
                          Inl (ApiError message (resp_status r) data)))"
    if "resp_status r \<noteq> 204"
      "if includes_str contentType ''application/json'' then resp_json r = Some data
       else if contentType \<noteq> [] then data = JStr (resp_text r)
       else data = (case c of Frontend \<Rightarrow> JNull | DoSmartAi \<Rightarrow> JStr (resp_text r))" for data
  proof -
    have b: "client_read_body c r = Inr data"
      using that(2) unfolding assms(2)
      by (auto simp: client_read_body_eq split: option.splits client.splits if_splits)
    show ?thesis
      unfolding run
      using client_settle_ok [OF that(1) _ b, of e "skipAuth options" w1]
        client_settle_error [OF that(1) _ b, of e "skipAuth options" w1]
      by (auto simp: ok_def)
  qed
  have first: "r = first \<and> w1 = w\<lparr>fetched := fetched w @ [client_first_request c e path options w]\<rparr>"
    if "server e (fetched w) (client_first_request c e path options w) = Resolved first"
      "resp_status first \<noteq> 401 \<or> skipAuth options
         \<or> (\<forall>s. getState e w = Some s \<longrightarrow> \<not> truthy (refresh (tokens s)))" for first
    using final_response_first [OF that] assms(1) by simp
  from first none thrown read show ?thesis by blast
qed

theorem body_parsing_witness:
  "final_response Frontend (demo_env deleting) ''/tasks/7/'' default_options fresh_world =
     Some (no_content,
           fresh_world\<lparr>fetched := [first_request (demo_env deleting) ''/tasks/7/'' default_options fresh_world]\<rparr>)
   \<and> server (demo_env deleting) (fetched fresh_world)
        (first_request (demo_env deleting) ''/tasks/7/'' default_options fresh_world) = Resolved no_content
   \<and> resp_status no_content = 204
   \<and> Headers_get (response_headers no_content) ''Content-Type'' = Some ''application/json''
   \<and> fst (client_request Frontend (demo_env deleting) ''/tasks/7/'' default_options fresh_world) = Inr None
   \<and> final_response Frontend (demo_env bare) ''/ping/'' default_options fresh_world =
     Some (pong,
           fresh_world\<lparr>fetched := [first_request (demo_env bare) ''/ping/'' default_options fresh_world]\<rparr>)
   \<and> resp_status pong = 200
   \<and> Headers_get (response_headers pong) ''Content-Type'' = None
   \<and> resp_text pong = ''pong''
   \<and> fst (client_request Frontend (demo_env bare) ''/ping/'' default_options fresh_world) = Inr (Some JNull)
   \<and> fst (client_request DoSmartAi (demo_env bare) ''/ping/'' default_options fresh_world) =
       Inr (Some (JStr ''pong''))"
proof -
  have n: "getState e fresh_world = None" for e
    by (simp add: getState_def readStorage_def fresh_world_def)
  have f: "fetched fresh_world = []"
    by (simp add: fresh_world_def)
  have v: "resp_status no_content = 204" "resp_status pong = 200" "resp_text pong = ''pong''"
    "Headers_get (response_headers pong) ''Content-Type'' = None"
    "Headers_get (response_headers no_content) ''Content-Type'' = Some ''application/json''"
    by (simp_all add: no_content_def pong_def response_headers_def new_Headers_def Headers_append_def
        Headers_get_def Headers_set_def toLowerCase_def lower_char_def)
  have d: "final_response c (demo_env deleting) ''/tasks/7/'' default_options fresh_world =
      Some (no_content,
            fresh_world\<lparr>fetched := [client_first_request c (demo_env deleting) ''/tasks/7/'' default_options fresh_world]\<rparr>)" for c
    using final_response_first [of "demo_env deleting" fresh_world c "''/tasks/7/''" default_options no_content]
    by (simp add: demo_env_simps deleting_def n f v del: client_first_request.simps)
  have b: "final_response c (demo_env bare) ''/ping/'' default_options fresh_world =
      Some (pong,
            fresh_world\<lparr>fetched := [client_first_request c (demo_env bare) ''/ping/'' default_options fresh_world]\<rparr>)" for c
    using final_response_first [of "demo_env bare" fresh_world c "''/ping/''" default_options pong]
    by (simp add: demo_env_simps bare_def n f v del: client_first_request.simps)
  show ?thesis
    using body_parsing [OF d [of Frontend] refl] body_parsing [OF b [of Frontend] refl]
      body_parsing [OF b [of DoSmartAi] refl] d [of Frontend] b [of Frontend] v
    by (simp add: demo_env_simps deleting_def del: client_request.simps)
qed

text \<open>
  The claim as written fails for \<open>apiRequest\<close>: a 200 without \<open>Content-Type\<close> gives
  the body's text, not \<open>null\<close>.
\<close>

theorem apiRequest_body_counterexample:
  "server (demo_env bare) [] (first_request_dsa (demo_env bare) ''/ping/'' default_options fresh_world)
     = Resolved pong
   \<and> resp_status pong = 200
   \<and> Headers_get (response_headers pong) ''Content-Type'' = None
   \<and> fst (apiRequest (demo_env bare) ''/ping/'' default_options fresh_world) = Inr (Some (JStr ''pong''))"
  by (simp add: apiRequest_def Let_def fetch_def demo_env_simps bare_def pong_def fresh_world_def
      settle_dsa_def read_body_dsa_def ok_def response_headers_def new_Headers_def Headers_get_def)

section \<open>The typed error\<close>

text \<open>
  Claim C2, as the code has it. \<open>r\<close> is the final response of a call to either client
  and \<open>w1\<close> the state in which the client has it; unless a refresh is due (a 401, auth
  required, a refresh token stored) that is the server's answer to the first request.
  Its status is neither 204 nor in 200..299, and \<open>data\<close> is its body, read without a
  parse error. The frontend's \<open>request\<close> then throws the \<open>ApiError\<close> whose status is
  the HTTP status, whose data is \<open>data\<close> and whose message is the body's \<open>detail\<close> if
  a string, else its \<open>message\<close> if a string, else \<open>Request failed with status N\<close>;
  and when the status is 401 and auth was required the session is cleared first. The
  \<open>do-smart-ai\<close> \<open>apiRequest\<close> throws the \<open>ApiError\<close> with the same status and
  data; its message is the string form of \<open>detail\<close> when that is there and not
  \<open>null\<close>, else of \<open>message\<close> likewise, else the generic string; and it leaves the
  store as it is.
\<close>

theorem typed_error:
  assumes "final_response c e path options w = Some (r, w1)"
    and "resp_status r \<noteq> 204" and "resp_status r < 200 \<or> 299 < resp_status r"
    and "contentType = (case Headers_get (response_headers r) ''Content-Type'' of None \<Rightarrow> [] | Some v \<Rightarrow> v)"
    and "if includes_str contentType ''application/json'' then resp_json r = Some data
         else if contentType \<noteq> [] then data = JStr (resp_text r)
         else data = (case c of Frontend \<Rightarrow> JNull | DoSmartAi \<Rightarrow> JStr (resp_text r))"
    and "detail = (case data of JObj body \<Rightarrow> map_of body ''detail'' | _ \<Rightarrow> None)"
    and "fallbackMessage = (case data of JObj body \<Rightarrow> map_of body ''message'' | _ \<Rightarrow> None)"
    and "generic = ''Request failed with status '' @ show_nat (resp_status r)"
  shows "(\<forall>first. server e (fetched w) (client_first_request c e path options w) = Resolved first
           \<and> (resp_status first \<noteq> 401 \<or> skipAuth options
                \<or> (\<forall>s. getState e w = Some s \<longrightarrow> \<not> truthy (refresh (tokens s)))) \<longrightarrow>
          r = first \<and> w1 = w\<lparr>fetched := fetched w @ [client_first_request c e path options w]\<rparr>)
    \<and> (c = Frontend \<longrightarrow>
          client_request c e path options w =
            (Inl (ApiError (case detail of
                              Some (JStr d) \<Rightarrow> d
                            | _ \<Rightarrow> (case fallbackMessage of Some (JStr m) \<Rightarrow> m | _ \<Rightarrow> generic))
                           (resp_status r) data),
             if resp_status r = 401 \<and> \<not> skipAuth options then clear e w1 else w1)
          \<and> (resp_status r = 401 \<and> \<not> skipAuth options \<longrightarrow>
                getState e (snd (client_request c e path options w)) = None))
    \<and> (c = DoSmartAi \<longrightarrow>
          client_request c e path options w =
            (Inl (ApiError (String_js (first_present [detail, fallbackMessage, Some (JStr generic)]))
                           (resp_status r) data),
             w1))"
proof -
  note run = client_request_final [OF assms(1)]
  have nok: "\<not> ok r"
    using assms(3) by (auto simp: ok_def)
  have b: "client_read_body c r = Inr data"
    using assms(5) unfolding assms(4)
    by (auto simp: client_read_body_eq split: option.splits client.splits if_splits)
  note thrown = client_settle_error [OF assms(2) nok b, of e "skipAuth options" w1]
  have first: "r = first \<and> w1 = w\<lparr>fetched := fetched w @ [client_first_request c e path options w]\<rparr>"
    if "server e (fetched w) (client_first_request c e path options w) = Resolved first"
      "resp_status first \<noteq> 401 \<or> skipAuth options
         \<or> (\<forall>s. getState e w = Some s \<longrightarrow> \<not> truthy (refresh (tokens s)))" for first
    using final_response_first [OF that] assms(1) by simp
  have m: "error_message (resp_status r) data =
      (case detail of
         Some (JStr d) \<Rightarrow> d
       | _ \<Rightarrow> (case fallbackMessage of Some (JStr m) \<Rightarrow> m | _ \<Rightarrow> generic))"
    unfolding assms(6,7,8) error_message_eq property_eq ..
  have m': "error_message_dsa (resp_status r) data =
      String_js (first_present [detail, fallbackMessage, Some (JStr generic)])"
    unfolding assms(6,7,8) error_message_dsa_eq property_eq ..
  have frontend: "client_request c e path options w =
            (Inl (ApiError (case detail of
                              Some (JStr d) \<Rightarrow> d
                            | _ \<Rightarrow> (case fallbackMessage of Some (JStr m) \<Rightarrow> m | _ \<Rightarrow> generic))
                           (resp_status r) data),
             if resp_status r = 401 \<and> \<not> skipAuth options then clear e w1 else w1)
          \<and> (resp_status r = 401 \<and> \<not> skipAuth options \<longrightarrow>
                getState e (snd (client_request c e path options w)) = None)"
    if "c = Frontend"
    unfolding run thrown using that by (simp add: m getState_clear)
  have dsa: "client_request c e path options w =
            (Inl (ApiError (String_js (first_present [detail, fallbackMessage, Some (JStr generic)]))
                           (resp_status r) data),
             w1)"
    if "c = DoSmartAi"
    unfolding run thrown using that by (simp add: m')
  from first frontend dsa show ?thesis by blast
qed

theorem typed_error_witness:
  "server (demo_env revoked) (fetched fresh_world)
     (client_first_request Frontend (demo_env revoked) ''/tasks/'' default_options fresh_world) =
       Resolved unauthorized
   \<and> getState (demo_env revoked) fresh_world = None
   \<and> final_response Frontend (demo_env revoked) ''/tasks/'' default_options fresh_world =
       Some (unauthorized,
             fresh_world\<lparr>fetched :=
               [client_first_request Frontend (demo_env revoked) ''/tasks/'' default_options fresh_world]\<rparr>)
   \<and> resp_status unauthorized = 401
   \<and> Headers_get (response_headers unauthorized) ''Content-Type'' = Some ''application/json''
   \<and> resp_json unauthorized = Some (JObj [(''detail'', JStr ''Token expired'')])
   \<and> \<not> skipAuth default_options
   \<and> client_request Frontend (demo_env revoked) ''/tasks/'' default_options fresh_world =
       (Inl (ApiError ''Token expired'' 401 (JObj [(''detail'', JStr ''Token expired'')])),
        clear (demo_env revoked)
          (fresh_world\<lparr>fetched :=
             [client_first_request Frontend (demo_env revoked) ''/tasks/'' default_options fresh_world]\<rparr>))
   \<and> client_request DoSmartAi (demo_env revoked) ''/tasks/'' default_options fresh_world =
       (Inl (ApiError ''Token expired'' 401 (JObj [(''detail'', JStr ''Token expired'')])),
        fresh_world\<lparr>fetched :=
          [client_first_request DoSmartAi (demo_env revoked) ''/tasks/'' default_options fresh_world]\<rparr>)"
proof -
  have n: "getState e fresh_world = None" for e
    by (simp add: getState_def readStorage_def fresh_world_def)
  have f: "fetched fresh_world = []"
    by (simp add: fresh_world_def)
  have skip: "\<not> skipAuth default_options"
    by (simp add: default_options_def)
  have s: "server (demo_env revoked) (fetched fresh_world)
      (client_first_request c (demo_env revoked) ''/tasks/'' default_options fresh_world) = Resolved unauthorized" for c
    by (simp add: demo_env_simps revoked_def)
  have d: "final_response c (demo_env revoked) ''/tasks/'' default_options fresh_world =
      Some (unauthorized,
            fresh_world\<lparr>fetched := [client_first_request c (demo_env revoked) ''/tasks/'' default_options fresh_world]\<rparr>)" for c
    using final_response_first [OF s [of c]] by (simp add: n f del: client_first_request.simps)
  have r: "resp_status unauthorized \<noteq> 204" "resp_status unauthorized < 200 \<or> 299 < resp_status unauthorized"
    by (simp_all add: unauthorized_facts)
  have j: "if includes_str (case Headers_get (response_headers unauthorized) ''Content-Type'' of
                              None \<Rightarrow> [] | Some v \<Rightarrow> v) ''application/json''
      then resp_json unauthorized = Some (JObj [(''detail'', JStr ''Token expired'')])
      else if (case Headers_get (response_headers unauthorized) ''Content-Type'' of
                 None \<Rightarrow> [] | Some v \<Rightarrow> v) \<noteq> []
      then JObj [(''detail'', JStr ''Token expired'')] = JStr (resp_text unauthorized)
      else JObj [(''detail'', JStr ''Token expired'')] =
             (case c of Frontend \<Rightarrow> JNull | DoSmartAi \<Rightarrow> JStr (resp_text unauthorized))" for c
    by (simp add: unauthorized_header)
  show ?thesis
    using typed_error [OF d [of Frontend] r refl j [of Frontend] refl refl refl]
      typed_error [OF d [of DoSmartAi] r refl j [of DoSmartAi] refl refl refl]
      s [of Frontend] d [of Frontend] n [of "demo_env revoked"] skip
    by (simp add: unauthorized_facts unauthorized_header
        del: client_request.simps client_first_request.simps)
qed

text \<open>
  The claim as written fails for \<open>apiRequest\<close>: with auth required, a 401 that comes
  back again after a granted refresh is thrown as the typed error while the session,
  with the new access token, stays stored.
\<close>

theorem apiRequest_keeps_session_counterexample:
  "\<not> skipAuth default_options
   \<and> fst (apiRequest (demo_env locked) ''/tasks/'' default_options alice_world) =
       Inl (ApiError ''Token expired'' 401 (JObj [(''detail'', JStr ''Token expired'')]))
   \<and> getState (demo_env locked) (snd (apiRequest (demo_env locked) ''/tasks/'' default_options alice_world)) =
       Some \<lparr> tokens = \<lparr> access = Some (JStr ''A2''), refresh = Some (JStr ''R1'') \<rparr>, user = user alice \<rparr>"
proof -
  have "\<not> skipAuth default_options"
    by (simp add: default_options_def)
  then show ?thesis
    using client_settle_error [where c = DoSmartAi and r = unauthorized
        and data = "JObj [(''detail'', JStr ''Token expired'')]"]
      unauthorized_facts(2,3) [of DoSmartAi]
    by (simp add: locked_run settle_dsa_world getState_fetched_update getState_setState codec_ok_demo
        isBrowser_alice_world unauthorized_facts ok_def)
qed

section \<open>Login\<close>

text \<open>
  Claim C8 (the frontend's \<open>djangoApi.auth.login\<close>), in a browser whose JSON codec
  round-trips a stored session. The backend answers the login request with a 2xx
  status other than 204 and a JSON body \<open>reply\<close> whose \<open>user\<close> is an object \<open>u\<close>.
  Then the call returns the session made of the reply's \<open>access\<close> and \<open>refresh\<close> and
  of the normalised user: the \<open>id\<close> of \<open>u\<close> as a string, its \<open>email\<close> or else the
  empty string, its \<open>name\<close> or else its \<open>email\<close> or else the empty string. A
  \<open>getSession()\<close> after the call returns that same session: the call has stored it.
  For the reply \<open>{access:"A1", refresh:"R1", user:{id:7, email:"a@b.com"}}\<close> this is
  \<open>{accessToken:"A1", refreshToken:"R1", user:{id:"7", email:"a@b.com",
  name:"a@b.com"}}\<close>.
\<close>

theorem login_persists_session:
  assumes "codec_ok e" and "isBrowser w"
    and "server e (fetched w) (login_request e email password) = Resolved r"
    and "200 \<le> resp_status r \<and> resp_status r \<le> 299" and "resp_status r \<noteq> 204"
    and "Headers_get (response_headers r) ''Content-Type'' = Some contentType"
    and "includes_str contentType ''application/json''"
    and "resp_json r = Some (JObj reply)" and "map_of reply ''user'' = Some (JObj u)"
    and "session =
           \<lparr> accessToken = map_of reply ''access'', refreshToken = map_of reply ''refresh'',
             sessionUser =
               \<lparr> user_id = String_js (map_of u ''id''),
                 user_email = first_present [map_of u ''email'', Some (JStr [])],
                 user_name = first_present [map_of u ''name'', map_of u ''email'', Some (JStr [])] \<rparr> \<rparr>"
  shows "fst (login e email password w) = Inr session
    \<and> getSession e (snd (login e email password w)) = Some session
    \<and> (reply = [(''access'', JStr ''A1''), (''refresh'', JStr ''R1''),
                 (''user'', JObj [(''id'', JNum 7), (''email'', JStr ''a@b.com'')])] \<longrightarrow>
         getSession e (snd (login e email password w)) =
           Some \<lparr> accessToken = Some (JStr ''A1''), refreshToken = Some (JStr ''R1''),
                  sessionUser = \<lparr> user_id = ''7'', user_email = Some (JStr ''a@b.com''),
                                  user_name = Some (JStr ''a@b.com'') \<rparr> \<rparr>)"
proof -
  let ?w1 = "w\<lparr>fetched := fetched w @ [login_request e email password]\<rparr>"
  define usr where "usr =
    \<lparr> user_id = String_js (map_of u ''id''),
      user_email = first_present [map_of u ''email'', Some (JStr [])],
      user_name = first_present [map_of u ''name'', map_of u ''email'', Some (JStr [])] \<rparr>"
  let ?s = "\<lparr> tokens = \<lparr> access = map_of reply ''access'', refresh = map_of reply ''refresh'' \<rparr>,
             user = usr \<rparr>"
  have session: "session =
      \<lparr> accessToken = map_of reply ''access'', refreshToken = map_of reply ''refresh'',
        sessionUser = usr \<rparr>"
    unfolding assms(10) usr_def ..
  have ok: "ok r"
    using assms(4) by (simp add: ok_def)
  have body: "read_body r = Inr (JObj reply)"
    using assms(6,7,8) by (simp add: read_body_def)
  have u: "normalizeUser (property (JObj reply) ''user'') = Inr usr"
    using assms(9) unfolding usr_def by (simp add: normalizeUser_object del: first_present.simps)
  have run: "login e email password w = (Inr session, setState e ?s ?w1)"
    using login_unfold [OF assms(3) ok assms(5) body _ u] by (simp add: session)
  have "isBrowser ?w1" using assms(2) by simp
  then have stored: "getState e (setState e ?s ?w1) = Some ?s"
    using assms(1) by (simp add: getState_setState)
  have got: "getSession e (snd (login e email password w)) = Some session"
    by (simp add: run getSession_def stored session)
  have example: "getSession e (snd (login e email password w)) =
           Some \<lparr> accessToken = Some (JStr ''A1''), refreshToken = Some (JStr ''R1''),
                  sessionUser = \<lparr> user_id = ''7'', user_email = Some (JStr ''a@b.com''),
                                  user_name = Some (JStr ''a@b.com'') \<rparr> \<rparr>"
    if d: "reply = [(''access'', JStr ''A1''), (''refresh'', JStr ''R1''),
                    (''user'', JObj [(''id'', JNum 7), (''email'', JStr ''a@b.com'')])]"
  proof -
    have "u = [(''id'', JNum 7), (''email'', JStr ''a@b.com'')]"
      using assms(9) d by simp
    moreover have "show_int 7 = ''7''"
      by (simp add: show_int_def show_nat.simps digit_char_def)
    ultimately show ?thesis
      unfolding got by (simp add: assms(10) d)
  qed
  from run have "fst (login e email password w) = Inr session"
    by simp
  with got example show ?thesis by blast
qed

theorem login_persists_session_witness:
  "codec_ok (demo_env mock_backend) \<and> isBrowser fresh_world
   \<and> server (demo_env mock_backend) (fetched fresh_world)
        (login_request (demo_env mock_backend) ''a@b.com'' ''pw'') = Resolved login_response
   \<and> resp_status login_response = 200
   \<and> Headers_get (response_headers login_response) ''Content-Type'' = Some ''application/json''
   \<and> includes_str ''application/json'' ''application/json''
   \<and> resp_json login_response =
       Some (JObj [(''access'', JStr ''A1''), (''refresh'', JStr ''R1''),
                   (''user'', JObj [(''id'', JNum 7), (''email'', JStr ''a@b.com'')])])
   \<and> getSession (demo_env mock_backend) fresh_world = None
   \<and> fst (login (demo_env mock_backend) ''a@b.com'' ''pw'' fresh_world) =
       Inr \<lparr> accessToken = Some (JStr ''A1''), refreshToken = Some (JStr ''R1''),
             sessionUser = \<lparr> user_id = ''7'', user_email = Some (JStr ''a@b.com''),
                             user_name = Some (JStr ''a@b.com'') \<rparr> \<rparr>
   \<and> getSession (demo_env mock_backend)
        (snd (login (demo_env mock_backend) ''a@b.com'' ''pw'' fresh_world)) =
       Some \<lparr> accessToken = Some (JStr ''A1''), refreshToken = Some (JStr ''R1''),
              sessionUser = \<lparr> user_id = ''7'', user_email = Some (JStr ''a@b.com''),
                              user_name = Some (JStr ''a@b.com'') \<rparr> \<rparr>"
proof -
  have b: "isBrowser fresh_world" by (simp add: fresh_world_def)
  have s: "server (demo_env mock_backend) (fetched fresh_world)
             (login_request (demo_env mock_backend) ''a@b.com'' ''pw'') = Resolved login_response"
    by (simp add: demo_env_simps mock_backend_def)
  have st: "200 \<le> resp_status login_response \<and> resp_status login_response \<le> 299"
    "resp_status login_response \<noteq> 204" "resp_status login_response = 200"
    by (simp_all add: login_response_def mock_backend_facts)
  have h: "Headers_get (response_headers login_response) ''Content-Type'' = Some ''application/json''"
    by (simp add: login_response_def mock_backend_facts)
  have i: "includes_str ''application/json'' ''application/json''"
    by simp
  have j: "resp_json login_response =
       Some (JObj [(''access'', JStr ''A1''), (''refresh'', JStr ''R1''),
                   (''user'', JObj [(''id'', JNum 7), (''email'', JStr ''a@b.com'')])])"
    by (simp add: login_response_def mock_backend_facts login_reply_def)
  have u: "map_of [(''access'', JStr ''A1''), (''refresh'', JStr ''R1''),
                   (''user'', JObj [(''id'', JNum 7), (''email'', JStr ''a@b.com'')])] ''user'' =
       Some (JObj [(''id'', JNum 7), (''email'', JStr ''a@b.com'')])"
    by simp
  have n: "getSession (demo_env mock_backend) fresh_world = None"
    by (simp add: getSession_def getState_def readStorage_def fresh_world_def)
  have seven: "show_int 7 = ''7''"
    by (simp add: show_int_def show_nat.simps digit_char_def)
  show ?thesis
    using login_persists_session [OF codec_ok_demo b s st(1,2) h i j u refl]
      codec_ok_demo [of mock_backend] b s n st(3) h i j
    by (simp add: seven)
qed

section \<open>The current user\<close>

text \<open>
  Claim C9, for \<open>getCurrentUser\<close> of either client. \<open>res\<close> is how the request to
  \<open>/auth/me/\<close> ended and \<open>w1\<close> the state it left. The call never throws a typed
  error of status 401. When the request threw one, the call clears the session and
  returns \<open>null\<close>. Any other error thrown by the request is thrown on as it is, and so
  is the \<open>TypeError\<close> of reading an answer that is \<open>undefined\<close> or \<open>null\<close>; the state
  is then the one the request left. When the request returned any other value \<open>data\<close>,
  the call returns the normalised user \<open>u\<close>: its \<open>id\<close> is that of \<open>data\<close> as a string;
  in the frontend its \<open>email\<close> is that of \<open>data\<close> or else the empty string and its
  \<open>name\<close> the first there is of the \<open>name\<close> of \<open>data\<close>, the \<open>name\<close> of its
  \<open>profile\<close>, its \<open>email\<close> and the empty string; in \<open>do-smart-ai\<close> its \<open>email\<close> is
  that of \<open>data\<close> and its \<open>name\<close> that of \<open>data\<close> or else its \<open>email\<close>. The stored
  session, if there is one, then keeps its tokens and has that user.
\<close>

theorem getCurrentUser_outcomes:
  assumes "client_request c e ''/auth/me/'' default_options w = (res, w1)"
  shows "(\<forall>m d. fst (client_getCurrentUser c e w) \<noteq> Inl (ApiError m 401 d))
    \<and> (\<forall>m d. res = Inl (ApiError m 401 d) \<longrightarrow>
          client_getCurrentUser c e w = (Inr None, clear e w1)
          \<and> getState e (snd (client_getCurrentUser c e w)) = None)
    \<and> (\<forall>err. res = Inl err \<and> (\<forall>m d. err \<noteq> ApiError m 401 d) \<longrightarrow>
          client_getCurrentUser c e w = (Inl err, w1))
    \<and> (res = Inr None \<or> res = Inr (Some JNull) \<longrightarrow>
          client_getCurrentUser c e w = (Inl TypeError, w1))
    \<and> (\<forall>data field u.
          res = Inr (Some data) \<and> data \<noteq> JNull
          \<and> field = (\<lambda>k. case data of JObj body \<Rightarrow> map_of body k | _ \<Rightarrow> None)
          \<and> u = (case c of
                   Frontend \<Rightarrow>
                     \<lparr> user_id = String_js (field ''id''),
                       user_email = first_present [field ''email'', Some (JStr [])],
                       user_name = first_present
                         [field ''name'',
                          (case field ''profile'' of Some (JObj profile) \<Rightarrow> map_of profile ''name'' | _ \<Rightarrow> None),
                          field ''email'', Some (JStr [])] \<rparr>
                 | DoSmartAi \<Rightarrow>
                     \<lparr> user_id = String_js (field ''id''),
                       user_email = field ''email'',
                       user_name = first_present [field ''name'', field ''email''] \<rparr>) \<longrightarrow>
          client_getCurrentUser c e w = (Inr (Some u), updateUser e u w1)
          \<and> (\<forall>s. codec_ok e \<and> getState e w1 = Some s \<longrightarrow>
                getState e (snd (client_getCurrentUser c e w)) = Some (s\<lparr>user := u\<rparr>))
          \<and> (getState e w1 = None \<longrightarrow> snd (client_getCurrentUser c e w) = w1))"
proof -
  have never: "fst (client_getCurrentUser c e w) \<noteq> Inl (ApiError m 401 d)" for m d
  proof (cases res)
    case (Inl err)
    then show ?thesis
      using client_getCurrentUser_error [of c e w err w1] assms by (simp add: on_error_never_401)
  next
    case (Inr data)
    show ?thesis
    proof (cases "data = None \<or> data = Some JNull")
      case True
      then show ?thesis
        using client_getCurrentUser_nothing [of c e w data w1] assms Inr by simp
    next
      case False
      then obtain j where "data = Some j" "j \<noteq> JNull" by auto
      then show ?thesis
        using client_getCurrentUser_user [OF _ _ refl, of c e w j w1] assms Inr by simp
    qed
  qed
  have denied: "client_getCurrentUser c e w = (Inr None, clear e w1)
      \<and> getState e (snd (client_getCurrentUser c e w)) = None"
    if "res = Inl (ApiError m 401 d)" for m d
    using client_getCurrentUser_error [of c e w "ApiError m 401 d" w1] assms that
    by (simp add: on_error_401 getState_clear)
  have rethrown: "client_getCurrentUser c e w = (Inl err, w1)"
    if "res = Inl err" "\<forall>m d. err \<noteq> ApiError m 401 d" for err
    using client_getCurrentUser_error [of c e w err w1] assms that
    by (simp add: on_error_other)
  have absent: "client_getCurrentUser c e w = (Inl TypeError, w1)"
    if "res = Inr None \<or> res = Inr (Some JNull)"
    using that client_getCurrentUser_nothing [of c e w _ w1] assms by auto
  have success: "client_getCurrentUser c e w = (Inr (Some u), updateUser e u w1)
          \<and> (\<forall>s. codec_ok e \<and> getState e w1 = Some s \<longrightarrow>
                getState e (snd (client_getCurrentUser c e w)) = Some (s\<lparr>user := u\<rparr>))
          \<and> (getState e w1 = None \<longrightarrow> snd (client_getCurrentUser c e w) = w1)"
    if "res = Inr (Some data)" "data \<noteq> JNull"
      "field = (\<lambda>k. case data of JObj body \<Rightarrow> map_of body k | _ \<Rightarrow> None)"
      "u = (case c of
              Frontend \<Rightarrow>
                \<lparr> user_id = String_js (field ''id''),
                  user_email = first_present [field ''email'', Some (JStr [])],
                  user_name = first_present
                    [field ''name'',
                     (case field ''profile'' of Some (JObj profile) \<Rightarrow> map_of profile ''name'' | _ \<Rightarrow> None),
                     field ''email'', Some (JStr [])] \<rparr>
            | DoSmartAi \<Rightarrow>
                \<lparr> user_id = String_js (field ''id''),
                  user_email = field ''email'',
                  user_name = first_present [field ''name'', field ''email''] \<rparr>)" for data field u
  proof -
    have f: "field = property data"
      unfolding that(3) by (rule ext) (simp add: property_eq)
    have r: "client_request c e ''/auth/me/'' default_options w = (Inr (Some data), w1)"
      using assms that(1) by simp
    have run: "client_getCurrentUser c e w = (Inr (Some u), updateUser e u w1)"
      by (rule client_getCurrentUser_user [OF r that(2)]) (unfold that(4) f, rule refl)
    have "getState e (updateUser e u w1) = Some (s\<lparr>user := u\<rparr>)"
      if "codec_ok e" "getState e w1 = Some s" for s
      using that getState_isBrowser [OF that(2)]
      by (simp add: updateUser_eq getState_setState)
    then show ?thesis
      by (simp add: run updateUser_none)
  qed
  have N: "\<forall>m d. fst (client_getCurrentUser c e w) \<noteq> Inl (ApiError m 401 d)"
    using never by blast
  have D: "\<forall>m d. res = Inl (ApiError m 401 d) \<longrightarrow>
          client_getCurrentUser c e w = (Inr None, clear e w1)
          \<and> getState e (snd (client_getCurrentUser c e w)) = None"
    using denied by blast
  have R: "\<forall>err. res = Inl err \<and> (\<forall>m d. err \<noteq> ApiError m 401 d) \<longrightarrow>
          client_getCurrentUser c e w = (Inl err, w1)"
    using rethrown by blast
  have T: "res = Inr None \<or> res = Inr (Some JNull) \<longrightarrow>
          client_getCurrentUser c e w = (Inl TypeError, w1)"
    by (rule impI) (rule absent)
  have S: "\<forall>data field u.
          res = Inr (Some data) \<and> data \<noteq> JNull
          \<and> field = (\<lambda>k. case data of JObj body \<Rightarrow> map_of body k | _ \<Rightarrow> None)
          \<and> u = (case c of
                   Frontend \<Rightarrow>
                     \<lparr> user_id = String_js (field ''id''),
                       user_email = first_present [field ''email'', Some (JStr [])],
                       user_name = first_present
                         [field ''name'',
                          (case field ''profile'' of Some (JObj profile) \<Rightarrow> map_of profile ''name'' | _ \<Rightarrow> None),
                          field ''email'', Some (JStr [])] \<rparr>
                 | DoSmartAi \<Rightarrow>
                     \<lparr> user_id = String_js (field ''id''),
                       user_email = field ''email'',
                       user_name = first_present [field ''name'', field ''email''] \<rparr>) \<longrightarrow>
          client_getCurrentUser c e w = (Inr (Some u), updateUser e u w1)
          \<and> (\<forall>s. codec_ok e \<and> getState e w1 = Some s \<longrightarrow>
                getState e (snd (client_getCurrentUser c e w)) = Some (s\<lparr>user := u\<rparr>))
          \<and> (getState e w1 = None \<longrightarrow> snd (client_getCurrentUser c e w) = w1)"
    by (intro allI impI; elim conjE; rule success; assumption)
  show ?thesis
    by (rule conjI [OF N conjI [OF D conjI [OF R conjI [OF T S]]]])
qed

theorem getCurrentUser_outcomes_witness:
  "fst (client_request Frontend (demo_env revoked) ''/auth/me/'' default_options alice_world) =
     Inl (ApiError ''Token expired'' 401 (JObj [(''detail'', JStr ''Token expired'')]))
   \<and> getState (demo_env revoked) alice_world = Some alice
   \<and> fst (client_getCurrentUser Frontend (demo_env revoked) alice_world) = Inr None
   \<and> getState (demo_env revoked) (snd (client_getCurrentUser Frontend (demo_env revoked) alice_world)) = None
   \<and> codec_ok (demo_env profile_backend)
   \<and> client_request Frontend (demo_env profile_backend) ''/auth/me/'' default_options alice_world =
       (Inr (Some (JObj [(''id'', JNum 7), (''email'', JStr ''a@b.com''),
                         (''profile'', JObj [(''name'', JStr ''Alice'')])])),
        alice_world\<lparr>fetched := [me_request Frontend]\<rparr>)
   \<and> getState (demo_env profile_backend) (alice_world\<lparr>fetched := [me_request Frontend]\<rparr>) = Some alice
   \<and> fst (client_getCurrentUser Frontend (demo_env profile_backend) alice_world) =
       Inr (Some \<lparr> user_id = ''7'', user_email = Some (JStr ''a@b.com''),
                   user_name = Some (JStr ''Alice'') \<rparr>)
   \<and> getState (demo_env profile_backend)
        (snd (client_getCurrentUser Frontend (demo_env profile_backend) alice_world)) =
       Some \<lparr> tokens = \<lparr> access = Some (JStr ''A1''), refresh = Some (JStr ''R1'') \<rparr>,
              user = \<lparr> user_id = ''7'', user_email = Some (JStr ''a@b.com''),
                       user_name = Some (JStr ''Alice'') \<rparr> \<rparr>
   \<and> fst (client_getCurrentUser DoSmartAi (demo_env profile_backend) alice_world) =
       Inr (Some \<lparr> user_id = ''7'', user_email = Some (JStr ''a@b.com''),
                   user_name = Some (JStr ''a@b.com'') \<rparr>)"
proof -
  have skip: "\<not> skipAuth default_options" by (simp add: default_options_def)
  have seven: "show_int 7 = ''7''"
    by (simp add: show_int_def show_nat.simps digit_char_def)
  show ?thesis
    using getCurrentUser_outcomes [OF surjective_pairing, of Frontend "demo_env revoked" alice_world]
      getCurrentUser_outcomes [OF profile_run, of Frontend]
      getCurrentUser_outcomes [OF profile_run, of DoSmartAi]
      revoked_run [OF skip, of Frontend "''/auth/me/''"] getState_alice_world [of revoked]
      codec_ok_demo [of profile_backend] profile_run [of Frontend]
    by (simp add: getState_clear getState_alice_sent me_reply_def seven
        updateUser_eq [OF getState_alice_sent] getState_setState codec_ok_demo isBrowser_alice_world
        alice_def
        del: client_request.simps client_getCurrentUser.simps)
qed

section \<open>The assistant's progress report\<close>

text \<open>
  Claim C10, as the code has it. For a message whose lower-case form contains
  \<open>progress\<close> or \<open>status\<close> and none of \<open>priority\<close>, \<open>first\<close>, \<open>important\<close>,
  \<open>overdue\<close>, \<open>late\<close>, the answer is the progress report for the number of completed
  tasks and the number of tasks, whatever the clock and the random number are. Its
  percentage is 0 for the empty list, where nothing is divided. For a non-empty list it
  is \<open>Math.round\<close> of the double \<open>(completedCount / totalCount) * 100\<close>: this is
  \<open>100 * completedCount / totalCount\<close> rounded half up, which as a quotient of naturals
  is \<open>(200 * completedCount + totalCount) div (2 * totalCount)\<close>, whenever the exact
  value is not halfway between two integers, and in any case that value or one less.
\<close>

theorem assistant_progress:
  assumes "includes_str (toLowerCase message) ''progress'' \<or> includes_str (toLowerCase message) ''status''"
    and "\<not> includes_str (toLowerCase message) ''priority''"
    and "\<not> includes_str (toLowerCase message) ''first''"
    and "\<not> includes_str (toLowerCase message) ''important''"
    and "\<not> includes_str (toLowerCase message) ''overdue''"
    and "\<not> includes_str (toLowerCase message) ''late''"
    and "completedCount = length (filter (\<lambda>t. task_status t = ''completed'') tasks)"
    and "totalCount = length tasks"
    and "totalCount < 2 ^ 32"
  shows "askAssistant a message tasks =
           progress_report completedCount totalCount (percentage_of completedCount totalCount)
    \<and> askAssistant a' message tasks = askAssistant a message tasks
    \<and> (tasks = [] \<longrightarrow> percentage_of completedCount totalCount = 0)
    \<and> (tasks \<noteq> [] \<longrightarrow>
          percentage_of completedCount totalCount \<le> (200 * completedCount + totalCount) div (2 * totalCount)
          \<and> (200 * completedCount + totalCount) div (2 * totalCount) \<le> percentage_of completedCount totalCount + 1
          \<and> (\<not> 2 * totalCount dvd 200 * completedCount + totalCount \<longrightarrow>
                percentage_of completedCount totalCount =
                  (200 * completedCount + totalCount) div (2 * totalCount)))"
proof -
  have run: "askAssistant b message tasks =
      progress_report completedCount totalCount (percentage_of completedCount totalCount)" for b
    unfolding assms(7,8) using assms(1-6) by (rule askAssistant_progress)
  have empty: "percentage_of completedCount totalCount = 0" if "tasks = []"
    using that assms(7,8) by (simp add: percentage_of_def)
  have le: "completedCount \<le> totalCount"
    unfolding assms(7,8) by (rule length_filter_le)
  have "0 < totalCount" if "tasks \<noteq> []"
    using that assms(8) by simp
  from percentage_of_round [OF this le assms(9)] run empty show ?thesis
    by simp
qed

theorem assistant_progress_witness:
  "includes_str (toLowerCase ''How is my progress?'') ''progress''
   \<and> length three_tasks < 2 ^ 32 \<and> three_tasks \<noteq> []
   \<and> \<not> 2 * length three_tasks dvd
         200 * length (filter (\<lambda>t. task_status t = ''completed'') three_tasks) + length three_tasks
   \<and> percentage_of (length (filter (\<lambda>t. task_status t = ''completed'') three_tasks)) (length three_tasks) = 33
   \<and> askAssistant some_day ''How is my progress?'' three_tasks =
       ''You've completed 1 out of 3 tasks (33%). Keep going!''"
proof -
  have c: "length (filter (\<lambda>t. task_status t = ''completed'') three_tasks) = 1" "length three_tasks = 3"
    by (simp_all add: three_tasks_def done_task_def open_task_def)
  have n: "three_tasks \<noteq> []" by (simp add: three_tasks_def)
  have d: "\<not> (6::nat) dvd 203" by presburger
  have r: "progress_report 1 3 33 = ''You've completed 1 out of 3 tasks (33%). Keep going!''"
    by (simp add: progress_report_def show_nat.simps digit_char_def)
  show ?thesis
    using assistant_progress [OF disjI1 [OF progress_words(1)] progress_words(2-6) c(1) [symmetric] c(2) [symmetric],
        of some_day some_day] progress_words(1) n d r
    by (simp add: c)
qed

text \<open>
  The claim as written, that the percentage is the exact value rounded, fails on forty
  tasks of which twenty-three are completed: the exact value is 57.5, which rounds to
  58; the double \<open>(23 / 40) * 100\<close> is below 57.5, and the report says 57.
\<close>

theorem assistant_percentage_counterexample:
  "length forty_tasks = 40
   \<and> length (filter (\<lambda>t. task_status t = ''completed'') forty_tasks) = 23
   \<and> (200 * 23 + 40) div (2 * 40) = (58::nat)
   \<and> askAssistant some_day ''How is my progress?'' forty_tasks =
       ''You've completed 23 out of 40 tasks (57%). Good momentum!''"
proof -
  have "askAssistant some_day ''How is my progress?'' forty_tasks = progress_report 23 40 57"
    using askAssistant_progress [of "''How is my progress?''" some_day forty_tasks] progress_words
    by (simp add: forty_counts percentage_of_23_40)
  moreover have "progress_report 23 40 57 = ''You've completed 23 out of 40 tasks (57%). Good momentum!''"
    by (simp add: progress_report_def show_nat.simps digit_char_def)
  ultimately show ?thesis
    by (simp add: forty_counts)
qed

end
